theory Spec2Isabelle
  imports Main "HOL-Library.Log_Nat"
begin

section \<open>Travel planner chat client: the query lifecycle of \<open>static/app.js\<close>\<close>

text \<open>
  The client is a single-threaded, event-driven script. Its module variables and the
  parts of the document it reads and writes are the fields of one state record; every
  handler, and every segment of an \<open>async\<close> function between two \<open>await\<close>s, is a
  function from state to state. What the script sends out (HTTP requests, WebSocket
  constructor and \<open>close()\<close> calls, timers) is appended to a log kept in the state.
  Console logging is not modelled.
\<close>

subsection \<open>Strings\<close>

text \<open>
  A JavaScript string is a sequence of UTF-16 code units, here natural numbers. ASCII
  literals of the source are written through \<open>js\<close>; the other literals are listed with
  their code units.
\<close>

type_synonym jsstring = "nat list"

definition js :: "string \<Rightarrow> jsstring" where
  "js s = map of_char s"

text \<open>
  \<open>String.prototype.trim\<close> removes leading and trailing WhiteSpace and LineTerminator
  code points (ECMAScript: TAB, VT, FF, SP, NBSP, ZWNBSP, the category Zs, LF, CR, LS, PS).
\<close>

definition is_js_space :: "nat \<Rightarrow> bool" where
  "is_js_space c \<longleftrightarrow>
     c \<in> {0x09, 0x0A, 0x0B, 0x0C, 0x0D, 0x20, 0xA0, 0x1680, 0x2028, 0x2029, 0x202F, 0x205F,
          0x3000, 0xFEFF} \<or> (0x2000 \<le> c \<and> c \<le> 0x200A)"

definition trim :: "jsstring \<Rightarrow> jsstring" where
  "trim s = rev (dropWhile is_js_space (rev (dropWhile is_js_space s)))"

text \<open>The decimal digits of a natural number.\<close>

fun digits :: "nat \<Rightarrow> jsstring" where
  "digits n = (if n < 10 then [48 + n] else digits (n div 10) @ [48 + n mod 10])"

declare digits.simps [simp del]

subsection \<open>String literals of the source\<close>

definition txt_mcp_uninitialised :: jsstring where \<comment> \<open>string literal, app.js line 34\<close>
  "txt_mcp_uninitialised =
   [0x4D, 0x43, 0x50, 0x5BA2, 0x6237, 0x7AEF, 0x672A, 0x521D, 0x59CB, 0x5316, 0xFF0C,
    0x90E8, 0x5206, 0x529F, 0x80FD, 0x53EF, 0x80FD, 0x4E0D, 0x53EF, 0x7528]"

definition txt_memory_unavailable :: jsstring where \<comment> \<open>string literal, app.js line 42\<close>
  "txt_memory_unavailable =
   [0x8BB0, 0x5FC6, 0x670D, 0x52A1, 0x4E0D, 0x53EF, 0x7528, 0xFF0C, 0x90E8, 0x5206, 0x529F,
    0x80FD, 0x53D7, 0x9650]"

definition txt_api_unavailable :: jsstring where \<comment> \<open>string literal, app.js line 45\<close>
  "txt_api_unavailable =
   [0x41, 0x50, 0x49, 0x670D, 0x52A1, 0x4E0D, 0x53EF, 0x7528]"

definition txt_cannot_connect :: jsstring where \<comment> \<open>string literal, app.js line 49\<close>
  "txt_cannot_connect =
   [0x65E0, 0x6CD5, 0x8FDE, 0x63A5, 0x5230, 0x670D, 0x52A1, 0x5668]"

definition txt_service_not_ready :: jsstring where \<comment> \<open>string literal, app.js line 97\<close>
  "txt_service_not_ready =
   [0x670D, 0x52A1, 0x672A, 0x5B8C, 0x5168, 0x521D, 0x59CB, 0x5316, 0xFF0C, 0x8BF7, 0x91CD,
    0x542F, 0x670D, 0x52A1, 0x5668, 0x540E, 0x518D, 0x8BD5]"

definition txt_query_failed_prefix :: jsstring where \<comment> \<open>string literal, app.js line 102\<close>
  "txt_query_failed_prefix =
   [0x67E5, 0x8BE2, 0x5931, 0x8D25, 0x3A, 0x20]"

definition txt_unknown_error :: jsstring where \<comment> \<open>string literal, app.js line 102\<close>
  "txt_unknown_error =
   [0x672A, 0x77E5, 0x9519, 0x8BEF]"

definition txt_cannot_connect_check :: jsstring where \<comment> \<open>string literal, app.js line 108\<close>
  "txt_cannot_connect_check =
   [0x65E0, 0x6CD5, 0x8FDE, 0x63A5, 0x5230, 0x670D, 0x52A1, 0x5668, 0xFF0C, 0x8BF7, 0x68C0,
    0x67E5, 0x670D, 0x52A1, 0x662F, 0x5426, 0x6B63, 0x5E38, 0x8FD0, 0x884C]"

definition txt_ws_timeout :: jsstring where \<comment> \<open>string literal, app.js line 154\<close>
  "txt_ws_timeout =
   [0x57, 0x65, 0x62, 0x53, 0x6F, 0x63, 0x6B, 0x65, 0x74, 0x8FDE, 0x63A5, 0x8D85, 0x65F6,
    0xFF0C, 0x8BF7, 0x5237, 0x65B0, 0x9875, 0x9762, 0x91CD, 0x8BD5]"

definition txt_ws_error :: jsstring where \<comment> \<open>string literal, app.js line 196\<close>
  "txt_ws_error =
   [0x57, 0x65, 0x62, 0x53, 0x6F, 0x63, 0x6B, 0x65, 0x74, 0x8FDE, 0x63A5, 0x9519, 0x8BEF]"

definition txt_processing_failed :: jsstring where \<comment> \<open>string literal, app.js line 188\<close>
  "txt_processing_failed =
   [0x67E5, 0x8BE2, 0x5904, 0x7406, 0x5931, 0x8D25]"

definition txt_mismatch :: jsstring where \<comment> \<open>string literal, app.js line 220\<close>
  "txt_mismatch =
   [0x67E5, 0x8BE2, 0x4E0E, 0x6700, 0x540E, 0x53D1, 0x9001, 0x7684, 0x6D88, 0x606F, 0x4E0D,
    0x5339, 0x914D, 0xFF0C, 0x53EF, 0x80FD, 0x5B58, 0x5728, 0x6DF7, 0x6DC6, 0x3002, 0x8BF7,
    0x91CD, 0x8BD5, 0x60A8, 0x7684, 0x95EE, 0x9898, 0x3002]"

definition txt_result_failed_prefix :: jsstring where \<comment> \<open>string literal, app.js line 241\<close>
  "txt_result_failed_prefix =
   [0x83B7, 0x53D6, 0x7ED3, 0x679C, 0x5931, 0x8D25, 0x3A, 0x20]"

definition txt_cannot_verify :: jsstring where \<comment> \<open>string literal, app.js line 244\<close>
  "txt_cannot_verify =
   [0x65E0, 0x6CD5, 0x9A8C, 0x8BC1, 0x67E5, 0x8BE2, 0x72B6, 0x6001]"

definition txt_result_error :: jsstring where \<comment> \<open>string literal, app.js line 248\<close>
  "txt_result_error =
   [0x83B7, 0x53D6, 0x7ED3, 0x679C, 0x65F6, 0x51FA, 0x9519]"

definition txt_memory_reset_panel :: jsstring where \<comment> \<open>string literal, app.js line 293\<close>
  "txt_memory_reset_panel =
   [0x8BB0, 0x5FC6, 0x5DF2, 0x91CD, 0x7F6E]"

definition txt_memory_reset_msg :: jsstring where \<comment> \<open>string literal, app.js line 294\<close>
  "txt_memory_reset_msg =
   [0x7CFB, 0x7EDF, 0x8BB0, 0x5FC6, 0x5DF2, 0x91CD, 0x7F6E]"

definition txt_reset_failed_prefix :: jsstring where \<comment> \<open>string literal, app.js line 297\<close>
  "txt_reset_failed_prefix =
   [0x91CD, 0x7F6E, 0x8BB0, 0x5FC6, 0x5931, 0x8D25, 0x3A, 0x20]"

definition txt_reset_error :: jsstring where \<comment> \<open>string literal, app.js line 301\<close>
  "txt_reset_error =
   [0x91CD, 0x7F6E, 0x8BB0, 0x5FC6, 0x65F6, 0x51FA, 0x9519]"

definition txt_view_error :: jsstring where \<comment> \<open>string literal, app.js line 317\<close>
  "txt_view_error =
   [0x83B7, 0x53D6, 0x5B8C, 0x6574, 0x8BB0, 0x5FC6, 0x65F6, 0x51FA, 0x9519]"

definition txt_error_prefix :: jsstring where \<comment> \<open>string literal, app.js line 341\<close>
  "txt_error_prefix =
   [0x274C, 0x20, 0x9519, 0x8BEF, 0xFF1A]"

definition txt_status_default :: jsstring where \<comment> \<open>string literal, app.js line 355\<close>
  "txt_status_default =
   [0x6B63, 0x5728, 0x5904, 0x7406, 0x60A8, 0x7684, 0x95EE, 0x9898, 0x2E, 0x2E, 0x2E]"

definition txt_status_queued :: jsstring where \<comment> \<open>string literal, app.js line 359\<close>
  "txt_status_queued =
   [0x67E5, 0x8BE2, 0x5DF2, 0x6392, 0x961F, 0xFF0C, 0x7B49, 0x5F85, 0x5904, 0x7406, 0x2E,
    0x2E, 0x2E]"

definition txt_status_processing :: jsstring where \<comment> \<open>string literal, app.js line 362\<close>
  "txt_status_processing =
   [0x6B63, 0x5728, 0x5206, 0x6790, 0x5E76, 0x5904, 0x7406, 0x60A8, 0x7684, 0x95EE, 0x9898,
    0x2E, 0x2E, 0x2E]"

definition txt_status_completed :: jsstring where \<comment> \<open>string literal, app.js line 365\<close>
  "txt_status_completed =
   [0x5904, 0x7406, 0x5B8C, 0x6210, 0xFF0C, 0x83B7, 0x53D6, 0x7ED3, 0x679C, 0x2E, 0x2E,
    0x2E]"

definition txt_status_failed :: jsstring where \<comment> \<open>string literal, app.js line 368\<close>
  "txt_status_failed =
   [0x5904, 0x7406, 0x5931, 0x8D25]"

definition txt_no_memory :: jsstring where \<comment> \<open>string literal, app.js line 381\<close>
  "txt_no_memory =
   [0x6682, 0x65E0, 0x8BB0, 0x5FC6, 0x4FE1, 0x606F]"

definition txt_locations_title :: jsstring where \<comment> \<open>string literal, app.js line 391\<close>
  "txt_locations_title =
   [0x4F4D, 0x7F6E, 0x4FE1, 0x606F]"

definition txt_pois_title :: jsstring where \<comment> \<open>string literal, app.js line 413\<close>
  "txt_pois_title =
   [0x5174, 0x8DA3, 0x70B9]"

definition txt_plans_title :: jsstring where \<comment> \<open>string literal, app.js line 435\<close>
  "txt_plans_title =
   [0x8DEF, 0x7EBF, 0x89C4, 0x5212]"

definition txt_km :: jsstring where \<comment> \<open>string literal, app.js line 445\<close>
  "txt_km =
   [0x516C, 0x91CC, 0xFF0C]"

definition txt_minutes :: jsstring where \<comment> \<open>string literal, app.js line 445\<close>
  "txt_minutes =
   [0x5206, 0x949F]"

definition txt_processed_prefix :: jsstring where \<comment> \<open>string literal, app.js line 456\<close>
  "txt_processed_prefix =
   [0x5DF2, 0x5904, 0x7406, 0x20]"

definition txt_processed_suffix :: jsstring where \<comment> \<open>string literal, app.js line 456\<close>
  "txt_processed_suffix =
   [0x20, 0x4E2A, 0x67E5, 0x8BE2]"

definition txt_panel_unavailable :: jsstring where \<comment> \<open>string literal, app.js line 480\<close>
  "txt_panel_unavailable =
   [0x8BB0, 0x5FC6, 0x670D, 0x52A1, 0x4E0D, 0x53EF, 0x7528]"

definition txt_warning_prefix :: jsstring where \<comment> \<open>string literal, app.js line 475\<close>
  "txt_warning_prefix =
   [0x26A0, 0xFE0F, 0x20]"

definition txt_warning_suffix :: jsstring where \<comment> \<open>string literal, app.js line 475\<close>
  "txt_warning_suffix =
   [0xA, 0xA, 0x60A8, 0x4ECD, 0x7136, 0x53EF, 0x4EE5, 0x5C1D, 0x8BD5, 0x53D1, 0x9001,
    0x67E5, 0x8BE2, 0xFF0C, 0x4F46, 0x90E8, 0x5206, 0x529F, 0x80FD, 0x53EF, 0x80FD, 0x65E0,
    0x6CD5, 0x6B63, 0x5E38, 0x5DE5, 0x4F5C, 0x3002, 0x5982, 0x679C, 0x6301, 0x7EED, 0x51FA,
    0x73B0, 0x95EE, 0x9898, 0xFF0C, 0x8BF7, 0x91CD, 0x542F, 0x670D, 0x52A1, 0x5668, 0x3002]"

subsection \<open>JavaScript values\<close>

text \<open>
  Values that reach the script from \<open>JSON.parse\<close> and \<open>response.json()\<close>, plus
  \<open>undefined\<close> for an absent property. A finite Number is the rational number it
  is (\<open>-0\<close> and \<open>0\<close> are both \<open>0\<close>: they are strictly equal and both falsy); a
  numeral too large for a double parses to \<open>Infinity\<close> or \<open>-Infinity\<close>, here
  \<open>JInfinity\<close> with the sign (\<open>True\<close> for the positive one). JSON has no \<open>NaN\<close>.
\<close>

datatype jsval =
    JUndefined
  | JNull
  | JBool bool
  | JNum rat
  | JInfinity bool
  | JStr jsstring
  | JArr "jsval list"
  | JObj "(jsstring \<times> jsval) list"

text \<open>Truthiness, as \<open>if (v)\<close>, \<open>!v\<close>, \<open>a && b\<close> and \<open>a || b\<close> test it.\<close>

fun truthy :: "jsval \<Rightarrow> bool" where
  "truthy JUndefined = False"
| "truthy JNull = False"
| "truthy (JBool b) = b"
| "truthy (JNum n) = (n \<noteq> 0)"
| "truthy (JInfinity _) = True"
| "truthy (JStr s) = (s \<noteq> [])"
| "truthy (JArr _) = True"
| "truthy (JObj _) = True"

text \<open>
  Strict equality \<open>===\<close>. Primitives compare by value. Arrays and objects compare by
  reference; the script only ever compares values that come from different parses (or a
  parsed value with a string of the document), so two of them are never the same object.
\<close>

fun strict_eq :: "jsval \<Rightarrow> jsval \<Rightarrow> bool" where
  "strict_eq JUndefined JUndefined = True"
| "strict_eq JNull JNull = True"
| "strict_eq (JBool a) (JBool b) = (a = b)"
| "strict_eq (JNum a) (JNum b) = (a = b)"
| "strict_eq (JInfinity a) (JInfinity b) = (a = b)"
| "strict_eq (JStr a) (JStr b) = (a = b)"
| "strict_eq _ _ = False"

text \<open>
  Property access \<open>v.k\<close> for the property names the script uses (none of them is a
  built-in property of strings, numbers, booleans or arrays). On \<open>null\<close> and
  \<open>undefined\<close> it throws a TypeError: \<open>props v = None\<close>. On an object parsed from
  JSON the last of several equal keys wins.
\<close>

definition props :: "jsval \<Rightarrow> (jsstring \<Rightarrow> jsval) option" where
  "props v =
     (case v of
        JUndefined \<Rightarrow> None
      | JNull \<Rightarrow> None
      | JObj kvs \<Rightarrow> Some (\<lambda>k. case map_of (rev kvs) k of None \<Rightarrow> JUndefined | Some x \<Rightarrow> x)
      | _ \<Rightarrow> Some (\<lambda>k. JUndefined))"

text \<open>
  A template literal, evaluated: its literal parts and, in between, the values it
  substitutes. The string it stands for is the concatenation of the parts, each value
  printed by \<open>ToString\<close>. The script prints values of any type this way (the \<open>error\<close>
  field of a message, the \<open>detail\<close> of an error body), and what \<open>ToString\<close> makes of
  a Number, an array or an object is the language's matter; so the parts are kept as
  they are, and the one place where the text of a message is read back, the rendering
  of the transcript, takes them as they are. A plain string is the template with one
  literal part.
\<close>

datatype piece = Txt jsstring | Val jsval

type_synonym template = "piece list"


subsection \<open>The state of the page\<close>

datatype ready_state = CONNECTING | OPEN | CLOSING | CLOSED

datatype timer_state = Pending | Cleared | Fired

text \<open>
  A WebSocket object created by \<open>connectWebSocket\<close>: the \<open>queryId\<close> its handlers
  captured, its \<open>readyState\<close>, whether its \<open>onclose\<close> handler is still attached, and
  the state of the connect timer created together with it.
\<close>

record socket =
  sock_query :: jsval
  readyState :: ready_state
  onclose_set :: bool
  timeout_state :: timer_state

datatype role = User | Assistant | System

datatype request =
    GetHealth
  | GetMemory
  | PostQuery jsstring
  | GetQueryStatus jsval
  | GetQueryResult jsval
  | PostMemoryReset

datatype effect =
    Fetch request
  | NewWebSocket nat jsval
  | WebSocketClose nat
  | SetTimeout nat
  | ClearTimeout nat
  | ModalShow

text \<open>
  The memory snapshot of \<open>GET /memory\<close>, typed as the backend contract gives it.
  Objects are association lists in the order \<open>Object.entries\<close> enumerates them. The
  \<open>distance\<close> and \<open>duration\<close> of a plan are non-empty strings of decimal digits
  (metres and seconds); the record holds the natural number such a string denotes.
\<close>

record plan =
  distance :: nat
  duration :: nat

record memory =
  query_count :: int
  current_locations :: "(jsstring \<times> jsstring) list"
  current_pois :: "(jsstring \<times> jsstring) list"
  current_plans :: "(jsstring \<times> plan) list"

text \<open>
  The children of \<open>memoryPanel\<close>: a paragraph, a muted paragraph, a \<open>memory-item\<close>
  block with a title and list items, and the block with the query count.
\<close>

datatype node =
    Para jsstring
  | ParaMuted jsstring
  | MemoryItem jsstring "jsstring list"
  | QueryCountItem template

text \<open>
  \<^item> \<open>activeQueryId\<close>, \<open>websocket\<close>, \<open>serverLimitedMode\<close>: the module variables;
    \<open>websocket\<close> refers to a WebSocket object by its index in \<open>sockets\<close>.
  \<^item> \<open>chat\<close>: the messages appended to \<open>chatContainer\<close> by \<open>addMessage\<close>, oldest
    first, each with its role and the markdown source given to \<open>marked.parse\<close>.
  \<^item> \<open>processing_hidden\<close>: the class \<open>d-none\<close> on \<open>processingStatus\<close>.
  \<^item> \<open>statusPanel\<close>: \<open>None\<close> for the markup of the page, \<open>Some m\<close> once it was replaced
    by the warning with message \<open>m\<close>.
  \<^item> \<open>resetMemoryBtn_disabled\<close>, \<open>viewMemoryBtn_disabled\<close>: the class \<open>disabled\<close>.
  \<^item> \<open>memoryContent\<close>: the snapshot printed in the modal.
  \<^item> \<open>listening\<close>: the listeners of the input and the buttons are registered.
  \<^item> \<open>outbox\<close>: the log of requests, socket calls and timer calls, oldest first.
\<close>

record state =
  activeQueryId :: jsval
  websocket :: "nat option"
  serverLimitedMode :: bool
  sockets :: "nat \<Rightarrow> socket"
  socket_count :: nat
  messageInput :: jsstring
  chat :: "(role \<times> template) list"
  processing_hidden :: bool
  processingText :: jsstring
  statusPanel :: "jsstring option"
  memoryPanel :: "node list"
  resetMemoryBtn_disabled :: bool
  viewMemoryBtn_disabled :: bool
  memoryContent :: "memory option"
  listening :: bool
  outbox :: "effect list"

text \<open>
  The outcome of an awaited \<open>fetch\<close> together with the \<open>json()\<close> of its body: the
  promise rejects (\<open>NetworkError\<close>), or a response arrives with a status and a body that
  parses (\<open>Some\<close>) or makes \<open>json()\<close> reject (\<open>None\<close>).
\<close>

datatype 'b http = NetworkError | Response nat "'b option"

definition ok :: "nat \<Rightarrow> bool" where \<comment> \<open>\<open>response.ok\<close>\<close>
  "ok st \<longleftrightarrow> 200 \<le> st \<and> st \<le> 299"

subsection \<open>Presentation helpers\<close>

definition emit :: "effect \<Rightarrow> state \<Rightarrow> state" where
  "emit e s = s\<lparr>outbox := outbox s @ [e]\<rparr>"

definition addMessage :: "role \<Rightarrow> template \<Rightarrow> state \<Rightarrow> state" where
  "addMessage r content s = s\<lparr>chat := chat s @ [(r, content)]\<rparr>"

definition showError :: "template \<Rightarrow> state \<Rightarrow> state" where
  "showError message s = addMessage System (Txt txt_error_prefix # message) s"

definition showProcessingStatus :: "bool \<Rightarrow> state \<Rightarrow> state" where
  "showProcessingStatus show s = s\<lparr>processing_hidden := \<not> show\<rparr>"

definition updateProcessingText :: "jsval \<Rightarrow> state \<Rightarrow> state" where
  "updateProcessingText status s =
     s\<lparr>processingText :=
        (if strict_eq status (JStr (js ''queued'')) then txt_status_queued
         else if strict_eq status (JStr (js ''processing'')) then txt_status_processing
         else if strict_eq status (JStr (js ''completed'')) then txt_status_completed
         else if strict_eq status (JStr (js ''failed'')) then txt_status_failed
         else txt_status_default)\<rparr>"

text \<open>
  \<open>handleLimitedMode\<close>: sets the flag, replaces the status panel by the warning, appends
  one system message, disables the two memory buttons and replaces the memory panel.
\<close>

definition handleLimitedMode :: "jsstring \<Rightarrow> state \<Rightarrow> state" where
  "handleLimitedMode message s =
     (addMessage System [Txt txt_warning_prefix, Txt message, Txt txt_warning_suffix]
        (s\<lparr>serverLimitedMode := True, statusPanel := Some message\<rparr>))
      \<lparr>resetMemoryBtn_disabled := True, viewMemoryBtn_disabled := True,
       memoryPanel := [ParaMuted txt_panel_unavailable]\<rparr>"


subsection \<open>The transport channel\<close>

text \<open>
  \<open>websocket.close()\<close> on the object \<open>k\<close>: a connecting or open socket starts closing;
  on a closing or closed one the call changes nothing.
\<close>

definition socket_close :: "nat \<Rightarrow> state \<Rightarrow> state" where
  "socket_close k s =
     s\<lparr>sockets := (sockets s)(k := (sockets s k)\<lparr>readyState :=
          (case readyState (sockets s k) of
             CONNECTING \<Rightarrow> CLOSING | OPEN \<Rightarrow> CLOSING | CLOSING \<Rightarrow> CLOSING | CLOSED \<Rightarrow> CLOSED)\<rparr>),
       outbox := outbox s @ [WebSocketClose k]\<rparr>"

definition closeWebSocketConnection :: "state \<Rightarrow> state" where
  "closeWebSocketConnection s =
     (let s1 = (case websocket s of
                  None \<Rightarrow> s
                | Some k \<Rightarrow>
                    (socket_close k
                       (s\<lparr>sockets := (sockets s)(k := (sockets s k)\<lparr>onclose_set := False\<rparr>)\<rparr>))
                    \<lparr>websocket := None\<rparr>)
      in if truthy (activeQueryId s1) then s1\<lparr>activeQueryId := JNull\<rparr> else s1)"

text \<open>
  \<open>fetchQueryResult\<close> up to its first \<open>await\<close>: the status request is sent.
\<close>

definition fetchQueryResult_begin :: "jsval \<Rightarrow> state \<Rightarrow> state" where
  "fetchQueryResult_begin queryId s = emit (Fetch (GetQueryStatus queryId)) s"

text \<open>
  The four handlers and the timer callback that \<open>connectWebSocket\<close> installs. The
  callback reads the module variable \<open>websocket\<close>, whichever object it refers to when
  the timer fires. \<open>ws_onmessage\<close> takes the result of \<open>JSON.parse(event.data)\<close>,
  \<open>None\<close> when it throws; an exception leaves the handler with nothing done. The
  WebSocket constructor is taken to succeed: the URL it is given is built from the
  location of the page.
\<close>

definition connectionTimeout :: "state \<Rightarrow> state" where
  "connectionTimeout s =
     (case websocket s of
        None \<Rightarrow> s
      | Some j \<Rightarrow>
          if readyState (sockets s j) \<noteq> OPEN
          then (showProcessingStatus False
                  (showError [Txt txt_ws_timeout] ((socket_close j s)\<lparr>websocket := None\<rparr>)))
               \<lparr>activeQueryId := JNull\<rparr>
          else s)"

definition ws_onopen :: "nat \<Rightarrow> state \<Rightarrow> state" where
  "ws_onopen k s =
     emit (ClearTimeout k)
       (s\<lparr>sockets := (sockets s)(k := (sockets s k)\<lparr>timeout_state :=
            (if timeout_state (sockets s k) = Pending then Cleared
             else timeout_state (sockets s k))\<rparr>)\<rparr>)"

definition ws_onmessage :: "jsval \<Rightarrow> jsval option \<Rightarrow> state \<Rightarrow> state" where
  "ws_onmessage queryId parsed s =
     (case parsed of
        None \<Rightarrow> s
      | Some data \<Rightarrow>
          (case props data of
             None \<Rightarrow> s
           | Some d \<Rightarrow>
               if truthy (d (js ''error''))
               then (showProcessingStatus False (showError [Val (d (js ''error''))] s))
                    \<lparr>activeQueryId := JNull\<rparr>
               else if \<not> strict_eq (d (js ''query_id'')) (activeQueryId s) then s
               else
                 (let s1 = updateProcessingText (d (js ''status'')) s in
                  if strict_eq (d (js ''status'')) (JStr (js ''completed''))
                     \<and> truthy (d (js ''result''))
                  then fetchQueryResult_begin queryId s1
                  else if strict_eq (d (js ''status'')) (JStr (js ''failed''))
                  then (showProcessingStatus False (showError [Txt txt_processing_failed] s1))
                       \<lparr>activeQueryId := JNull\<rparr>
                  else s1)))"

definition ws_onerror :: "state \<Rightarrow> state" where
  "ws_onerror s =
     (showProcessingStatus False (showError [Txt txt_ws_error] s))\<lparr>activeQueryId := JNull\<rparr>"

definition ws_onclose :: "state \<Rightarrow> state" where
  "ws_onclose s = s"

definition connectWebSocket :: "jsval \<Rightarrow> state \<Rightarrow> state" where
  "connectWebSocket queryId s =
     (let s1 = closeWebSocketConnection s; k = socket_count s1 in
      s1\<lparr>activeQueryId := queryId,
         sockets := (sockets s1)(k :=
           \<lparr>sock_query = queryId, readyState = CONNECTING, onclose_set = True,
            timeout_state = Pending\<rparr>),
         socket_count := Suc k,
         websocket := Some k,
         outbox := outbox s1 @ [NewWebSocket k queryId, SetTimeout k]\<rparr>)"


subsection \<open>The query session controller\<close>

text \<open>
  \<open>sendMessage\<close> up to its \<open>await\<close>: the guard, the teardown of the previous channel,
  the user message, the cleared input, the processing indicator and the \<open>POST /query\<close>.
\<close>

definition sendMessage :: "state \<Rightarrow> state" where
  "sendMessage s =
     (let query = trim (messageInput s) in
      if query = [] \<or> truthy (activeQueryId s) then s
      else emit (Fetch (PostQuery query))
             (showProcessingStatus True
                ((addMessage User [Txt query] (closeWebSocketConnection s))
                 \<lparr>messageInput := []\<rparr>)))"

text \<open>
  \<open>sendMessage\<close> from the arrival of the response on. Its \<open>catch\<close> block also takes the
  rejected \<open>json()\<close> and the TypeError of a property access on \<open>null\<close>.
\<close>

definition sendMessage_catch :: "state \<Rightarrow> state" where
  "sendMessage_catch s = showProcessingStatus False (showError [Txt txt_cannot_connect_check] s)"

definition sendMessage_response :: "jsval http \<Rightarrow> state \<Rightarrow> state" where
  "sendMessage_response outcome s =
     (case outcome of
        NetworkError \<Rightarrow> sendMessage_catch s
      | Response st body \<Rightarrow>
          if ok st then
            (case body of
               None \<Rightarrow> sendMessage_catch s
             | Some data \<Rightarrow>
                 (case props data of
                    None \<Rightarrow> sendMessage_catch s
                  | Some d \<Rightarrow>
                      connectWebSocket (d (js ''query_id''))
                        (s\<lparr>activeQueryId := d (js ''query_id'')\<rparr>)))
          else if st = 503 then
            showProcessingStatus False (handleLimitedMode txt_service_not_ready s)
          else
            (case body of
               None \<Rightarrow> sendMessage_catch s
             | Some errorData \<Rightarrow>
                 (case props errorData of
                    None \<Rightarrow> sendMessage_catch s
                  | Some e \<Rightarrow>
                      showProcessingStatus False
                        (showError
                           [Txt txt_query_failed_prefix,
                            if truthy (e (js ''detail'')) then Val (e (js ''detail''))
                            else Txt txt_unknown_error]
                           s))))"

subsection \<open>The result fetcher\<close>

text \<open>
  The part of the document under \<open>chatContainer\<close>. A node is a text node or an element
  with its tag name, the tokens of its \<open>class\<close> attribute and its children. Comments
  carry no text content and match no selector, and are left out.
\<close>

datatype html = Text jsstring | Element jsstring "jsstring list" "html list"

fun textContent :: "html \<Rightarrow> jsstring" where
  "textContent (Text t) = t"
| "textContent (Element tag classes children) = concat (map textContent children)"

text \<open>
  The elements of a subtree that the selector \<open>.user-message .message-content\<close>
  matches, in document order: those of class \<open>message-content\<close> that lie inside an
  element of class \<open>user-message\<close>. The flag says whether the node already lies inside
  one. The page is in standards mode, so class names compare exactly.
\<close>

fun select_user_content :: "bool \<Rightarrow> html \<Rightarrow> html list" where
  "select_user_content inside (Text t) = []"
| "select_user_content inside (Element tag classes children) =
     (if inside \<and> js ''message-content'' \<in> set classes
      then [Element tag classes children] else [])
     @ concat (map (select_user_content (inside \<or> js ''user-message'' \<in> set classes))
                 children)"

text \<open>
  The element that \<open>addMessage\<close> appends for a message: a \<open>div\<close> of the classes
  \<open>message\<close> and \<open>user-message\<close>, \<open>assistant-message\<close> or \<open>system-message\<close>, holding a
  \<open>div\<close> of the classes \<open>message-content\<close> and \<open>markdown-content\<close> whose
  \<open>innerHTML\<close> is \<open>marked.parse(content)\<close>. The markdown library is loaded from a
  CDN and is not part of the repository, and the HTML it returns is parsed by the
  browser; the nodes that come of the content of a message are the parameter \<open>render\<close>.
  Markdown lets raw HTML through, so these nodes may be elements of any class.
\<close>

definition role_class :: "role \<Rightarrow> jsstring" where
  "role_class r =
     (case r of User \<Rightarrow> js ''user-message'' | Assistant \<Rightarrow> js ''assistant-message''
      | System \<Rightarrow> js ''system-message'')"

definition message_node :: "(template \<Rightarrow> html list) \<Rightarrow> role \<times> template \<Rightarrow> html" where
  "message_node render m =
     Element (js ''div'') [js ''message'', role_class (fst m)]
       [Element (js ''div'') [js ''message-content'', js ''markdown-content'']
          (render (snd m))]"

text \<open>
  The children of \<open>chatContainer\<close> that \<open>addMessage\<close> appended. Before them stands the
  welcome block of the page, a \<open>system-message\<close> whose elements have no class but
  \<open>message-content\<close> on its content block; it lies inside no element of class
  \<open>user-message\<close> (nor does \<open>chatContainer\<close> itself), so the selector finds nothing
  in it and it is left out.
\<close>

definition chatContainer :: "(template \<Rightarrow> html list) \<Rightarrow> state \<Rightarrow> html list" where
  "chatContainer render s = map (message_node render) (chat s)"

text \<open>
  \<open>getLastUserMessage\<close>: the trimmed text content of the last element that
  \<open>chatContainer.querySelectorAll('.user-message .message-content')\<close> finds, \<open>null\<close> if
  it finds none.
\<close>

definition getLastUserMessage :: "(template \<Rightarrow> html list) \<Rightarrow> state \<Rightarrow> jsval" where
  "getLastUserMessage render s =
     (case concat (map (select_user_content False) (chatContainer render s)) of
        [] \<Rightarrow> JNull
      | e # es \<Rightarrow> JStr (trim (textContent (last (e # es)))))"

definition fetchMemory_begin :: "state \<Rightarrow> state" where
  "fetchMemory_begin s = emit (Fetch GetMemory) s"

definition fetch_catch :: "state \<Rightarrow> state" where \<comment> \<open>the \<open>catch\<close> block of \<open>fetchQueryResult\<close>\<close>
  "fetch_catch s = showError [Txt txt_result_error] s"

definition fetch_finally :: "state \<Rightarrow> state" where \<comment> \<open>its \<open>finally\<close> block\<close>
  "fetch_finally s = (showProcessingStatus False s)\<lparr>activeQueryId := JNull\<rparr>"

text \<open>
  \<open>fetchQueryResult\<close> from the arrival of the status response on: either the function
  is finished, or the result request has been sent and it waits again.
\<close>

datatype fetch_phase = Finished state | AwaitResult state

definition fetchQueryResult_status ::
  "(template \<Rightarrow> html list) \<Rightarrow> jsval \<Rightarrow> jsval http \<Rightarrow> state \<Rightarrow> fetch_phase" where
  "fetchQueryResult_status render queryId outcome s =
     (case outcome of
        NetworkError \<Rightarrow> Finished (fetch_finally (fetch_catch s))
      | Response st body \<Rightarrow>
          if ok st then
            (case body of
               None \<Rightarrow> Finished (fetch_finally (fetch_catch s))
             | Some statusData \<Rightarrow>
                 (let lastUserMessage = getLastUserMessage render s in
                  if truthy lastUserMessage then
                    (case props statusData of
                       None \<Rightarrow> Finished (fetch_finally (fetch_catch s))
                     | Some d \<Rightarrow>
                         if \<not> strict_eq (d (js ''query'')) lastUserMessage then
                           Finished (fetch_finally
                             ((showProcessingStatus False (showError [Txt txt_mismatch] s))
                              \<lparr>activeQueryId := JNull\<rparr>))
                         else AwaitResult (emit (Fetch (GetQueryResult queryId)) s))
                  else AwaitResult (emit (Fetch (GetQueryResult queryId)) s)))
          else Finished (fetch_finally (showError [Txt txt_cannot_verify] s)))"

text \<open>
  \<open>fetchQueryResult\<close> from the arrival of the result response on. \<open>marked.parse\<close>
  throws on an input that is not a string, which lands in the \<open>catch\<close> block.
\<close>

definition fetchQueryResult_result :: "jsval http \<Rightarrow> state \<Rightarrow> state" where
  "fetchQueryResult_result outcome s =
     (case outcome of
        NetworkError \<Rightarrow> fetch_finally (fetch_catch s)
      | Response st body \<Rightarrow>
          (case body of
             None \<Rightarrow> fetch_finally (fetch_catch s)
           | Some data \<Rightarrow>
               (case props data of
                  None \<Rightarrow> fetch_finally (fetch_catch s)
                | Some d \<Rightarrow>
                    if ok st then
                      (if truthy (d (js ''final_answer'')) then
                         (case d (js ''final_answer'') of
                            JStr a \<Rightarrow>
                              fetch_finally (fetchMemory_begin (addMessage Assistant [Txt a] s))
                          | _ \<Rightarrow> fetch_finally (fetch_catch s))
                       else fetch_finally s)
                    else
                      fetch_finally
                        (showError [Txt txt_result_failed_prefix, Val (d (js ''detail''))] s))))"

text \<open>
  One whole execution of \<open>fetchQueryResult\<close> with nothing else running in between,
  given the outcomes of its two requests.
\<close>

definition fetchQueryResult ::
  "(template \<Rightarrow> html list) \<Rightarrow> jsval \<Rightarrow> jsval http \<Rightarrow> jsval http \<Rightarrow> state \<Rightarrow> state"
  where
  "fetchQueryResult render queryId status_outcome result_outcome s =
     (case fetchQueryResult_status render queryId status_outcome (fetchQueryResult_begin queryId s) of
        Finished s' \<Rightarrow> s'
      | AwaitResult s' \<Rightarrow> fetchQueryResult_result result_outcome s')"


subsection \<open>Numbers of the memory view\<close>

text \<open>
  A Number is an IEEE 754 double. The Numbers of the memory view are not negative: a
  finite one is modelled by the rational it is, and \<open>Infinity\<close> stands for itself.
\<close>

datatype number = Finite rat | Infinity

text \<open>
  \<open>number_div a b\<close> is the quotient of the natural numbers \<open>a\<close> and \<open>b\<close> (\<open>b\<close>
  positive) rounded to 53 significant bits, to nearest, ties to even, the exponent
  unbounded. No quotient of the script is small enough to be subnormal.
\<close>

definition pow2 :: "int \<Rightarrow> rat" where
  "pow2 e = (if 0 \<le> e then 2 ^ nat e else 1 / 2 ^ nat (- e))"

definition round_half_even :: "rat \<Rightarrow> int" where
  "round_half_even y =
     (let f = \<lfloor>y\<rfloor>; r = y - of_int f in
      if r < 1 / 2 then f else if 1 / 2 < r then f + 1 else if even f then f else f + 1)"

text \<open>\<open>ilog2_quot a b\<close> is the integer \<open>k\<close> with \<open>2^k \<le> a / b < 2^(k + 1)\<close>.\<close>

definition ilog2_quot :: "nat \<Rightarrow> nat \<Rightarrow> int" where
  "ilog2_quot a b =
     (let k = int (floorlog 2 a) - int (floorlog 2 b) in
      if of_nat b * pow2 k \<le> (of_nat a :: rat) then k else k - 1)"

definition number_div :: "nat \<Rightarrow> nat \<Rightarrow> rat" where
  "number_div a b =
     (if a = 0 then 0
      else (let e = ilog2_quot a b - 52 in
            of_int (round_half_even (of_nat a / (of_nat b * pow2 e))) * pow2 e))"

text \<open>
  \<open>parseFloat\<close> and \<open>parseInt\<close> of a string of decimal digits that denotes \<open>d\<close>: the
  double nearest to \<open>d\<close>, which is \<open>Infinity\<close> from \<open>2^1024\<close> on (the engines round
  correctly, also where the standard lets them drop digits after the twentieth).
\<close>

definition parse_digits :: "nat \<Rightarrow> number" where
  "parse_digits d = (let x = number_div d 1 in if 2 ^ 1024 \<le> x then Infinity else Finite x)"

text \<open>
  \<open>x / b\<close> for a Number \<open>x\<close> that is a whole number, as every Number parsed from digits
  is, and a positive integer \<open>b\<close>; and \<open>Math.floor\<close>.
\<close>

definition number_over :: "number \<Rightarrow> nat \<Rightarrow> number" where
  "number_over x b =
     (case x of Infinity \<Rightarrow> Infinity | Finite r \<Rightarrow> Finite (number_div (nat \<lfloor>r\<rfloor>) b))"

definition math_floor :: "number \<Rightarrow> number" where
  "math_floor x = (case x of Infinity \<Rightarrow> Infinity | Finite r \<Rightarrow> Finite (of_int \<lfloor>r\<rfloor>))"

text \<open>
  \<open>Number::toString\<close> of a Number that is a whole number \<open>m\<close>. It prints the digits of
  the integer \<open>s\<close> of the fewest digits \<open>k\<close> for which \<open>s \<times> 10^(n - k)\<close> is a decimal
  that rounds to \<open>m\<close>, for some \<open>n\<close>; of several such \<open>s\<close> the one whose decimal is
  nearest to \<open>m\<close>, the even one of two equally near. Up to \<open>n = 21\<close> the digits are
  followed by \<open>n - k\<close> zeros; beyond, the exponent \<open>n - 1\<close> is written out. Below
  \<open>2^53\<close> every whole number is a Number of its own, and the digits printed are its
  decimal digits.

  \<open>shortest_candidates m k\<close> lists the pairs \<open>(s, n - k)\<close> with \<open>k\<close> digits that round
  to \<open>m\<close>: of the decimals with \<open>k\<close> digits only the two around \<open>m\<close> and the next
  power of ten can be the nearest one.
\<close>

definition rounds_to :: "nat \<Rightarrow> nat \<Rightarrow> bool" where
  "rounds_to v m \<longleftrightarrow> number_div v 1 = of_nat m"

definition shortest_candidates :: "nat \<Rightarrow> nat \<Rightarrow> (nat \<times> nat) list" where
  "shortest_candidates m k =
     (let l = length (digits m); q = m div 10 ^ (l - k) in
      filter (\<lambda>c. 10 ^ (k - 1) \<le> fst c \<and> fst c < 10 ^ k \<and> rounds_to (fst c * 10 ^ snd c) m)
        [(q, l - k), (q + 1, l - k), (10 ^ (k - 1), l + 1 - k)])"

definition nearer :: "nat \<Rightarrow> nat \<times> nat \<Rightarrow> nat \<times> nat \<Rightarrow> nat \<times> nat" where
  "nearer m a b =
     (let da = \<bar>int (fst a * 10 ^ snd a) - int m\<bar>; db = \<bar>int (fst b * 10 ^ snd b) - int m\<bar> in
      if da < db then a else if db < da then b else if even (fst a) then a else b)"

text \<open>
  The search for the fewest digits, from \<open>k\<close> on. Seventeen digits tell any two doubles
  apart, so the search ends by \<open>k = 17\<close>; the result is \<open>(s, k, n)\<close>.
\<close>

fun shortest_digits :: "nat \<Rightarrow> nat \<Rightarrow> nat \<Rightarrow> nat \<times> nat \<times> nat" where
  "shortest_digits m k 0 = (m, length (digits m), length (digits m))"
| "shortest_digits m k (Suc fuel) =
     (case shortest_candidates m k of
        [] \<Rightarrow> shortest_digits m (Suc k) fuel
      | c # cs \<Rightarrow> (fst (foldl (nearer m) c cs), k, snd (foldl (nearer m) c cs) + k))"

definition whole_number_string :: "nat \<Rightarrow> jsstring" where
  "whole_number_string m =
     (if m < 2 ^ 53 then digits m
      else (case shortest_digits m 1 17 of
              (s, k, n) \<Rightarrow>
                if n \<le> 21 then digits s @ replicate (n - k) 48
                else if k = 1 then digits s @ js ''e+'' @ digits (n - 1)
                else [hd (digits s)] @ js ''.'' @ tl (digits s) @ js ''e+'' @ digits (n - 1)))"

definition number_string :: "number \<Rightarrow> jsstring" where
  "number_string x =
     (case x of Infinity \<Rightarrow> js ''Infinity'' | Finite r \<Rightarrow> whole_number_string (nat \<lfloor>r\<rfloor>))"

text \<open>
  \<open>x.toFixed(1)\<close>. For \<open>x < 10^21\<close>: with \<open>n\<close> the integer for which \<open>n / 10 - x\<close> is
  closest to zero, the larger one if there are two, the digits of \<open>n\<close> with a point
  before the last. From \<open>10^21\<close> on, where every Number is whole, and for \<open>Infinity\<close>,
  it is \<open>Number::toString\<close>.
\<close>

definition nearest_tenths :: "rat \<Rightarrow> nat" where
  "nearest_tenths x = nat \<lfloor>10 * x + 1 / 2\<rfloor>"

definition toFixed1 :: "number \<Rightarrow> jsstring" where
  "toFixed1 x =
     (case x of
        Infinity \<Rightarrow> js ''Infinity''
      | Finite r \<Rightarrow>
          if r < 10 ^ 21
          then (let n = nearest_tenths r in digits (n div 10) @ js ''.'' @ digits (n mod 10))
          else whole_number_string (nat \<lfloor>r\<rfloor>))"

definition distanceKm :: "plan \<Rightarrow> number" where \<comment> \<open>\<open>parseFloat(info.distance) / 1000\<close>\<close>
  "distanceKm info = number_over (parse_digits (distance info)) 1000"

definition durationMin :: "plan \<Rightarrow> number" where
  \<comment> \<open>\<open>Math.floor(parseInt(info.duration) / 60)\<close>\<close>
  "durationMin info = math_floor (number_over (parse_digits (duration info)) 60)"

subsection \<open>The memory view\<close>

definition plan_text :: "jsstring \<times> plan \<Rightarrow> jsstring" where
  "plan_text e =
     fst e @ js '': '' @ toFixed1 (distanceKm (snd e)) @ txt_km
       @ number_string (durationMin (snd e)) @ txt_minutes"

definition place_text :: "jsstring \<times> jsstring \<Rightarrow> jsstring" where
  "place_text e = fst e @ js '': '' @ snd e"

definition updateMemoryPanel :: "memory \<Rightarrow> state \<Rightarrow> state" where
  "updateMemoryPanel m s =
     (if query_count m = 0 then s\<lparr>memoryPanel := [Para txt_no_memory]\<rparr>
      else s\<lparr>memoryPanel :=
        (if current_locations m \<noteq> []
         then [MemoryItem txt_locations_title (map place_text (current_locations m))] else [])
        @ (if current_pois m \<noteq> []
           then [MemoryItem txt_pois_title (map place_text (take 3 (current_pois m)))] else [])
        @ (if current_plans m \<noteq> []
           then [MemoryItem txt_plans_title (map plan_text (current_plans m))] else [])
        @ [QueryCountItem
             [Txt txt_processed_prefix, Val (JNum (of_int (query_count m))),
              Txt txt_processed_suffix]]\<rparr>)"

definition fetchMemory_response :: "memory http \<Rightarrow> state \<Rightarrow> state" where
  "fetchMemory_response outcome s =
     (case outcome of
        NetworkError \<Rightarrow> s
      | Response st body \<Rightarrow>
          if ok st then (case body of None \<Rightarrow> s | Some m \<Rightarrow> updateMemoryPanel m s) else s)"

definition resetMemory_begin :: "bool \<Rightarrow> state \<Rightarrow> state" where
  "resetMemory_begin confirmed s =
     (if confirmed then emit (Fetch PostMemoryReset) s else s)"

definition resetMemory_response :: "jsval http \<Rightarrow> state \<Rightarrow> state" where
  "resetMemory_response outcome s =
     (case outcome of
        NetworkError \<Rightarrow> showError [Txt txt_reset_error] s
      | Response st body \<Rightarrow>
          if ok st then
            addMessage System [Txt txt_memory_reset_msg]
              (s\<lparr>memoryPanel := [Para txt_memory_reset_panel]\<rparr>)
          else
            (case body of
               None \<Rightarrow> showError [Txt txt_reset_error] s
             | Some e \<Rightarrow>
                 (case props e of
                    None \<Rightarrow> showError [Txt txt_reset_error] s
                  | Some d \<Rightarrow>
                      showError [Txt txt_reset_failed_prefix, Val (d (js ''detail''))] s)))"

definition viewFullMemory_begin :: "state \<Rightarrow> state" where
  "viewFullMemory_begin s = emit (Fetch GetMemory) s"

definition viewFullMemory_response :: "memory http \<Rightarrow> state \<Rightarrow> state" where
  "viewFullMemory_response outcome s =
     (case outcome of
        NetworkError \<Rightarrow> showError [Txt txt_view_error] s
      | Response st body \<Rightarrow>
          if ok st then
            (case body of
               None \<Rightarrow> showError [Txt txt_view_error] s
             | Some m \<Rightarrow> emit ModalShow (s\<lparr>memoryContent := Some m\<rparr>))
          else s)"


subsection \<open>Startup\<close>

text \<open>
  The \<open>DOMContentLoaded\<close> handler in its three segments: up to the health request, from
  the health response on, and from the response of the initial \<open>/memory\<close> request on.
  The listeners of the input and the buttons are registered when the handler ends.
\<close>

definition startup_begin :: "state \<Rightarrow> state" where
  "startup_begin s = emit (Fetch GetHealth) s"

definition attach_listeners :: "state \<Rightarrow> state" where
  "attach_listeners s = s\<lparr>listening := True\<rparr>"

definition health_ok :: "jsval http \<Rightarrow> bool" where
  "health_ok outcome = (case outcome of NetworkError \<Rightarrow> False | Response st body \<Rightarrow> ok st)"

definition startup_health :: "jsval http \<Rightarrow> state \<Rightarrow> state" where
  "startup_health outcome s =
     (case outcome of
        NetworkError \<Rightarrow> attach_listeners (showError [Txt txt_cannot_connect] s)
      | Response st body \<Rightarrow>
          if ok st then emit (Fetch GetMemory) s
          else attach_listeners (showError [Txt txt_api_unavailable] s))"

definition startup_memory :: "memory http \<Rightarrow> state \<Rightarrow> state" where
  "startup_memory outcome s =
     attach_listeners
       (case outcome of
          NetworkError \<Rightarrow> handleLimitedMode txt_memory_unavailable s
        | Response st body \<Rightarrow>
            if st = 500 \<or> st = 503 then handleLimitedMode txt_mcp_uninitialised s
            else if ok st then
              (case body of
                 None \<Rightarrow> handleLimitedMode txt_memory_unavailable s
               | Some m \<Rightarrow> updateMemoryPanel m s)
            else s)"

definition startup :: "jsval http \<Rightarrow> memory http \<Rightarrow> state \<Rightarrow> state" where
  "startup health_outcome memory_outcome s =
     (let s1 = startup_health health_outcome (startup_begin s) in
      if health_ok health_outcome then startup_memory memory_outcome s1 else s1)"

text \<open>The page as the script finds it when it is loaded.\<close>

definition initial_state :: state where
  "initial_state =
     \<lparr>activeQueryId = JNull, websocket = None, serverLimitedMode = False,
      sockets = (\<lambda>k. \<lparr>sock_query = JUndefined, readyState = CLOSED, onclose_set = False,
                      timeout_state = Fired\<rparr>),
      socket_count = 0, messageInput = [], chat = [], processing_hidden = True,
      processingText = txt_status_default, statusPanel = None,
      memoryPanel = [Para txt_no_memory], resetMemoryBtn_disabled = False,
      viewMemoryBtn_disabled = False, memoryContent = None, listening = False,
      outbox = []\<rparr>"

subsection \<open>The event loop\<close>

text \<open>
  What the browser delivers to the script, one task at a time: the load event, the
  outcomes of the requests, the user's typing and clicks, the events of a WebSocket
  object and the expiry of its connect timer. A socket opens only while connecting and
  delivers messages only while open; a failure fires \<open>error\<close> and then \<open>close\<close>; a
  timer fires only while pending.
\<close>

datatype event =
    DOMContentLoaded
  | HealthResponse "jsval http"
  | StartupMemoryResponse "memory http"
  | Typed jsstring
  | SendRequested
  | QueryResponse "jsval http"
  | SocketOpened nat
  | SocketMessage nat "jsval option"
  | SocketFailed nat
  | SocketClosed nat
  | TimerFired nat
  | StatusResponse jsval "jsval http"
  | ResultResponse "jsval http"
  | MemoryResponse "memory http"
  | ResetRequested bool
  | ResetResponse "jsval http"
  | ViewRequested
  | ViewResponse "memory http"

definition set_readyState :: "nat \<Rightarrow> ready_state \<Rightarrow> state \<Rightarrow> state" where
  "set_readyState k r s = s\<lparr>sockets := (sockets s)(k := (sockets s k)\<lparr>readyState := r\<rparr>)\<rparr>"

definition set_timeout_state :: "nat \<Rightarrow> timer_state \<Rightarrow> state \<Rightarrow> state" where
  "set_timeout_state k t s =
     s\<lparr>sockets := (sockets s)(k := (sockets s k)\<lparr>timeout_state := t\<rparr>)\<rparr>"

definition phase_state :: "fetch_phase \<Rightarrow> state" where
  "phase_state p = (case p of Finished s \<Rightarrow> s | AwaitResult s \<Rightarrow> s)"

definition dispatch :: "(template \<Rightarrow> html list) \<Rightarrow> event \<Rightarrow> state \<Rightarrow> state" where
  "dispatch render ev s =
     (case ev of
        DOMContentLoaded \<Rightarrow> startup_begin s
      | HealthResponse outcome \<Rightarrow> startup_health outcome s
      | StartupMemoryResponse outcome \<Rightarrow> startup_memory outcome s
      | Typed t \<Rightarrow> s\<lparr>messageInput := t\<rparr>
      | SendRequested \<Rightarrow> if listening s then sendMessage s else s
      | QueryResponse outcome \<Rightarrow> sendMessage_response outcome s
      | SocketOpened k \<Rightarrow>
          if k < socket_count s \<and> readyState (sockets s k) = CONNECTING
          then ws_onopen k (set_readyState k OPEN s) else s
      | SocketMessage k parsed \<Rightarrow>
          if k < socket_count s \<and> readyState (sockets s k) = OPEN
          then ws_onmessage (sock_query (sockets s k)) parsed s else s
      | SocketFailed k \<Rightarrow>
          if k < socket_count s \<and> readyState (sockets s k) \<noteq> CLOSED
          then (let s1 = ws_onerror (set_readyState k CLOSED s) in
                if onclose_set (sockets s k) then ws_onclose s1 else s1)
          else s
      | SocketClosed k \<Rightarrow>
          if k < socket_count s \<and> readyState (sockets s k) \<noteq> CLOSED
          then (let s1 = set_readyState k CLOSED s in
                if onclose_set (sockets s k) then ws_onclose s1 else s1)
          else s
      | TimerFired k \<Rightarrow>
          if k < socket_count s \<and> timeout_state (sockets s k) = Pending
          then connectionTimeout (set_timeout_state k Fired s) else s
      | StatusResponse queryId outcome \<Rightarrow>
          phase_state (fetchQueryResult_status render queryId outcome s)
      | ResultResponse outcome \<Rightarrow> fetchQueryResult_result outcome s
      | MemoryResponse outcome \<Rightarrow> fetchMemory_response outcome s
      | ResetRequested confirmed \<Rightarrow> if listening s then resetMemory_begin confirmed s else s
      | ResetResponse outcome \<Rightarrow> resetMemory_response outcome s
      | ViewRequested \<Rightarrow> if listening s then viewFullMemory_begin s else s
      | ViewResponse outcome \<Rightarrow> viewFullMemory_response outcome s)"

fun run :: "(template \<Rightarrow> html list) \<Rightarrow> event list \<Rightarrow> state \<Rightarrow> state" where
  "run render [] s = s"
| "run render (ev # evs) s = run render evs (dispatch render ev s)"


subsection \<open>Sessions\<close>

definition is_idle :: "state \<Rightarrow> bool" where
  "is_idle s \<longleftrightarrow> activeQueryId s = JNull \<and> processing_hidden s"


definition field :: "jsval \<Rightarrow> jsstring \<Rightarrow> jsval" where \<comment> \<open>\<open>v.k\<close> of a value that has properties\<close>
  "field v k = (case props v of None \<Rightarrow> JUndefined | Some d \<Rightarrow> d k)"

text \<open>The states the page can be in: what the event loop makes of the loaded page.\<close>

inductive reachable :: "(template \<Rightarrow> html list) \<Rightarrow> state \<Rightarrow> bool"
  for render :: "template \<Rightarrow> html list" where
  loaded: "reachable render initial_state"
| step: "reachable render s \<Longrightarrow> reachable render (dispatch render ev s)"

text \<open>
  A socket that is connecting or open is the current one, and the active query id is
  the id of its query or \<open>null\<close>.
\<close>

definition channel_inv :: "state \<Rightarrow> bool" where
  "channel_inv s \<longleftrightarrow>
     (\<forall>k. readyState (sockets s k) = CONNECTING \<or> readyState (sockets s k) = OPEN \<longrightarrow>
        k < socket_count s \<and> websocket s = Some k
        \<and> (activeQueryId s = sock_query (sockets s k) \<or> activeQueryId s = JNull))"

subsection \<open>Example inputs\<close>

text \<open>
  A rendering of the messages used below, as the markdown library and the HTML parser
  make it. The values printed in these messages are strings. A line of plain text
  becomes a paragraph with that text, followed by a line feed. Raw HTML is let through.
  The line \<open><br>\<close>, a tag on a line of its own, is the line break element and no
  text. The block \<open>ex_injection\<close>, written after the prefix of an error message, ends
  the paragraph of the prefix and stands next to it as an element of its own, and the
  end tag left over makes an empty paragraph.
\<close>

definition ex_print :: "piece \<Rightarrow> jsstring" where
  "ex_print p = (case p of Txt t \<Rightarrow> t | Val v \<Rightarrow> (case v of JStr t \<Rightarrow> t | _ \<Rightarrow> []))"

definition ex_injection :: jsstring where
  "ex_injection =
     js ''<div class=user-message><div class=message-content>Hangzhou sights</div></div>''"

definition ex_render :: "template \<Rightarrow> html list" where
  "ex_render content =
     (let src = concat (map ex_print content) in
      if src = js ''<br>''
      then [Element (js ''br'') [] []]
      else if src = txt_error_prefix @ ex_injection
      then [Element (js ''p'') [] [Text txt_error_prefix],
            Element (js ''div'') [js ''user-message'']
              [Element (js ''div'') [js ''message-content''] [Text (js ''Hangzhou sights'')]],
            Element (js ''p'') [] [], Text [0x0A]]
      else [Element (js ''p'') [] [Text src], Text [0x0A]])"

definition ex_q1 :: jsval where
  "ex_q1 = JStr (js ''q1'')"

definition ex_q2 :: jsval where
  "ex_q2 = JStr (js ''q2'')"

definition ex_health_body :: jsval where
  "ex_health_body = JObj [(js ''status'', JStr (js ''ok''))]"

text \<open>
  A snapshot with a query count of zero and every other field filled, and the same
  snapshot after one query.
\<close>

definition ex_memory :: memory where
  "ex_memory =
     \<lparr>query_count = 0,
      current_locations = [(js ''Zhuhai'', js ''Guangdong'')],
      current_pois = [(js ''Lovers Road'', js ''Xiangzhou'')],
      current_plans = [(js ''Shenzhen-Zhuhai'', \<lparr>distance = 12345, duration = 905\<rparr>)]\<rparr>"

definition ex_memory_one :: memory where
  "ex_memory_one = ex_memory\<lparr>query_count := 1\<rparr>"

text \<open>A snapshot with a plan whose distance is the digit 1 followed by 24 zeros.\<close>

definition ex_memory_far :: memory where
  "ex_memory_far =
     \<lparr>query_count = 1, current_locations = [], current_pois = [],
      current_plans =
        [(js ''Far'', \<lparr>distance = 1000000000000000000000000, duration = 905\<rparr>)]\<rparr>"

text \<open>
  A session as it goes: the page is loaded with every service up, the user types a
  question and sends it, the backend acknowledges it with the id \<open>q1\<close>, and the channel
  opens.
\<close>

definition ex_loaded :: state where
  "ex_loaded =
     run ex_render
       [DOMContentLoaded, HealthResponse (Response 200 (Some ex_health_body)),
        StartupMemoryResponse (Response 200 (Some ex_memory))]
       initial_state"

definition ex_typed :: state where
  "ex_typed = dispatch ex_render (Typed (js ''hello'')) ex_loaded"

definition ex_sent :: state where
  "ex_sent = dispatch ex_render SendRequested ex_typed"

definition ex_active :: state where
  "ex_active =
     dispatch ex_render (QueryResponse (Response 200 (Some (JObj [(js ''query_id'', ex_q1)]))))
       ex_sent"

definition ex_open :: state where
  "ex_open = dispatch ex_render (SocketOpened 0) ex_active"

text \<open>The same session for any question.\<close>

definition ex_session :: "jsstring \<Rightarrow> state" where
  "ex_session txt =
     run ex_render
       [Typed txt, SendRequested,
        QueryResponse (Response 200 (Some (JObj [(js ''query_id'', ex_q1)]))), SocketOpened 0]
       ex_loaded"

text \<open>
  Messages on the channel: a residual message of an earlier query, an error message
  without a query id, and messages for \<open>q1\<close> that report completion with and without a
  result, and failure.
\<close>

definition ex_stale_message :: jsval where
  "ex_stale_message =
     JObj [(js ''query_id'', JStr (js ''q0'')), (js ''status'', JStr (js ''processing''))]"

definition ex_error_message :: jsval where
  "ex_error_message = JObj [(js ''error'', JStr (js ''Query not found''))]"

definition ex_completed_message :: jsval where
  "ex_completed_message =
     JObj [(js ''query_id'', ex_q1), (js ''status'', JStr (js ''completed'')),
           (js ''result'', JBool True)]"

definition ex_completed_no_result :: jsval where
  "ex_completed_no_result =
     JObj [(js ''query_id'', ex_q1), (js ''status'', JStr (js ''completed''))]"

definition ex_failed_message :: jsval where
  "ex_failed_message = JObj [(js ''query_id'', ex_q1), (js ''status'', JStr (js ''failed''))]"



text \<open>
  After the error message has reset the session the channel, still open, delivers a
  message that reports completion and whose query id is \<open>null\<close>.
\<close>

definition ex_null_completed :: jsval where
  "ex_null_completed =
     JObj [(js ''query_id'', JNull), (js ''status'', JStr (js ''completed'')),
           (js ''result'', JBool True)]"

definition ex_after_error :: state where
  "ex_after_error = dispatch ex_render (SocketMessage 0 (Some ex_error_message)) ex_open"

text \<open>Bodies of the status check and of the result request.\<close>

definition ex_status_body :: "string \<Rightarrow> jsval" where
  "ex_status_body q = JObj [(js ''query'', JStr (js q)), (js ''status'', JStr (js ''completed''))]"

definition ex_answer_body :: jsval where
  "ex_answer_body = JObj [(js ''final_answer'', JStr (js ''Take the ferry.''))]"

text \<open>
  The user types again while the first \<open>POST /query\<close> is still unanswered; and the
  backend acknowledges a query with the empty string as its id, after which the user
  types again.
\<close>

definition ex_sent_typed :: state where
  "ex_sent_typed = dispatch ex_render (Typed (js ''hello'')) ex_sent"

definition ex_empty_id :: state where
  "ex_empty_id =
     run ex_render
       [QueryResponse (Response 200 (Some (JObj [(js ''query_id'', JStr [])]))),
        Typed (js ''hello'')]
       ex_sent"

text \<open>A page in limited mode, whose transcript holds the warning.\<close>

definition ex_limited :: state where
  "ex_limited =
     run ex_render
       [DOMContentLoaded, HealthResponse (Response 200 (Some ex_health_body)),
        StartupMemoryResponse (Response 503 None)]
       initial_state"

text \<open>
  The first channel is still connecting when its connect timer fires; the callback
  closes the socket, and the browser reports the connection that was closed before it
  was established with an \<open>error\<close> event.
\<close>

definition ex_timed_out :: state where
  "ex_timed_out = dispatch ex_render (TimerFired 0) ex_active"

definition ex_timed_out_error :: state where
  "ex_timed_out_error = dispatch ex_render (SocketFailed 0) ex_timed_out"

text \<open>
  The connection of the first channel fails before it opened, and its connect timer
  fires afterwards.
\<close>

definition ex_failed_channel :: state where
  "ex_failed_channel = dispatch ex_render (SocketFailed 0) ex_active"

definition ex_failed_then_timeout :: state where
  "ex_failed_then_timeout = dispatch ex_render (TimerFired 0) ex_failed_channel"

text \<open>
  After that failure the user asks again; the second channel opens, the backend closes
  it, and then the connect timer of the first channel fires.
\<close>

definition ex_second_opened :: state where
  "ex_second_opened =
     run ex_render
       [Typed (js ''hello''), SendRequested,
        QueryResponse (Response 200 (Some (JObj [(js ''query_id'', ex_q2)]))),
        SocketOpened 1]
       ex_failed_channel"

definition ex_stale_timer :: state where
  "ex_stale_timer = run ex_render [SocketClosed 1, TimerFired 0] ex_second_opened"

section \<open>Basic facts\<close>

lemma js_eq_iff [simp]: "js a = js b \<longleftrightarrow> a = b"
  unfolding js_def by (simp add: inj_on_def)

lemma js_Nil [simp]: "js a = [] \<longleftrightarrow> a = []" "[] = js a \<longleftrightarrow> a = []"
  by (auto simp: js_def)

lemma strict_eq_JStr [simp]: "strict_eq v (JStr a) \<longleftrightarrow> v = JStr a"
  by (cases v) simp_all

lemma strict_eq_JNull [simp]: "strict_eq v JNull \<longleftrightarrow> v = JNull"
  by (cases v) simp_all

lemma props_JObj:
  "props (JObj kvs) = Some (\<lambda>k. case map_of (rev kvs) k of None \<Rightarrow> JUndefined | Some x \<Rightarrow> x)"
  by (simp add: props_def)

lemma props_None_iff: "props v = None \<longleftrightarrow> v = JUndefined \<or> v = JNull"
  by (cases v) (simp_all add: props_def)

text \<open>What each presentation helper does to each field.\<close>

lemma emit_fields [simp]:
  "activeQueryId (emit e s) = activeQueryId s"
  "websocket (emit e s) = websocket s"
  "serverLimitedMode (emit e s) = serverLimitedMode s"
  "sockets (emit e s) = sockets s"
  "socket_count (emit e s) = socket_count s"
  "messageInput (emit e s) = messageInput s"
  "chat (emit e s) = chat s"
  "processing_hidden (emit e s) = processing_hidden s"
  "processingText (emit e s) = processingText s"
  "statusPanel (emit e s) = statusPanel s"
  "memoryPanel (emit e s) = memoryPanel s"
  "resetMemoryBtn_disabled (emit e s) = resetMemoryBtn_disabled s"
  "viewMemoryBtn_disabled (emit e s) = viewMemoryBtn_disabled s"
  "memoryContent (emit e s) = memoryContent s"
  "listening (emit e s) = listening s"
  "outbox (emit e s) = outbox s @ [e]"
  by (simp_all add: emit_def)

lemma addMessage_fields [simp]:
  "activeQueryId (addMessage r c s) = activeQueryId s"
  "websocket (addMessage r c s) = websocket s"
  "serverLimitedMode (addMessage r c s) = serverLimitedMode s"
  "sockets (addMessage r c s) = sockets s"
  "socket_count (addMessage r c s) = socket_count s"
  "messageInput (addMessage r c s) = messageInput s"
  "chat (addMessage r c s) = chat s @ [(r, c)]"
  "processing_hidden (addMessage r c s) = processing_hidden s"
  "processingText (addMessage r c s) = processingText s"
  "statusPanel (addMessage r c s) = statusPanel s"
  "memoryPanel (addMessage r c s) = memoryPanel s"
  "resetMemoryBtn_disabled (addMessage r c s) = resetMemoryBtn_disabled s"
  "viewMemoryBtn_disabled (addMessage r c s) = viewMemoryBtn_disabled s"
  "memoryContent (addMessage r c s) = memoryContent s"
  "listening (addMessage r c s) = listening s"
  "outbox (addMessage r c s) = outbox s"
  by (simp_all add: addMessage_def)

lemma showError_fields [simp]:
  "activeQueryId (showError m s) = activeQueryId s"
  "websocket (showError m s) = websocket s"
  "serverLimitedMode (showError m s) = serverLimitedMode s"
  "sockets (showError m s) = sockets s"
  "socket_count (showError m s) = socket_count s"
  "messageInput (showError m s) = messageInput s"
  "chat (showError m s) = chat s @ [(System, Txt txt_error_prefix # m)]"
  "processing_hidden (showError m s) = processing_hidden s"
  "processingText (showError m s) = processingText s"
  "statusPanel (showError m s) = statusPanel s"
  "memoryPanel (showError m s) = memoryPanel s"
  "resetMemoryBtn_disabled (showError m s) = resetMemoryBtn_disabled s"
  "viewMemoryBtn_disabled (showError m s) = viewMemoryBtn_disabled s"
  "memoryContent (showError m s) = memoryContent s"
  "listening (showError m s) = listening s"
  "outbox (showError m s) = outbox s"
  by (simp_all add: showError_def)

lemma showProcessingStatus_fields [simp]:
  "activeQueryId (showProcessingStatus b s) = activeQueryId s"
  "websocket (showProcessingStatus b s) = websocket s"
  "serverLimitedMode (showProcessingStatus b s) = serverLimitedMode s"
  "sockets (showProcessingStatus b s) = sockets s"
  "socket_count (showProcessingStatus b s) = socket_count s"
  "messageInput (showProcessingStatus b s) = messageInput s"
  "chat (showProcessingStatus b s) = chat s"
  "processing_hidden (showProcessingStatus b s) = (\<not> b)"
  "processingText (showProcessingStatus b s) = processingText s"
  "statusPanel (showProcessingStatus b s) = statusPanel s"
  "memoryPanel (showProcessingStatus b s) = memoryPanel s"
  "resetMemoryBtn_disabled (showProcessingStatus b s) = resetMemoryBtn_disabled s"
  "viewMemoryBtn_disabled (showProcessingStatus b s) = viewMemoryBtn_disabled s"
  "memoryContent (showProcessingStatus b s) = memoryContent s"
  "listening (showProcessingStatus b s) = listening s"
  "outbox (showProcessingStatus b s) = outbox s"
  by (simp_all add: showProcessingStatus_def)

lemma updateProcessingText_fields [simp]:
  "activeQueryId (updateProcessingText v s) = activeQueryId s"
  "websocket (updateProcessingText v s) = websocket s"
  "serverLimitedMode (updateProcessingText v s) = serverLimitedMode s"
  "sockets (updateProcessingText v s) = sockets s"
  "socket_count (updateProcessingText v s) = socket_count s"
  "messageInput (updateProcessingText v s) = messageInput s"
  "chat (updateProcessingText v s) = chat s"
  "processing_hidden (updateProcessingText v s) = processing_hidden s"
  "statusPanel (updateProcessingText v s) = statusPanel s"
  "memoryPanel (updateProcessingText v s) = memoryPanel s"
  "resetMemoryBtn_disabled (updateProcessingText v s) = resetMemoryBtn_disabled s"
  "viewMemoryBtn_disabled (updateProcessingText v s) = viewMemoryBtn_disabled s"
  "memoryContent (updateProcessingText v s) = memoryContent s"
  "listening (updateProcessingText v s) = listening s"
  "outbox (updateProcessingText v s) = outbox s"
  by (simp_all add: updateProcessingText_def)

lemma handleLimitedMode_fields [simp]:
  "activeQueryId (handleLimitedMode m s) = activeQueryId s"
  "websocket (handleLimitedMode m s) = websocket s"
  "serverLimitedMode (handleLimitedMode m s) = True"
  "sockets (handleLimitedMode m s) = sockets s"
  "socket_count (handleLimitedMode m s) = socket_count s"
  "messageInput (handleLimitedMode m s) = messageInput s"
  "chat (handleLimitedMode m s) = chat s @ [(System, [Txt txt_warning_prefix, Txt m, Txt txt_warning_suffix])]"
  "processing_hidden (handleLimitedMode m s) = processing_hidden s"
  "processingText (handleLimitedMode m s) = processingText s"
  "statusPanel (handleLimitedMode m s) = Some m"
  "memoryPanel (handleLimitedMode m s) = [ParaMuted txt_panel_unavailable]"
  "resetMemoryBtn_disabled (handleLimitedMode m s) = True"
  "viewMemoryBtn_disabled (handleLimitedMode m s) = True"
  "memoryContent (handleLimitedMode m s) = memoryContent s"
  "listening (handleLimitedMode m s) = listening s"
  "outbox (handleLimitedMode m s) = outbox s"
  by (simp_all add: handleLimitedMode_def addMessage_def)

lemma socket_close_fields [simp]:
  "activeQueryId (socket_close k s) = activeQueryId s"
  "websocket (socket_close k s) = websocket s"
  "serverLimitedMode (socket_close k s) = serverLimitedMode s"
  "socket_count (socket_close k s) = socket_count s"
  "messageInput (socket_close k s) = messageInput s"
  "chat (socket_close k s) = chat s"
  "processing_hidden (socket_close k s) = processing_hidden s"
  "processingText (socket_close k s) = processingText s"
  "statusPanel (socket_close k s) = statusPanel s"
  "memoryPanel (socket_close k s) = memoryPanel s"
  "resetMemoryBtn_disabled (socket_close k s) = resetMemoryBtn_disabled s"
  "viewMemoryBtn_disabled (socket_close k s) = viewMemoryBtn_disabled s"
  "memoryContent (socket_close k s) = memoryContent s"
  "listening (socket_close k s) = listening s"
  "outbox (socket_close k s) = outbox s @ [WebSocketClose k]"
  by (simp_all add: socket_close_def)

lemma socket_close_timeout_state [simp]:
  "timeout_state (sockets (socket_close k s) j) = timeout_state (sockets s j)"
  by (simp add: socket_close_def)

lemma socket_close_sock_query [simp]:
  "sock_query (sockets (socket_close k s) j) = sock_query (sockets s j)"
  by (simp add: socket_close_def)

lemma socket_close_readyState:
  "readyState (sockets (socket_close k s) j) =
     (if j = k then (case readyState (sockets s k) of
                       CONNECTING \<Rightarrow> CLOSING | OPEN \<Rightarrow> CLOSING | CLOSING \<Rightarrow> CLOSING
                     | CLOSED \<Rightarrow> CLOSED)
      else readyState (sockets s j))"
  by (simp add: socket_close_def)


lemma updateMemoryPanel_fields [simp]:
  "activeQueryId (updateMemoryPanel m s) = activeQueryId s"
  "websocket (updateMemoryPanel m s) = websocket s"
  "serverLimitedMode (updateMemoryPanel m s) = serverLimitedMode s"
  "sockets (updateMemoryPanel m s) = sockets s"
  "socket_count (updateMemoryPanel m s) = socket_count s"
  "messageInput (updateMemoryPanel m s) = messageInput s"
  "chat (updateMemoryPanel m s) = chat s"
  "processing_hidden (updateMemoryPanel m s) = processing_hidden s"
  "processingText (updateMemoryPanel m s) = processingText s"
  "statusPanel (updateMemoryPanel m s) = statusPanel s"
  "resetMemoryBtn_disabled (updateMemoryPanel m s) = resetMemoryBtn_disabled s"
  "viewMemoryBtn_disabled (updateMemoryPanel m s) = viewMemoryBtn_disabled s"
  "memoryContent (updateMemoryPanel m s) = memoryContent s"
  "listening (updateMemoryPanel m s) = listening s"
  "outbox (updateMemoryPanel m s) = outbox s"
  by (simp_all add: updateMemoryPanel_def)

lemma attach_listeners_fields [simp]:
  "activeQueryId (attach_listeners s) = activeQueryId s"
  "websocket (attach_listeners s) = websocket s"
  "serverLimitedMode (attach_listeners s) = serverLimitedMode s"
  "sockets (attach_listeners s) = sockets s"
  "socket_count (attach_listeners s) = socket_count s"
  "messageInput (attach_listeners s) = messageInput s"
  "chat (attach_listeners s) = chat s"
  "processing_hidden (attach_listeners s) = processing_hidden s"
  "processingText (attach_listeners s) = processingText s"
  "statusPanel (attach_listeners s) = statusPanel s"
  "memoryPanel (attach_listeners s) = memoryPanel s"
  "resetMemoryBtn_disabled (attach_listeners s) = resetMemoryBtn_disabled s"
  "viewMemoryBtn_disabled (attach_listeners s) = viewMemoryBtn_disabled s"
  "memoryContent (attach_listeners s) = memoryContent s"
  "listening (attach_listeners s)"
  "outbox (attach_listeners s) = outbox s"
  by (simp_all add: attach_listeners_def)

lemma closeWebSocketConnection_fields [simp]:
  "serverLimitedMode (closeWebSocketConnection s) = serverLimitedMode s"
  "socket_count (closeWebSocketConnection s) = socket_count s"
  "messageInput (closeWebSocketConnection s) = messageInput s"
  "chat (closeWebSocketConnection s) = chat s"
  "processing_hidden (closeWebSocketConnection s) = processing_hidden s"
  "processingText (closeWebSocketConnection s) = processingText s"
  "statusPanel (closeWebSocketConnection s) = statusPanel s"
  "memoryPanel (closeWebSocketConnection s) = memoryPanel s"
  "resetMemoryBtn_disabled (closeWebSocketConnection s) = resetMemoryBtn_disabled s"
  "viewMemoryBtn_disabled (closeWebSocketConnection s) = viewMemoryBtn_disabled s"
  "memoryContent (closeWebSocketConnection s) = memoryContent s"
  "listening (closeWebSocketConnection s) = listening s"
  "websocket (closeWebSocketConnection s) = None"
  by (simp_all add: closeWebSocketConnection_def Let_def split: option.split)

lemma closeWebSocketConnection_activeQueryId:
  "activeQueryId (closeWebSocketConnection s) =
     (if truthy (activeQueryId s) then JNull else activeQueryId s)"
  by (simp add: closeWebSocketConnection_def Let_def split: option.split)

lemma closeWebSocketConnection_outbox:
  "outbox (closeWebSocketConnection s) =
     outbox s @ (case websocket s of None \<Rightarrow> [] | Some k \<Rightarrow> [WebSocketClose k])"
  by (simp add: closeWebSocketConnection_def Let_def split: option.split)

lemma closeWebSocketConnection_timeout_state [simp]:
  "timeout_state (sockets (closeWebSocketConnection s) j) = timeout_state (sockets s j)"
  by (simp add: closeWebSocketConnection_def Let_def split: option.split)

lemma closeWebSocketConnection_readyState:
  "readyState (sockets (closeWebSocketConnection s) j) =
     (if websocket s = Some j
      then (case readyState (sockets s j) of
              CONNECTING \<Rightarrow> CLOSING | OPEN \<Rightarrow> CLOSING | CLOSING \<Rightarrow> CLOSING | CLOSED \<Rightarrow> CLOSED)
      else readyState (sockets s j))"
  by (simp add: closeWebSocketConnection_def Let_def socket_close_def split: option.split)

lemma closeWebSocketConnection_idle:
  "websocket s = None \<Longrightarrow> \<not> truthy (activeQueryId s) \<Longrightarrow> closeWebSocketConnection s = s"
  by (simp add: closeWebSocketConnection_def)

lemma connectWebSocket_fields [simp]:
  "activeQueryId (connectWebSocket q s) = q"
  "websocket (connectWebSocket q s) = Some (socket_count s)"
  "socket_count (connectWebSocket q s) = Suc (socket_count s)"
  "serverLimitedMode (connectWebSocket q s) = serverLimitedMode s"
  "messageInput (connectWebSocket q s) = messageInput s"
  "chat (connectWebSocket q s) = chat s"
  "processing_hidden (connectWebSocket q s) = processing_hidden s"
  "processingText (connectWebSocket q s) = processingText s"
  "statusPanel (connectWebSocket q s) = statusPanel s"
  "memoryPanel (connectWebSocket q s) = memoryPanel s"
  "resetMemoryBtn_disabled (connectWebSocket q s) = resetMemoryBtn_disabled s"
  "viewMemoryBtn_disabled (connectWebSocket q s) = viewMemoryBtn_disabled s"
  "memoryContent (connectWebSocket q s) = memoryContent s"
  "listening (connectWebSocket q s) = listening s"
  by (simp_all add: connectWebSocket_def Let_def)

lemma connectWebSocket_outbox:
  "outbox (connectWebSocket q s) =
     outbox s @ (case websocket s of None \<Rightarrow> [] | Some k \<Rightarrow> [WebSocketClose k])
       @ [NewWebSocket (socket_count s) q, SetTimeout (socket_count s)]"
  by (simp add: connectWebSocket_def Let_def closeWebSocketConnection_outbox)

lemma connectWebSocket_new_socket:
  "socket_count s = k \<Longrightarrow>
   sockets (connectWebSocket q s) k =
     \<lparr>sock_query = q, readyState = CONNECTING, onclose_set = True, timeout_state = Pending\<rparr>"
  by (auto simp: connectWebSocket_def Let_def)

lemma connectWebSocket_old_timeout_state:
  "j \<noteq> socket_count s \<Longrightarrow>
     timeout_state (sockets (connectWebSocket q s) j) = timeout_state (sockets s j)"
  by (simp add: connectWebSocket_def Let_def)

lemma connectWebSocket_old_readyState:
  "j \<noteq> socket_count s \<Longrightarrow>
     readyState (sockets (connectWebSocket q s) j) =
       readyState (sockets (closeWebSocketConnection s) j)"
  by (simp add: connectWebSocket_def Let_def)

text \<open>The example session, field by field.\<close>

lemma trim_hello: "trim (js ''hello'') = js ''hello''"
  by (simp add: trim_def js_def is_js_space_def)


lemma truthy_ex_q1 [simp]: "truthy ex_q1"
  by (simp add: ex_q1_def)

lemma strict_eq_ex_q1 [simp]: "strict_eq v ex_q1 \<longleftrightarrow> v = ex_q1"
  by (simp add: ex_q1_def)

lemma ex_q1_distinct [simp]:
  "ex_q1 \<noteq> JUndefined" "ex_q1 \<noteq> JNull" "ex_q1 \<noteq> JStr (js ''q0'')" "ex_q1 \<noteq> JStr []"
  "JUndefined \<noteq> ex_q1" "JNull \<noteq> ex_q1" "JStr (js ''q0'') \<noteq> ex_q1" "JStr [] \<noteq> ex_q1"
  by (simp_all add: ex_q1_def)

lemma ex_loaded_eq:
  "ex_loaded =
     attach_listeners (updateMemoryPanel ex_memory
       (emit (Fetch GetMemory) (emit (Fetch GetHealth) initial_state)))"
  by (simp add: ex_loaded_def dispatch_def startup_begin_def startup_health_def
      startup_memory_def ok_def)

lemma ex_loaded_fields:
  "activeQueryId ex_loaded = JNull"
  "websocket ex_loaded = None"
  "messageInput ex_loaded = []"
  "chat ex_loaded = []"
  "outbox ex_loaded = [Fetch GetHealth, Fetch GetMemory]"
  "socket_count ex_loaded = 0"
  "processing_hidden ex_loaded"
  "listening ex_loaded"
  "sockets ex_loaded = sockets initial_state"
  by (simp_all add: ex_loaded_eq initial_state_def)

lemma session_acknowledged:
  "dispatch render (QueryResponse (Response 200 (Some (JObj [(js ''query_id'', q)])))) s =
     connectWebSocket q (s\<lparr>activeQueryId := q\<rparr>)"
  by (simp add: dispatch_def sendMessage_response_def ok_def props_JObj)

lemma ex_typed_fields:
  "activeQueryId ex_typed = JNull"
  "websocket ex_typed = None"
  "messageInput ex_typed = js ''hello''"
  "chat ex_typed = []"
  "outbox ex_typed = [Fetch GetHealth, Fetch GetMemory]"
  "socket_count ex_typed = 0"
  "processing_hidden ex_typed"
  "listening ex_typed"
  by (simp_all add: ex_typed_def dispatch_def ex_loaded_fields)

lemma ex_sent_eq:
  "ex_sent =
     emit (Fetch (PostQuery (js ''hello'')))
       (showProcessingStatus True ((addMessage User [Txt (js ''hello'')] ex_typed)\<lparr>messageInput := []\<rparr>))"
  by (simp add: ex_sent_def dispatch_def sendMessage_def ex_typed_fields trim_hello
      closeWebSocketConnection_idle Let_def)

lemma ex_sent_fields:
  "activeQueryId ex_sent = JNull"
  "websocket ex_sent = None"
  "messageInput ex_sent = []"
  "chat ex_sent = [(User, [Txt (js ''hello'')])]"
  "outbox ex_sent = [Fetch GetHealth, Fetch GetMemory, Fetch (PostQuery (js ''hello''))]"
  "socket_count ex_sent = 0"
  "\<not> processing_hidden ex_sent"
  "listening ex_sent"
  by (simp_all add: ex_sent_eq ex_typed_fields)

lemma ex_active_eq: "ex_active = connectWebSocket ex_q1 (ex_sent\<lparr>activeQueryId := ex_q1\<rparr>)"
  by (simp add: ex_active_def session_acknowledged)

lemma ex_active_fields:
  "activeQueryId ex_active = ex_q1"
  "websocket ex_active = Some 0"
  "messageInput ex_active = []"
  "chat ex_active = [(User, [Txt (js ''hello'')])]"
  "outbox ex_active =
     [Fetch GetHealth, Fetch GetMemory, Fetch (PostQuery (js ''hello'')), NewWebSocket 0 ex_q1,
      SetTimeout 0]"
  "socket_count ex_active = Suc 0"
  "\<not> processing_hidden ex_active"
  "listening ex_active"
  "sockets ex_active 0 =
     \<lparr>sock_query = ex_q1, readyState = CONNECTING, onclose_set = True, timeout_state = Pending\<rparr>"
  by (simp_all add: ex_active_eq ex_sent_fields connectWebSocket_outbox
      connectWebSocket_new_socket)

lemma ex_open_eq: "ex_open = ws_onopen 0 (set_readyState 0 OPEN ex_active)"
  by (simp add: ex_open_def dispatch_def ex_active_fields)

lemma ex_open_fields:
  "activeQueryId ex_open = ex_q1"
  "websocket ex_open = Some 0"
  "socket_count ex_open = Suc 0"
  "chat ex_open = [(User, [Txt (js ''hello'')])]"
  "outbox ex_open = outbox ex_active @ [ClearTimeout 0]"
  "\<not> processing_hidden ex_open"
  "sockets ex_open 0 =
     \<lparr>sock_query = ex_q1, readyState = OPEN, onclose_set = True, timeout_state = Cleared\<rparr>"
  by (simp_all add: ex_open_eq ws_onopen_def set_readyState_def ex_active_fields)

lemma ex_session_fields:
  assumes "trim txt = txt" and "txt \<noteq> []"
  shows "chat (ex_session txt) = [(User, [Txt txt])]"
    and "activeQueryId (ex_session txt) = ex_q1"
    and "\<not> processing_hidden (ex_session txt)"
    and "websocket (ex_session txt) = Some 0"
    and "socket_count (ex_session txt) = Suc 0"
    and "sockets (ex_session txt) 0 =
          \<lparr>sock_query = ex_q1, readyState = OPEN, onclose_set = True, timeout_state = Cleared\<rparr>"
proof -
  define s1 where "s1 = dispatch ex_render (Typed txt) ex_loaded"
  define s2 where "s2 = dispatch ex_render SendRequested s1"
  define s3 where "s3 = connectWebSocket ex_q1 (s2\<lparr>activeQueryId := ex_q1\<rparr>)"
  have s1: "activeQueryId s1 = JNull" "websocket s1 = None" "messageInput s1 = txt"
    "chat s1 = []" "socket_count s1 = 0" "listening s1"
    by (simp_all add: s1_def dispatch_def ex_loaded_fields)
  have s2_eq: "s2 = emit (Fetch (PostQuery txt))
      (showProcessingStatus True ((addMessage User [Txt txt] s1)\<lparr>messageInput := []\<rparr>))"
    using assms
    by (simp add: s2_def dispatch_def sendMessage_def s1 closeWebSocketConnection_idle Let_def)
  have s2: "chat s2 = [(User, [Txt txt])]" "websocket s2 = None" "socket_count s2 = 0"
    "\<not> processing_hidden s2"
    by (simp_all add: s2_eq s1)
  have s3: "chat s3 = [(User, [Txt txt])]" "websocket s3 = Some 0" "socket_count s3 = Suc 0"
    "\<not> processing_hidden s3" "activeQueryId s3 = ex_q1"
    "sockets s3 0 =
       \<lparr>sock_query = ex_q1, readyState = CONNECTING, onclose_set = True, timeout_state = Pending\<rparr>"
    by (simp_all add: s3_def s2 connectWebSocket_new_socket)
  have eq: "ex_session txt = ws_onopen 0 (set_readyState 0 OPEN s3)"
    by (simp add: ex_session_def s1_def [symmetric] s2_def [symmetric] session_acknowledged
        s3_def [symmetric] dispatch_def [of _ "SocketOpened 0"] s3)
  show "chat (ex_session txt) = [(User, [Txt txt])]"
    by (simp add: eq ws_onopen_def set_readyState_def s3)
  show "activeQueryId (ex_session txt) = ex_q1"
    by (simp add: eq ws_onopen_def set_readyState_def s3)
  show "\<not> processing_hidden (ex_session txt)"
    by (simp add: eq ws_onopen_def set_readyState_def s3)
  show "websocket (ex_session txt) = Some 0"
    by (simp add: eq ws_onopen_def set_readyState_def s3)
  show "socket_count (ex_session txt) = Suc 0"
    by (simp add: eq ws_onopen_def set_readyState_def s3)
  show "sockets (ex_session txt) 0 =
      \<lparr>sock_query = ex_q1, readyState = OPEN, onclose_set = True, timeout_state = Cleared\<rparr>"
    by (simp add: eq ws_onopen_def set_readyState_def s3)
qed

lemma reachable_run: "reachable render s \<Longrightarrow> reachable render (run render evs s)"
  by (induction evs arbitrary: s) (simp_all add: reachable.step)

text \<open>The example states are states of the page.\<close>

lemma ex_reachable:
  "reachable ex_render ex_loaded"
  "reachable ex_render ex_typed"
  "reachable ex_render ex_sent"
  "reachable ex_render ex_active"
  "reachable ex_render ex_open"
  "reachable ex_render (ex_session txt)"
  "reachable ex_render ex_sent_typed"
  "reachable ex_render ex_empty_id"
  "reachable ex_render ex_limited"
  "reachable ex_render ex_failed_channel"
  "reachable ex_render ex_failed_then_timeout"
  "reachable ex_render ex_second_opened"
  "reachable ex_render ex_stale_timer"
proof -
  show l: "reachable ex_render ex_loaded"
    unfolding ex_loaded_def by (intro reachable_run reachable.loaded)
  show t: "reachable ex_render ex_typed"
    unfolding ex_typed_def by (intro reachable.step l)
  show s: "reachable ex_render ex_sent"
    unfolding ex_sent_def by (intro reachable.step t)
  show a: "reachable ex_render ex_active"
    unfolding ex_active_def by (intro reachable.step s)
  show "reachable ex_render ex_open"
    unfolding ex_open_def by (intro reachable.step a)
  show "reachable ex_render (ex_session txt)"
    unfolding ex_session_def by (intro reachable_run l)
  show "reachable ex_render ex_sent_typed"
    unfolding ex_sent_typed_def by (intro reachable.step s)
  show "reachable ex_render ex_empty_id"
    unfolding ex_empty_id_def by (intro reachable_run s)
  show "reachable ex_render ex_limited"
    unfolding ex_limited_def by (intro reachable_run reachable.loaded)
  show f: "reachable ex_render ex_failed_channel"
    unfolding ex_failed_channel_def by (intro reachable.step a)
  show "reachable ex_render ex_failed_then_timeout"
    unfolding ex_failed_then_timeout_def by (intro reachable.step f)
  show o: "reachable ex_render ex_second_opened"
    unfolding ex_second_opened_def by (intro reachable_run f)
  show "reachable ex_render ex_stale_timer"
    unfolding ex_stale_timer_def by (intro reachable_run o)
qed


section \<open>Stale channel messages\<close>

lemma field_props: "props v = Some d \<Longrightarrow> field v k = d k"
  by (simp add: field_def)

lemma field_JObj:
  "field (JObj kvs) k = (case map_of (rev kvs) k of None \<Rightarrow> JUndefined | Some x \<Rightarrow> x)"
  by (simp add: field_def props_JObj)

text \<open>
  C1, as the code has it. A message that carries no truthy \<open>error\<close> field and whose
  \<open>query_id\<close> is not strictly equal to the active query id is discarded: the handler
  returns the state it was given, so no module variable, no part of the document and no
  request or socket call changes. The \<open>error\<close> field is tested before the query id, so a
  message with an error is not covered.
\<close>

theorem ws_onmessage_stale_discarded:
  assumes "props data = Some d"
    and "\<not> truthy (d (js ''error''))"
    and "\<not> strict_eq (d (js ''query_id'')) (activeQueryId s)"
  shows "ws_onmessage queryId (Some data) s = s"
  using assms by (simp add: ws_onmessage_def)

lemma ex_stale_props:
  "props ex_stale_message =
     Some (\<lambda>k. case map_of (rev [(js ''query_id'', JStr (js ''q0'')),
                                    (js ''status'', JStr (js ''processing''))]) k of
                 None \<Rightarrow> JUndefined | Some x \<Rightarrow> x)"
  by (simp add: ex_stale_message_def props_JObj)

theorem ws_onmessage_stale_discarded_witness:
  "\<not> truthy (field ex_stale_message (js ''error''))
   \<and> \<not> strict_eq (field ex_stale_message (js ''query_id'')) (activeQueryId ex_open)
   \<and> ws_onmessage ex_q1 (Some ex_stale_message) ex_open = ex_open"
proof -
  have e: "\<not> truthy (field ex_stale_message (js ''error''))"
    by (simp add: ex_stale_message_def field_JObj)
  have q: "\<not> strict_eq (field ex_stale_message (js ''query_id'')) (activeQueryId ex_open)"
    by (simp add: ex_stale_message_def field_JObj ex_open_fields)
  have "ws_onmessage ex_q1 (Some ex_stale_message) ex_open = ex_open"
    using e q ws_onmessage_stale_discarded [OF ex_stale_props, of ex_open ex_q1]
    by (simp add: field_props [OF ex_stale_props])
  with e q show ?thesis by simp
qed

text \<open>
  The claim as stated fails on a message with an \<open>error\<close> field: the backend's error
  message carries no query id, so its \<open>query_id\<close> differs from the active one, and yet
  the handler shows the error, hides the processing indicator and clears the active id.
\<close>

lemma ex_error_fields:
  "field ex_error_message (js ''query_id'') = JUndefined"
  "field ex_error_message (js ''error'') = JStr (js ''Query not found'')"
  by (simp_all add: ex_error_message_def field_JObj)

lemma ex_error_handled:
  "ws_onmessage ex_q1 (Some ex_error_message) ex_open =
     (showProcessingStatus False (showError [Val (JStr (js ''Query not found''))] ex_open))
     \<lparr>activeQueryId := JNull\<rparr>"
  by (simp add: ws_onmessage_def ex_error_message_def props_JObj)

theorem ws_onmessage_error_counterexample:
  "reachable ex_render ex_open
   \<and> \<not> strict_eq (field ex_error_message (js ''query_id'')) (activeQueryId ex_open)
   \<and> activeQueryId ex_open = ex_q1
   \<and> \<not> processing_hidden ex_open
   \<and> activeQueryId (ws_onmessage ex_q1 (Some ex_error_message) ex_open) = JNull
   \<and> processing_hidden (ws_onmessage ex_q1 (Some ex_error_message) ex_open)
   \<and> chat (ws_onmessage ex_q1 (Some ex_error_message) ex_open) =
        chat ex_open @ [(System, [Txt txt_error_prefix, Val (JStr (js ''Query not found''))])]"
  by (simp add: ex_error_handled ex_error_fields ex_open_fields ex_reachable)


section \<open>Submitting a query\<close>

text \<open>
  C2, as the code has it. A call of \<open>sendMessage\<close> made while the trimmed input is empty
  or the active query id is truthy returns the state it was given: the active query id
  is unchanged, no channel is opened or closed, no message is appended and no request is
  sent.
\<close>

theorem sendMessage_noop:
  assumes "trim (messageInput s) = [] \<or> truthy (activeQueryId s)"
  shows "sendMessage s = s"
  using assms by (auto simp: sendMessage_def Let_def)

theorem sendMessage_noop_witness:
  "(trim (messageInput (dispatch ex_render (Typed (js ''hello'')) ex_active)) = []
      \<or> truthy (activeQueryId (dispatch ex_render (Typed (js ''hello'')) ex_active)))
   \<and> messageInput (dispatch ex_render (Typed (js ''hello'')) ex_active) = js ''hello''
   \<and> sendMessage (dispatch ex_render (Typed (js ''hello'')) ex_active) =
       dispatch ex_render (Typed (js ''hello'')) ex_active"
proof -
  have t: "dispatch ex_render (Typed (js ''hello'')) ex_active =
      ex_active\<lparr>messageInput := js ''hello''\<rparr>"
    by (simp add: dispatch_def)
  have h: "trim (messageInput (dispatch ex_render (Typed (js ''hello'')) ex_active)) = []
      \<or> truthy (activeQueryId (dispatch ex_render (Typed (js ''hello'')) ex_active))"
    by (simp add: t ex_active_fields)
  have m: "messageInput (dispatch ex_render (Typed (js ''hello'')) ex_active) = js ''hello''"
    by (simp add: t)
  from h m sendMessage_noop [OF h] show ?thesis by simp
qed

text \<open>
  The claim as stated fails twice. The guard tests the active query id for truthiness,
  not against \<open>null\<close>: after the backend has acknowledged a query with the empty string
  as its id, the id is not \<open>null\<close> and a second submission still goes out. And the
  active query id is assigned only when the acknowledgement arrives: a submission made
  while the first \<open>POST /query\<close> is unanswered passes the guard, so two queries are under
  way at once.
\<close>

lemma ex_empty_id_fields:
  "activeQueryId ex_empty_id = JStr []"
  "websocket ex_empty_id = Some 0"
  "messageInput ex_empty_id = js ''hello''"
  "chat ex_empty_id = [(User, [Txt (js ''hello'')])]"
  "outbox ex_empty_id = outbox ex_sent @ [NewWebSocket 0 (JStr []), SetTimeout 0]"
  by (simp_all add: ex_empty_id_def session_acknowledged dispatch_def [of _ "Typed t" for t]
      ex_sent_fields connectWebSocket_outbox)

lemma ex_empty_id_sent:
  "sendMessage ex_empty_id =
     emit (Fetch (PostQuery (js ''hello'')))
       (showProcessingStatus True
          ((addMessage User [Txt (js ''hello'')] (closeWebSocketConnection ex_empty_id))
           \<lparr>messageInput := []\<rparr>))"
  by (simp add: sendMessage_def ex_empty_id_fields trim_hello Let_def)

lemma ex_sent_typed_fields:
  "activeQueryId ex_sent_typed = JNull"
  "websocket ex_sent_typed = None"
  "messageInput ex_sent_typed = js ''hello''"
  "chat ex_sent_typed = [(User, [Txt (js ''hello'')])]"
  "outbox ex_sent_typed = outbox ex_sent"
  by (simp_all add: ex_sent_typed_def dispatch_def ex_sent_fields)

lemma ex_sent_typed_sent:
  "sendMessage ex_sent_typed =
     emit (Fetch (PostQuery (js ''hello'')))
       (showProcessingStatus True
          ((addMessage User [Txt (js ''hello'')] ex_sent_typed)\<lparr>messageInput := []\<rparr>))"
  by (simp add: sendMessage_def ex_sent_typed_fields trim_hello Let_def
      closeWebSocketConnection_idle)

theorem sendMessage_counterexample:
  "reachable ex_render ex_empty_id \<and> reachable ex_render ex_sent_typed
   \<and> activeQueryId ex_empty_id \<noteq> JNull
   \<and> outbox (sendMessage ex_empty_id) =
       outbox ex_empty_id @ [WebSocketClose 0, Fetch (PostQuery (js ''hello''))]
   \<and> chat (sendMessage ex_empty_id) = chat ex_empty_id @ [(User, [Txt (js ''hello'')])]
   \<and> outbox ex_sent_typed =
       [Fetch GetHealth, Fetch GetMemory, Fetch (PostQuery (js ''hello''))]
   \<and> outbox (sendMessage ex_sent_typed) =
       [Fetch GetHealth, Fetch GetMemory, Fetch (PostQuery (js ''hello'')),
        Fetch (PostQuery (js ''hello''))]
   \<and> chat (sendMessage ex_sent_typed) = [(User, [Txt (js ''hello'')]), (User, [Txt (js ''hello'')])]"
  by (simp add: ex_empty_id_sent ex_sent_typed_sent ex_empty_id_fields ex_sent_typed_fields
      ex_sent_fields closeWebSocketConnection_outbox ex_reachable)


section \<open>Fetching the result\<close>

lemma fetch_finally_fields [simp]:
  "activeQueryId (fetch_finally s) = JNull"
  "processing_hidden (fetch_finally s)"
  "chat (fetch_finally s) = chat s"
  "outbox (fetch_finally s) = outbox s"
  "serverLimitedMode (fetch_finally s) = serverLimitedMode s"
  "sockets (fetch_finally s) = sockets s"
  "socket_count (fetch_finally s) = socket_count s"
  "websocket (fetch_finally s) = websocket s"
  by (simp_all add: fetch_finally_def)

lemma fetch_catch_fields [simp]:
  "chat (fetch_catch s) = chat s @ [(System, [Txt txt_error_prefix, Txt txt_result_error])]"
  "outbox (fetch_catch s) = outbox s"
  "serverLimitedMode (fetch_catch s) = serverLimitedMode s"
  "sockets (fetch_catch s) = sockets s"
  "socket_count (fetch_catch s) = socket_count s"
  "websocket (fetch_catch s) = websocket s"
  by (simp_all add: fetch_catch_def)

lemma is_idle_fetch_finally [simp]: "is_idle (fetch_finally s)"
  by (simp add: is_idle_def)



text \<open>
  What the selector finds in the element of one message: in a user message the content
  block and whatever its rendering holds of the class \<open>message-content\<close>; in any other
  message what its rendering holds of that class inside an element of the class
  \<open>user-message\<close>.
\<close>

lemma select_user_message:
  "select_user_content False (message_node render (User, c)) =
     Element (js ''div'') [js ''message-content'', js ''markdown-content''] (render c)
     # concat (map (select_user_content True) (render c))"
  by (simp add: message_node_def role_class_def)


text \<open>
  Once a user message is in the transcript, \<open>getLastUserMessage\<close> does not return
  \<open>null\<close>, whatever the messages render to.
\<close>

lemma getLastUserMessage_user_message:
  assumes "(User, c) \<in> set (chat s)"
  shows "getLastUserMessage render s \<noteq> JNull"
proof -
  have "select_user_content False (message_node render (User, c)) \<noteq> []"
    by (simp add: select_user_message)
  then have "concat (map (select_user_content False) (chatContainer render s)) \<noteq> []"
    using assms by (force simp: chatContainer_def)
  then show ?thesis
    by (simp add: getLastUserMessage_def split: list.split)
qed


text \<open>The example rendering, and what is read back from the example transcripts.\<close>

lemma ex_render_hello:
  "ex_render [Txt (js ''hello'')] = [Element (js ''p'') [] [Text (js ''hello'')], Text [0x0A]]"
  by (simp add: ex_render_def ex_print_def Let_def txt_error_prefix_def ex_injection_def js_def)



lemma trim_hello_line: "trim (js ''hello'' @ [0x0A]) = js ''hello''"
  by (simp add: trim_def js_def is_js_space_def)


lemma ex_last_hello:
  "chat s = [(User, [Txt (js ''hello'')])] \<Longrightarrow>
   getLastUserMessage ex_render s = JStr (js ''hello'')"
  by (simp add: getLastUserMessage_def chatContainer_def select_user_message ex_render_hello
      trim_hello_line)










lemma ex_status_body_props:
  "props (ex_status_body q) =
     Some (\<lambda>k. case map_of (rev [(js ''query'', JStr (js q)),
                                    (js ''status'', JStr (js ''completed''))]) k of
                 None \<Rightarrow> JUndefined | Some x \<Rightarrow> x)"
  by (simp add: ex_status_body_def props_JObj)












lemma fetchQueryResult_result_idle: "is_idle (fetchQueryResult_result outcome s)"
  by (simp add: fetchQueryResult_result_def split: http.split option.split jsval.split)

lemma fetchQueryResult_status_idle:
  "(case fetchQueryResult_status render queryId outcome s of
      Finished t \<Rightarrow> is_idle t
    | AwaitResult t \<Rightarrow> t = emit (Fetch (GetQueryResult queryId)) s)"
  by (simp add: fetchQueryResult_status_def Let_def split: http.split option.split)

text \<open>
  C4. Every execution of \<open>fetchQueryResult\<close> ends in an idle session: the active query
  id is \<open>null\<close> and the processing indicator is hidden. This holds for a whole execution
  with any two outcomes, and for each of its segments from whatever state the event loop
  resumes it in: the segment after the status response either ends idle or has sent the
  result request, and the segment after the result response ends idle.
\<close>

theorem fetchQueryResult_returns_to_idle:
  "is_idle (fetchQueryResult render queryId status_outcome result_outcome s)
   \<and> is_idle (fetchQueryResult_result result_outcome s')
   \<and> (case fetchQueryResult_status render queryId status_outcome s'' of
         Finished t \<Rightarrow> is_idle t
       | AwaitResult t \<Rightarrow> t = emit (Fetch (GetQueryResult queryId)) s'')"
proof -
  have "is_idle (fetchQueryResult render queryId status_outcome result_outcome s)"
    using fetchQueryResult_status_idle
      [where render = render and queryId = queryId and outcome = status_outcome
         and s = "fetchQueryResult_begin queryId s"]
    by (simp add: fetchQueryResult_def fetchQueryResult_result_idle split: fetch_phase.splits)
  then show ?thesis
    by (simp add: fetchQueryResult_result_idle fetchQueryResult_status_idle)
qed

lemma ex_answer_props:
  "props ex_answer_body =
     Some (\<lambda>k. case map_of (rev [(js ''final_answer'', JStr (js ''Take the ferry.''))]) k of
                 None \<Rightarrow> JUndefined | Some x \<Rightarrow> x)"
  by (simp add: ex_answer_body_def props_JObj)

lemma ex_round_trip:
  "fetchQueryResult ex_render ex_q1 (Response 200 (Some (ex_status_body ''hello'')))
     (Response 200 (Some ex_answer_body)) (ex_session (js ''hello'')) =
   fetch_finally (fetchMemory_begin (addMessage Assistant [Txt (js ''Take the ferry.'')]
     (emit (Fetch (GetQueryResult ex_q1))
        (fetchQueryResult_begin ex_q1 (ex_session (js ''hello''))))))"
proof -
  have c: "chat (fetchQueryResult_begin ex_q1 (ex_session (js ''hello''))) =
      [(User, [Txt (js ''hello'')])]"
    by (simp add: fetchQueryResult_begin_def ex_session_fields trim_hello)
  have l: "getLastUserMessage ex_render (fetchQueryResult_begin ex_q1 (ex_session (js ''hello'')))
      = JStr (js ''hello'')"
    by (rule ex_last_hello [OF c])
  have 1: "fetchQueryResult_status ex_render ex_q1 (Response 200 (Some (ex_status_body ''hello'')))
      (fetchQueryResult_begin ex_q1 (ex_session (js ''hello''))) =
    AwaitResult (emit (Fetch (GetQueryResult ex_q1))
      (fetchQueryResult_begin ex_q1 (ex_session (js ''hello''))))"
    by (simp add: fetchQueryResult_status_def ok_def l ex_status_body_props)
  have 2: "fetchQueryResult_result (Response 200 (Some ex_answer_body)) t =
      fetch_finally (fetchMemory_begin (addMessage Assistant [Txt (js ''Take the ferry.'')] t))" for t
    by (simp add: fetchQueryResult_result_def ok_def ex_answer_props)
  show ?thesis by (simp add: fetchQueryResult_def 1 2)
qed

theorem fetchQueryResult_returns_to_idle_witness:
  "chat (fetchQueryResult ex_render ex_q1 (Response 200 (Some (ex_status_body ''hello'')))
     (Response 200 (Some ex_answer_body)) (ex_session (js ''hello''))) =
     [(User, [Txt (js ''hello'')]), (Assistant, [Txt (js ''Take the ferry.'')])]
   \<and> is_idle (fetchQueryResult ex_render ex_q1 (Response 200 (Some (ex_status_body ''hello'')))
     (Response 200 (Some ex_answer_body)) (ex_session (js ''hello'')))
   \<and> is_idle (fetchQueryResult ex_render ex_q1 NetworkError NetworkError (ex_session (js ''hello'')))
   \<and> is_idle (fetchQueryResult ex_render ex_q1 (Response 500 None) NetworkError
        (ex_session (js ''hello'')))
   \<and> is_idle (fetchQueryResult ex_render ex_q1 (Response 200 (Some (ex_status_body ''hello'')))
     (Response 404 (Some JNull)) (ex_session (js ''hello'')))"
proof -
  have "chat (fetchQueryResult ex_render ex_q1 (Response 200 (Some (ex_status_body ''hello'')))
     (Response 200 (Some ex_answer_body)) (ex_session (js ''hello''))) =
     [(User, [Txt (js ''hello'')]), (Assistant, [Txt (js ''Take the ferry.'')])]"
    by (simp add: ex_round_trip fetchMemory_begin_def fetchQueryResult_begin_def
        ex_session_fields trim_hello)
  then show ?thesis
    using fetchQueryResult_returns_to_idle by simp
qed


section \<open>The memory view\<close>

text \<open>
  C8. A snapshot whose \<open>query_count\<close> is \<open>0\<close> projects to the empty state: the panel is
  the one paragraph that says there is no memory, with no block for locations, points of
  interest or plans, whatever those fields hold; nothing else in the page changes.
\<close>

theorem updateMemoryPanel_empty:
  assumes "query_count m = 0"
  shows "updateMemoryPanel m s = s\<lparr>memoryPanel := [Para txt_no_memory]\<rparr>
    \<and> memoryPanel (updateMemoryPanel m s) = [Para txt_no_memory]"
  using assms by (simp add: updateMemoryPanel_def)

theorem updateMemoryPanel_empty_witness:
  "query_count ex_memory = 0
   \<and> current_locations ex_memory \<noteq> [] \<and> current_pois ex_memory \<noteq> []
   \<and> current_plans ex_memory \<noteq> []
   \<and> memoryPanel (updateMemoryPanel ex_memory ex_open) = [Para txt_no_memory]
   \<and> length (memoryPanel (updateMemoryPanel ex_memory_one ex_open)) = 4"
proof -
  have q: "query_count ex_memory = 0" by (simp add: ex_memory_def)
  have "length (memoryPanel (updateMemoryPanel ex_memory_one ex_open)) = 4"
    by (simp add: updateMemoryPanel_def ex_memory_one_def ex_memory_def)
  with q updateMemoryPanel_empty [OF q, of ex_open] show ?thesis
    by (simp add: ex_memory_def)
qed


section \<open>What every handler leaves alone\<close>

text \<open>
  No handler assigns \<open>false\<close> to \<open>serverLimitedMode\<close>; none lowers the number of
  sockets created; and the connect timer of an existing socket changes only by being
  cleared in \<open>onopen\<close> or by firing.
\<close>

lemma updateMemoryPanel_frame [simp]:
  "serverLimitedMode (updateMemoryPanel m s) = serverLimitedMode s"
  "sockets (updateMemoryPanel m s) = sockets s"
  "socket_count (updateMemoryPanel m s) = socket_count s"
  by (simp_all add: updateMemoryPanel_def)

lemma startup_frame [simp]:
  "sockets (startup_begin s) = sockets s"
  "socket_count (startup_begin s) = socket_count s"
  "sockets (startup_health ho s) = sockets s"
  "socket_count (startup_health ho s) = socket_count s"
  "sockets (startup_memory mo s) = sockets s"
  "socket_count (startup_memory mo s) = socket_count s"
  by (simp_all add: startup_begin_def startup_health_def startup_memory_def
      split: http.split option.split)

lemma startup_limited:
  "serverLimitedMode s \<Longrightarrow> serverLimitedMode (startup_begin s)"
  "serverLimitedMode s \<Longrightarrow> serverLimitedMode (startup_health ho s)"
  "serverLimitedMode s \<Longrightarrow> serverLimitedMode (startup_memory mo s)"
  by (simp_all add: startup_begin_def startup_health_def startup_memory_def
      split: http.split option.split)

lemma closeWebSocketConnection_sockets_frame:
  "socket_count s \<le> socket_count (closeWebSocketConnection s)"
  by simp

lemma sendMessage_frame:
  "serverLimitedMode (sendMessage s) = serverLimitedMode s"
  "socket_count (sendMessage s) = socket_count s"
  "timeout_state (sockets (sendMessage s) k) = timeout_state (sockets s k)"
  by (simp_all add: sendMessage_def Let_def)

lemma sendMessage_catch_frame [simp]:
  "serverLimitedMode (sendMessage_catch s) = serverLimitedMode s"
  "sockets (sendMessage_catch s) = sockets s"
  "socket_count (sendMessage_catch s) = socket_count s"
  by (simp_all add: sendMessage_catch_def)

lemma sendMessage_response_limited:
  "serverLimitedMode s \<Longrightarrow> serverLimitedMode (sendMessage_response outcome s)"
  by (simp add: sendMessage_response_def split: http.split option.split)

lemma sendMessage_response_count:
  "socket_count s \<le> socket_count (sendMessage_response outcome s)"
  by (simp add: sendMessage_response_def split: http.split option.split)

lemma sendMessage_response_timeout_state:
  "k < socket_count s \<Longrightarrow>
     timeout_state (sockets (sendMessage_response outcome s) k) = timeout_state (sockets s k)"
  by (simp add: sendMessage_response_def connectWebSocket_old_timeout_state
      split: http.split option.split)

lemma connectionTimeout_frame:
  "serverLimitedMode (connectionTimeout s) = serverLimitedMode s"
  "socket_count (connectionTimeout s) = socket_count s"
  "timeout_state (sockets (connectionTimeout s) k) = timeout_state (sockets s k)"
  by (simp_all add: connectionTimeout_def split: option.split)

lemma ws_onopen_frame:
  "serverLimitedMode (ws_onopen j s) = serverLimitedMode s"
  "socket_count (ws_onopen j s) = socket_count s"
  "timeout_state (sockets s k) \<noteq> Pending \<Longrightarrow>
     timeout_state (sockets (ws_onopen j s) k) \<noteq> Pending"
  by (simp_all add: ws_onopen_def)

lemma ws_onmessage_frame:
  "serverLimitedMode (ws_onmessage q parsed s) = serverLimitedMode s"
  "sockets (ws_onmessage q parsed s) = sockets s"
  "socket_count (ws_onmessage q parsed s) = socket_count s"
  by (simp_all add: ws_onmessage_def Let_def fetchQueryResult_begin_def split: option.split)

lemma ws_onerror_frame [simp]:
  "serverLimitedMode (ws_onerror s) = serverLimitedMode s"
  "sockets (ws_onerror s) = sockets s"
  "socket_count (ws_onerror s) = socket_count s"
  by (simp_all add: ws_onerror_def)

lemma set_readyState_frame [simp]:
  "serverLimitedMode (set_readyState j r s) = serverLimitedMode s"
  "socket_count (set_readyState j r s) = socket_count s"
  "timeout_state (sockets (set_readyState j r s) k) = timeout_state (sockets s k)"
  by (simp_all add: set_readyState_def)

lemma set_timeout_state_frame [simp]:
  "serverLimitedMode (set_timeout_state j t s) = serverLimitedMode s"
  "socket_count (set_timeout_state j t s) = socket_count s"
  "timeout_state (sockets (set_timeout_state j t s) k) =
     (if k = j then t else timeout_state (sockets s k))"
  by (simp_all add: set_timeout_state_def)

lemma fetchQueryResult_status_frame:
  "serverLimitedMode (phase_state (fetchQueryResult_status render q outcome s)) = serverLimitedMode s"
  "sockets (phase_state (fetchQueryResult_status render q outcome s)) = sockets s"
  "socket_count (phase_state (fetchQueryResult_status render q outcome s)) = socket_count s"
  by (simp_all add: fetchQueryResult_status_def phase_state_def Let_def
      split: http.split option.split)

lemma fetchQueryResult_result_frame:
  "serverLimitedMode (fetchQueryResult_result outcome s) = serverLimitedMode s"
  "sockets (fetchQueryResult_result outcome s) = sockets s"
  "socket_count (fetchQueryResult_result outcome s) = socket_count s"
  by (simp_all add: fetchQueryResult_result_def fetchMemory_begin_def
      split: http.split option.split jsval.split)

lemma memory_handlers_frame:
  "serverLimitedMode (fetchMemory_response mo s) = serverLimitedMode s"
  "sockets (fetchMemory_response mo s) = sockets s"
  "socket_count (fetchMemory_response mo s) = socket_count s"
  "serverLimitedMode (resetMemory_begin c s) = serverLimitedMode s"
  "sockets (resetMemory_begin c s) = sockets s"
  "socket_count (resetMemory_begin c s) = socket_count s"
  "serverLimitedMode (resetMemory_response ro s) = serverLimitedMode s"
  "sockets (resetMemory_response ro s) = sockets s"
  "socket_count (resetMemory_response ro s) = socket_count s"
  "serverLimitedMode (viewFullMemory_begin s) = serverLimitedMode s"
  "sockets (viewFullMemory_begin s) = sockets s"
  "socket_count (viewFullMemory_begin s) = socket_count s"
  "serverLimitedMode (viewFullMemory_response mo s) = serverLimitedMode s"
  "sockets (viewFullMemory_response mo s) = sockets s"
  "socket_count (viewFullMemory_response mo s) = socket_count s"
  by (simp_all add: fetchMemory_response_def resetMemory_begin_def resetMemory_response_def
      viewFullMemory_begin_def viewFullMemory_response_def addMessage_def
      split: http.split option.split)

lemma dispatch_limited:
  "serverLimitedMode s \<Longrightarrow> serverLimitedMode (dispatch render ev s)"
  by (cases ev)
    (simp_all add: dispatch_def startup_limited sendMessage_frame sendMessage_response_limited
      ws_onopen_frame ws_onmessage_frame connectionTimeout_frame fetchQueryResult_status_frame
      fetchQueryResult_result_frame memory_handlers_frame ws_onclose_def Let_def)

lemma run_limited:
  "serverLimitedMode s \<Longrightarrow> serverLimitedMode (run render evs s)"
  by (induction evs arbitrary: s) (simp_all add: dispatch_limited)

lemma dispatch_socket_count:
  "socket_count s \<le> socket_count (dispatch render ev s)"
  by (cases ev)
    (simp_all add: dispatch_def sendMessage_frame sendMessage_response_count
      ws_onopen_frame ws_onmessage_frame connectionTimeout_frame fetchQueryResult_status_frame
      fetchQueryResult_result_frame memory_handlers_frame ws_onclose_def Let_def)

lemma dispatch_timer_settled:
  assumes "k < socket_count s" and "timeout_state (sockets s k) \<noteq> Pending"
  shows "timeout_state (sockets (dispatch render ev s) k) \<noteq> Pending"
  using assms
  by (cases ev)
    (simp_all add: dispatch_def sendMessage_frame sendMessage_response_timeout_state
      ws_onopen_frame ws_onmessage_frame connectionTimeout_frame fetchQueryResult_status_frame
      fetchQueryResult_result_frame memory_handlers_frame ws_onclose_def Let_def)

lemma run_timer_settled:
  assumes "k < socket_count s" and "timeout_state (sockets s k) \<noteq> Pending"
  shows "k < socket_count (run render evs s)
    \<and> timeout_state (sockets (run render evs s) k) \<noteq> Pending"
  using assms
proof (induction evs arbitrary: s)
  case Nil
  then show ?case by simp
next
  case (Cons ev evs)
  have "k < socket_count (dispatch render ev s)"
    using Cons.prems(1) dispatch_socket_count [of s render ev] by simp
  moreover have "timeout_state (sockets (dispatch render ev s) k) \<noteq> Pending"
    using Cons.prems by (rule dispatch_timer_settled)
  ultimately show ?case using Cons.IH by simp
qed

lemma timer_settled_noop:
  "timeout_state (sockets s k) \<noteq> Pending \<Longrightarrow> dispatch render (TimerFired k) s = s"
  by (simp add: dispatch_def)

subsection \<open>Messages are never removed\<close>

text \<open>
  Every handler leaves the messages of the transcript in place. So once \<open>sendMessage\<close>
  has submitted a query, which it does after appending the user message, the transcript
  holds a user message for good, and \<open>getLastUserMessage\<close> does not return \<open>null\<close>
  again, whatever happens next.
\<close>

lemma helpers_keep_messages:
  "set (chat s) \<subseteq> set (chat (sendMessage s))"
  "set (chat s) \<subseteq> set (chat (sendMessage_catch s))"
  "set (chat s) \<subseteq> set (chat (connectionTimeout s))"
  "set (chat s) \<subseteq> set (chat (ws_onopen k s))"
  "set (chat s) \<subseteq> set (chat (ws_onerror s))"
  "set (chat s) \<subseteq> set (chat (set_readyState k r s))"
  "set (chat s) \<subseteq> set (chat (set_timeout_state k t s))"
  "set (chat s) \<subseteq> set (chat (startup_begin s))"
  "set (chat s) \<subseteq> set (chat (startup_health ho s))"
  "set (chat s) \<subseteq> set (chat (startup_memory mo s))"
  "set (chat s) \<subseteq> set (chat (fetchMemory_response mo s))"
  "set (chat s) \<subseteq> set (chat (resetMemory_begin c s))"
  "set (chat s) \<subseteq> set (chat (resetMemory_response ro s))"
  "set (chat s) \<subseteq> set (chat (viewFullMemory_begin s))"
  "set (chat s) \<subseteq> set (chat (viewFullMemory_response mo s))"
  by (auto simp: sendMessage_def sendMessage_catch_def connectionTimeout_def ws_onopen_def
      ws_onerror_def set_readyState_def set_timeout_state_def startup_begin_def
      startup_health_def startup_memory_def fetchMemory_response_def resetMemory_begin_def
      resetMemory_response_def viewFullMemory_begin_def viewFullMemory_response_def Let_def
      split: option.splits http.splits)

lemma sendMessage_response_keeps_messages:
  "set (chat s) \<subseteq> set (chat (sendMessage_response outcome s))"
  by (auto simp: sendMessage_response_def sendMessage_catch_def split: option.splits http.splits)

lemma ws_onmessage_keeps_messages:
  "set (chat s) \<subseteq> set (chat (ws_onmessage q parsed s))"
  by (auto simp: ws_onmessage_def fetchQueryResult_begin_def Let_def split: option.splits)

lemma fetchQueryResult_keeps_messages:
  "set (chat s) \<subseteq> set (chat (phase_state (fetchQueryResult_status render q outcome s)))"
  "set (chat s) \<subseteq> set (chat (fetchQueryResult_result ro s))"
  by (auto simp: fetchQueryResult_status_def fetchQueryResult_result_def phase_state_def
      fetchMemory_begin_def Let_def split: option.splits http.splits jsval.splits)

lemma dispatch_keeps_messages: "set (chat s) \<subseteq> set (chat (dispatch render ev s))"
proof (cases ev)
  case (SocketOpened k)
  then show ?thesis
    using helpers_keep_messages(4) [of "set_readyState k OPEN s" k]
    by (auto simp: dispatch_def set_readyState_def)
next
  case (SocketFailed k)
  then show ?thesis
    using helpers_keep_messages(5) [of "set_readyState k CLOSED s"]
    by (auto simp: dispatch_def set_readyState_def ws_onclose_def Let_def)
next
  case (SocketClosed k)
  then show ?thesis
    by (auto simp: dispatch_def set_readyState_def ws_onclose_def Let_def)
next
  case (TimerFired k)
  then show ?thesis
    using helpers_keep_messages(3) [of "set_timeout_state k Fired s"]
    by (auto simp: dispatch_def set_timeout_state_def)
qed (insert helpers_keep_messages [of s] sendMessage_response_keeps_messages [of s]
      ws_onmessage_keeps_messages [of s] fetchQueryResult_keeps_messages [of s],
    auto simp: dispatch_def)

lemma run_keeps_messages: "set (chat s) \<subseteq> set (chat (run render evs s))"
proof (induction evs arbitrary: s)
  case Nil
  then show ?case by simp
next
  case (Cons ev evs)
  show ?case
    using dispatch_keeps_messages [of s render ev] Cons [of "dispatch render ev s"] by auto
qed

lemma sendMessage_user_message:
  assumes "sendMessage s \<noteq> s"
  shows "(User, [Txt (trim (messageInput s))]) \<in> set (chat (sendMessage s))"
  using assms by (auto simp: sendMessage_def Let_def split: if_splits)

lemma submitted_never_null:
  assumes "sendMessage s \<noteq> s"
  shows "getLastUserMessage render (run render evs (sendMessage s)) \<noteq> JNull"
  using sendMessage_user_message [OF assms] run_keeps_messages [of "sendMessage s" render evs]
  by (intro getLastUserMessage_user_message [of "[Txt (trim (messageInput s))]"]) auto


section \<open>Limited mode\<close>

text \<open>
  C7. When the health check of the startup handler succeeds and the initial \<open>/memory\<close>
  request returns status 500 or 503, the handler leaves the flag \<open>serverLimitedMode\<close>
  set, both memory buttons disabled, and the transcript longer by exactly one message,
  the warning; and whatever events follow, the flag stays set.
\<close>

theorem startup_limited_mode:
  assumes "health_ok health_outcome"
    and "st = 500 \<or> st = 503"
  shows "serverLimitedMode (startup health_outcome (Response st body) s)
    \<and> resetMemoryBtn_disabled (startup health_outcome (Response st body) s)
    \<and> viewMemoryBtn_disabled (startup health_outcome (Response st body) s)
    \<and> chat (startup health_outcome (Response st body) s) =
        chat s @ [(System, [Txt txt_warning_prefix, Txt txt_mcp_uninitialised, Txt txt_warning_suffix])]
    \<and> serverLimitedMode (run render evs (startup health_outcome (Response st body) s))"
proof -
  have eq: "startup health_outcome (Response st body) s =
      attach_listeners (handleLimitedMode txt_mcp_uninitialised
        (emit (Fetch GetMemory) (emit (Fetch GetHealth) s)))"
    using assms
    by (auto simp: startup_def startup_health_def startup_begin_def startup_memory_def
        health_ok_def split: http.splits)
  have "serverLimitedMode (startup health_outcome (Response st body) s)"
    by (simp add: eq)
  then have "serverLimitedMode (run render evs (startup health_outcome (Response st body) s))"
    by (rule run_limited)
  then show ?thesis by (simp add: eq)
qed

theorem startup_limited_mode_witness:
  "health_ok (Response 200 (Some ex_health_body))
   \<and> \<not> serverLimitedMode initial_state
   \<and> \<not> resetMemoryBtn_disabled initial_state
   \<and> serverLimitedMode ex_limited
   \<and> resetMemoryBtn_disabled ex_limited
   \<and> viewMemoryBtn_disabled ex_limited
   \<and> chat ex_limited = [(System, [Txt txt_warning_prefix, Txt txt_mcp_uninitialised, Txt txt_warning_suffix])]
   \<and> serverLimitedMode (run ex_render
        [Typed (js ''hello''), SendRequested, QueryResponse (Response 503 None),
         MemoryResponse (Response 200 (Some ex_memory_one))] ex_limited)"
proof -
  have h: "health_ok (Response 200 (Some ex_health_body))"
    by (simp add: health_ok_def ok_def)
  have l: "ex_limited = startup (Response 200 (Some ex_health_body)) (Response 503 None)
      initial_state"
    by (simp add: ex_limited_def dispatch_def startup_def startup_begin_def startup_health_def
        health_ok_def ok_def)
  have i: "\<not> serverLimitedMode initial_state" "\<not> resetMemoryBtn_disabled initial_state"
    "chat initial_state = []"
    by (simp_all add: initial_state_def)
  from startup_limited_mode
      [OF h, where st = 503 and body = None and s = initial_state and render = ex_render
         and evs = "[Typed (js ''hello''), SendRequested, QueryResponse (Response 503 None),
           MemoryResponse (Response 200 (Some ex_memory_one))]"] h i
  show ?thesis by (simp add: l del: run.simps)
qed

section \<open>The connect timeout\<close>

text \<open>
  What the timer callback does. It acts on the socket the module variable \<open>websocket\<close>
  refers to when the timer fires. If that is the socket the timer was made for, and it
  is not open, the callback closes it, shows a timeout error, clears the variable and
  leaves the session idle, and the timer does not act again. When a socket opens, its
  own timer is cleared, and the callback of that timer does not run at any later time.
  The duration of the timer is real time and is not part of the model.
\<close>

lemma timer_fires_on_current_socket:
  assumes "k < socket_count s" and "timeout_state (sockets s k) = Pending"
    and "websocket s = Some k" and "readyState (sockets s k) \<noteq> OPEN"
  shows "outbox (dispatch render (TimerFired k) s) = outbox s @ [WebSocketClose k]"
    and "chat (dispatch render (TimerFired k) s) =
          chat s @ [(System, [Txt txt_error_prefix, Txt txt_ws_timeout])]"
    and "websocket (dispatch render (TimerFired k) s) = None"
    and "is_idle (dispatch render (TimerFired k) s)"
    and "dispatch render (TimerFired k) (run render evs (dispatch render (TimerFired k) s)) =
          run render evs (dispatch render (TimerFired k) s)"
proof -
  have eq: "dispatch render (TimerFired k) s =
      (showProcessingStatus False (showError [Txt txt_ws_timeout]
         ((socket_close k (set_timeout_state k Fired s))\<lparr>websocket := None\<rparr>)))
      \<lparr>activeQueryId := JNull\<rparr>"
    using assms by (simp add: dispatch_def connectionTimeout_def set_timeout_state_def)
  show "outbox (dispatch render (TimerFired k) s) = outbox s @ [WebSocketClose k]"
    by (simp add: eq set_timeout_state_def)
  show "chat (dispatch render (TimerFired k) s) =
      chat s @ [(System, [Txt txt_error_prefix, Txt txt_ws_timeout])]"
    by (simp add: eq set_timeout_state_def)
  show "websocket (dispatch render (TimerFired k) s) = None"
    by (simp add: eq)
  show "is_idle (dispatch render (TimerFired k) s)"
    by (simp add: eq is_idle_def)
  have c: "k < socket_count (dispatch render (TimerFired k) s)"
    by (simp add: eq assms)
  have t: "timeout_state (sockets (dispatch render (TimerFired k) s) k) \<noteq> Pending"
    by (simp add: eq)
  show "dispatch render (TimerFired k) (run render evs (dispatch render (TimerFired k) s)) =
      run render evs (dispatch render (TimerFired k) s)"
    using run_timer_settled [OF c t] by (simp add: timer_settled_noop)
qed

lemma opened_socket_timer_cleared:
  assumes "k < socket_count s" and "readyState (sockets s k) = CONNECTING"
  shows "readyState (sockets (dispatch render (SocketOpened k) s) k) = OPEN"
    and "outbox (dispatch render (SocketOpened k) s) = outbox s @ [ClearTimeout k]"
    and "chat (dispatch render (SocketOpened k) s) = chat s"
    and "dispatch render (TimerFired k) (run render evs (dispatch render (SocketOpened k) s)) =
          run render evs (dispatch render (SocketOpened k) s)"
proof -
  have eq: "dispatch render (SocketOpened k) s = ws_onopen k (set_readyState k OPEN s)"
    using assms by (simp add: dispatch_def)
  show "readyState (sockets (dispatch render (SocketOpened k) s) k) = OPEN"
    by (simp add: eq ws_onopen_def set_readyState_def)
  show "outbox (dispatch render (SocketOpened k) s) = outbox s @ [ClearTimeout k]"
    by (simp add: eq ws_onopen_def set_readyState_def)
  show "chat (dispatch render (SocketOpened k) s) = chat s"
    by (simp add: eq ws_onopen_def set_readyState_def)
  have c: "k < socket_count (dispatch render (SocketOpened k) s)"
    by (simp add: eq assms ws_onopen_frame)
  have t: "timeout_state (sockets (dispatch render (SocketOpened k) s) k) \<noteq> Pending"
    by (simp add: eq ws_onopen_def set_readyState_def)
  show "dispatch render (TimerFired k) (run render evs (dispatch render (SocketOpened k) s)) =
      run render evs (dispatch render (SocketOpened k) s)"
    using run_timer_settled [OF c t] by (simp add: timer_settled_noop)
qed

lemma ex_active_socket:
  "readyState (sockets ex_active 0) = CONNECTING"
  "timeout_state (sockets ex_active 0) = Pending"
  "onclose_set (sockets ex_active 0)"
  "sock_query (sockets ex_active 0) = ex_q1"
  by (simp_all add: ex_active_fields)

text \<open>The three sessions in which the timer goes wrong, field by field.\<close>

lemma ex_timed_out_eq:
  "ex_timed_out =
     (showProcessingStatus False (showError [Txt txt_ws_timeout]
        ((socket_close 0 (set_timeout_state 0 Fired ex_active))\<lparr>websocket := None\<rparr>)))
     \<lparr>activeQueryId := JNull\<rparr>"
  by (simp add: ex_timed_out_def dispatch_def connectionTimeout_def set_timeout_state_def
      ex_active_fields)

lemma ex_timed_out_fields:
  "readyState (sockets ex_timed_out 0) = CLOSING"
  "onclose_set (sockets ex_timed_out 0)"
  "socket_count ex_timed_out = Suc 0"
  "websocket ex_timed_out = None"
  "activeQueryId ex_timed_out = JNull"
  "processing_hidden ex_timed_out"
  "outbox ex_timed_out = outbox ex_active @ [WebSocketClose 0]"
  "chat ex_timed_out =
     [(User, [Txt (js ''hello'')]), (System, [Txt txt_error_prefix, Txt txt_ws_timeout])]"
  by (simp_all add: ex_timed_out_eq socket_close_def set_timeout_state_def ex_active_fields)

lemma ex_timed_out_error_eq:
  "ex_timed_out_error = ws_onerror (set_readyState 0 CLOSED ex_timed_out)"
  by (simp add: ex_timed_out_error_def dispatch_def ex_timed_out_fields ws_onclose_def)

lemma ex_timed_out_error_fields:
  "chat ex_timed_out_error =
     [(User, [Txt (js ''hello'')]), (System, [Txt txt_error_prefix, Txt txt_ws_timeout]),
      (System, [Txt txt_error_prefix, Txt txt_ws_error])]"
  "outbox ex_timed_out_error = outbox ex_active @ [WebSocketClose 0]"
  by (simp_all add: ex_timed_out_error_eq ws_onerror_def set_readyState_def ex_timed_out_fields)

lemma ex_timed_out_reachable:
  "reachable ex_render ex_timed_out" "reachable ex_render ex_timed_out_error"
  unfolding ex_timed_out_def ex_timed_out_error_def
  by (intro reachable.step ex_reachable)+

lemma ex_failed_channel_eq:
  "ex_failed_channel = ws_onerror (set_readyState 0 CLOSED ex_active)"
  by (simp add: ex_failed_channel_def dispatch_def ex_active_fields ws_onclose_def)

lemma ex_failed_channel_fields:
  "readyState (sockets ex_failed_channel 0) = CLOSED"
  "timeout_state (sockets ex_failed_channel 0) = Pending"
  "websocket ex_failed_channel = Some 0"
  "socket_count ex_failed_channel = Suc 0"
  "activeQueryId ex_failed_channel = JNull"
  "listening ex_failed_channel"
  "outbox ex_failed_channel = outbox ex_active"
  "chat ex_failed_channel = [(User, [Txt (js ''hello'')]), (System, [Txt txt_error_prefix, Txt txt_ws_error])]"
  by (simp_all add: ex_failed_channel_eq ws_onerror_def set_readyState_def ex_active_fields)

lemma ex_failed_then_timeout_eq:
  "ex_failed_then_timeout =
     (showProcessingStatus False (showError [Txt txt_ws_timeout]
        ((socket_close 0 (set_timeout_state 0 Fired ex_failed_channel))\<lparr>websocket := None\<rparr>)))
     \<lparr>activeQueryId := JNull\<rparr>"
  by (simp add: ex_failed_then_timeout_def dispatch_def connectionTimeout_def
      set_timeout_state_def ex_failed_channel_fields)

lemma ex_failed_then_timeout_fields:
  "chat ex_failed_then_timeout =
     [(User, [Txt (js ''hello'')]), (System, [Txt txt_error_prefix, Txt txt_ws_error]),
      (System, [Txt txt_error_prefix, Txt txt_ws_timeout])]"
  "outbox ex_failed_then_timeout = outbox ex_active @ [WebSocketClose 0]"
  by (simp_all add: ex_failed_then_timeout_eq set_timeout_state_def ex_failed_channel_fields)


lemma ex_second_opened_fields:
  "websocket ex_second_opened = Some (Suc 0)"
  "socket_count ex_second_opened = Suc (Suc 0)"
  "readyState (sockets ex_second_opened (Suc 0)) = OPEN"
  "onclose_set (sockets ex_second_opened (Suc 0))"
  "timeout_state (sockets ex_second_opened (Suc 0)) = Cleared"
  "timeout_state (sockets ex_second_opened 0) = Pending"
  "activeQueryId ex_second_opened = ex_q2"
  "chat ex_second_opened =
     [(User, [Txt (js ''hello'')]), (System, [Txt txt_error_prefix, Txt txt_ws_error]), (User, [Txt (js ''hello'')])]"
  "\<not> processing_hidden ex_second_opened"
proof -
  define s2 where "s2 = ex_failed_channel\<lparr>messageInput := js ''hello''\<rparr>"
  define s3 where "s3 = sendMessage s2"
  define s4 where
    "s4 = sendMessage_response (Response 200 (Some (JObj [(js ''query_id'', ex_q2)]))) s3"
  define s5 where "s5 = ws_onopen 1 (set_readyState 1 OPEN s4)"
  have s2: "websocket s2 = Some 0" "socket_count s2 = Suc 0" "activeQueryId s2 = JNull"
    "listening s2" "messageInput s2 = js ''hello''"
    "chat s2 = [(User, [Txt (js ''hello'')]), (System, [Txt txt_error_prefix, Txt txt_ws_error])]"
    "timeout_state (sockets s2 0) = Pending"
    by (simp_all add: s2_def ex_failed_channel_fields)
  have s3_eq: "s3 = emit (Fetch (PostQuery (js ''hello'')))
      (showProcessingStatus True
        ((addMessage User [Txt (js ''hello'')] (closeWebSocketConnection s2))\<lparr>messageInput := []\<rparr>))"
    by (simp add: s3_def sendMessage_def s2 trim_hello Let_def)
  have s3: "websocket s3 = None" "socket_count s3 = Suc 0" "activeQueryId s3 = JNull"
    "chat s3 = [(User, [Txt (js ''hello'')]), (System, [Txt txt_error_prefix, Txt txt_ws_error]),
       (User, [Txt (js ''hello'')])]"
    "timeout_state (sockets s3 0) = Pending" "\<not> processing_hidden s3"
    by (simp_all add: s3_eq s2 closeWebSocketConnection_activeQueryId)
  have s4_eq: "s4 = connectWebSocket ex_q2 (s3\<lparr>activeQueryId := ex_q2\<rparr>)"
    by (simp add: s4_def sendMessage_response_def ok_def props_JObj)
  have s4: "websocket s4 = Some (Suc 0)" "socket_count s4 = Suc (Suc 0)"
    "activeQueryId s4 = ex_q2"
    "chat s4 = [(User, [Txt (js ''hello'')]), (System, [Txt txt_error_prefix, Txt txt_ws_error]),
       (User, [Txt (js ''hello'')])]"
    "sockets s4 (Suc 0) =
       \<lparr>sock_query = ex_q2, readyState = CONNECTING, onclose_set = True, timeout_state = Pending\<rparr>"
    "timeout_state (sockets s4 0) = Pending" "\<not> processing_hidden s4"
    by (simp_all add: s4_eq s3 connectWebSocket_new_socket connectWebSocket_old_timeout_state)
  have run_eq: "ex_second_opened = s5"
    by (simp add: ex_second_opened_def dispatch_def s2_def [symmetric] s2 s3_def [symmetric]
        s4_def [symmetric] s4 s5_def)
  show "websocket ex_second_opened = Some (Suc 0)"
    by (simp add: run_eq s5_def ws_onopen_def set_readyState_def s4)
  show "socket_count ex_second_opened = Suc (Suc 0)"
    by (simp add: run_eq s5_def ws_onopen_def set_readyState_def s4)
  show "readyState (sockets ex_second_opened (Suc 0)) = OPEN"
    by (simp add: run_eq s5_def ws_onopen_def set_readyState_def s4)
  show "onclose_set (sockets ex_second_opened (Suc 0))"
    by (simp add: run_eq s5_def ws_onopen_def set_readyState_def s4)
  show "timeout_state (sockets ex_second_opened (Suc 0)) = Cleared"
    by (simp add: run_eq s5_def ws_onopen_def set_readyState_def s4)
  show "timeout_state (sockets ex_second_opened 0) = Pending"
    by (simp add: run_eq s5_def ws_onopen_def set_readyState_def s4)
  show "activeQueryId ex_second_opened = ex_q2"
    by (simp add: run_eq s5_def ws_onopen_def set_readyState_def s4)
  show "chat ex_second_opened =
     [(User, [Txt (js ''hello'')]), (System, [Txt txt_error_prefix, Txt txt_ws_error]), (User, [Txt (js ''hello'')])]"
    by (simp add: run_eq s5_def ws_onopen_def set_readyState_def s4)
  show "\<not> processing_hidden ex_second_opened"
    by (simp add: run_eq s5_def ws_onopen_def set_readyState_def s4)
qed

lemma ex_stale_timer_eq:
  "ex_stale_timer =
     (showProcessingStatus False (showError [Txt txt_ws_timeout]
        ((socket_close 1 (set_timeout_state 0 Fired (set_readyState 1 CLOSED ex_second_opened)))
         \<lparr>websocket := None\<rparr>)))
     \<lparr>activeQueryId := JNull\<rparr>"
  by (simp add: ex_stale_timer_def dispatch_def connectionTimeout_def ws_onclose_def
      set_timeout_state_def set_readyState_def ex_second_opened_fields)

lemma ex_stale_timer_fields:
  "chat ex_stale_timer =
     [(User, [Txt (js ''hello'')]), (System, [Txt txt_error_prefix, Txt txt_ws_error]), (User, [Txt (js ''hello'')]),
      (System, [Txt txt_error_prefix, Txt txt_ws_timeout])]"
  "outbox ex_stale_timer = outbox ex_second_opened @ [WebSocketClose 1]"
  "activeQueryId ex_stale_timer = JNull"
  by (simp_all add: ex_stale_timer_eq set_timeout_state_def set_readyState_def
      ex_second_opened_fields)

text \<open>
  C5. The code does not keep to the claim; three sessions of the page show it.
  \<^item> The first channel is still connecting when its timer fires. The callback closes
    the socket and shows the timeout error, but it leaves \<open>onerror\<close> attached: the
    browser reports the connection closed before it was established with an \<open>error\<close>
    event, and a second error is shown. Two errors for one timeout.
  \<^item> The connection fails before it opened: \<open>onerror\<close> shows an error and resets the
    session, and nothing clears the timer, which is cleared in \<open>onopen\<close> only. When it
    fires, the variable \<open>websocket\<close> still refers to the closed socket, which is not
    open, so the timeout error is shown as well.
  \<^item> The callback tests the module variable \<open>websocket\<close>, not the socket its timer was
    made for. After that failure the user asks again, the second channel opens, so its
    own timer is cleared, and the backend closes it; then the timer left over from the
    first channel fires, finds the second socket not open, calls \<open>close()\<close> on it and
    shows a timeout error for a channel that had opened in time.
\<close>

theorem connect_timeout_failures:
  "reachable ex_render ex_timed_out_error
   \<and> readyState (sockets ex_active 0) = CONNECTING
   \<and> timeout_state (sockets ex_active 0) = Pending
   \<and> chat ex_active = [(User, [Txt (js ''hello'')])]
   \<and> ex_timed_out = dispatch ex_render (TimerFired 0) ex_active
   \<and> outbox ex_timed_out = outbox ex_active @ [WebSocketClose 0]
   \<and> readyState (sockets ex_timed_out 0) = CLOSING
   \<and> ex_timed_out_error = dispatch ex_render (SocketFailed 0) ex_timed_out
   \<and> chat ex_timed_out_error =
       [(User, [Txt (js ''hello'')]), (System, [Txt txt_error_prefix, Txt txt_ws_timeout]),
        (System, [Txt txt_error_prefix, Txt txt_ws_error])]
   \<and> reachable ex_render ex_failed_then_timeout
   \<and> ex_failed_channel = dispatch ex_render (SocketFailed 0) ex_active
   \<and> readyState (sockets ex_failed_channel 0) = CLOSED
   \<and> timeout_state (sockets ex_failed_channel 0) = Pending
   \<and> ex_failed_then_timeout = dispatch ex_render (TimerFired 0) ex_failed_channel
   \<and> chat ex_failed_then_timeout =
       [(User, [Txt (js ''hello'')]), (System, [Txt txt_error_prefix, Txt txt_ws_error]),
        (System, [Txt txt_error_prefix, Txt txt_ws_timeout])]
   \<and> reachable ex_render ex_stale_timer
   \<and> readyState (sockets ex_second_opened 1) = OPEN
   \<and> timeout_state (sockets ex_second_opened 1) = Cleared
   \<and> timeout_state (sockets ex_second_opened 0) = Pending
   \<and> activeQueryId ex_second_opened = ex_q2
   \<and> ex_stale_timer = run ex_render [SocketClosed 1, TimerFired 0] ex_second_opened
   \<and> chat ex_stale_timer =
       chat ex_second_opened @ [(System, [Txt txt_error_prefix, Txt txt_ws_timeout])]
   \<and> outbox ex_stale_timer = outbox ex_second_opened @ [WebSocketClose 1]"
proof -
  have d: "ex_timed_out = dispatch ex_render (TimerFired 0) ex_active"
    "ex_timed_out_error = dispatch ex_render (SocketFailed 0) ex_timed_out"
    "ex_failed_channel = dispatch ex_render (SocketFailed 0) ex_active"
    "ex_failed_then_timeout = dispatch ex_render (TimerFired 0) ex_failed_channel"
    "ex_stale_timer = run ex_render [SocketClosed 1, TimerFired 0] ex_second_opened"
    by (simp_all only: ex_timed_out_def ex_timed_out_error_def ex_failed_channel_def
        ex_failed_then_timeout_def ex_stale_timer_def)
  have f: "chat ex_active = [(User, [Txt (js ''hello'')])]"
    "outbox ex_timed_out = outbox ex_active @ [WebSocketClose 0]"
    "readyState (sockets ex_timed_out 0) = CLOSING"
    "readyState (sockets ex_second_opened 1) = OPEN"
    "timeout_state (sockets ex_second_opened 1) = Cleared"
    by (simp_all add: ex_active_fields ex_timed_out_fields ex_second_opened_fields)
  have g: "chat ex_stale_timer =
      chat ex_second_opened @ [(System, [Txt txt_error_prefix, Txt txt_ws_timeout])]"
    "outbox ex_stale_timer = outbox ex_second_opened @ [WebSocketClose 1]"
    by (simp_all add: ex_stale_timer_fields ex_second_opened_fields)
  show ?thesis
    apply (intro conjI)
    apply (rule ex_timed_out_reachable ex_active_socket f d g ex_timed_out_error_fields
        ex_reachable ex_failed_channel_fields ex_failed_then_timeout_fields
        ex_second_opened_fields)+
    done
qed

section \<open>Distance and duration of a plan\<close>

lemma pow2_pos: "0 < pow2 e"
  by (simp add: pow2_def)

lemma pow2_nonpos: "e \<le> 0 \<Longrightarrow> pow2 e = 1 / 2 ^ nat (- e)"
  by (cases "e = 0") (simp_all add: pow2_def)

lemma pow2_le:
  assumes "e \<le> - int n"
  shows "pow2 e \<le> 1 / 2 ^ n"
proof -
  have e: "e \<le> 0" using assms by simp
  have "n \<le> nat (- e)" using assms by simp
  then have "(2::rat) ^ n \<le> 2 ^ nat (- e)"
    by (simp add: power_increasing)
  then have "1 / (2::rat) ^ nat (- e) \<le> 1 / 2 ^ n"
    by (simp add: frac_le)
  then show ?thesis by (simp add: pow2_nonpos [OF e])
qed

lemma round_half_even_bound: "\<bar>of_int (round_half_even y) - y\<bar> \<le> 1 / 2"
proof -
  have "of_int \<lfloor>y\<rfloor> \<le> y" "y < of_int \<lfloor>y\<rfloor> + 1"
    by linarith+
  then show ?thesis
    by (auto simp: round_half_even_def Let_def)
qed

lemma round_half_even_of_int: "round_half_even (of_int n) = n"
  by (simp add: round_half_even_def)

lemma ilog2_quot_le: "ilog2_quot a b \<le> int (floorlog 2 a) - int (floorlog 2 b)"
  by (simp add: ilog2_quot_def Let_def)

lemma floorlog_2_1000: "floorlog 2 1000 = 10"
  by (simp add: compute_floorlog)

lemma floorlog_2_60: "floorlog 2 60 = 6"
  by (simp add: compute_floorlog)

lemma floorlog_safe: "a < 2 ^ 53 \<Longrightarrow> floorlog 2 a \<le> 53"
  by (simp add: floorlog_le_iff)

lemma number_div_error:
  assumes "0 < a" and "0 < b"
  shows "\<bar>number_div a b - of_nat a / of_nat b\<bar> \<le> pow2 (ilog2_quot a b - 52) / 2"
proof -
  define p where "p = pow2 (ilog2_quot a b - 52)"
  define y where "y = (of_nat a :: rat) / (of_nat b * p)"
  have p: "0 < p" by (simp add: p_def pow2_pos)
  have q: "of_nat a / of_nat b = y * p"
    using p assms by (simp add: y_def)
  have n: "number_div a b = of_int (round_half_even y) * p"
    using assms by (simp add: number_div_def Let_def y_def p_def)
  have "of_int (round_half_even y) * p - y * p = (of_int (round_half_even y) - y) * p"
    by (simp add: left_diff_distrib)
  then have "\<bar>of_int (round_half_even y) * p - y * p\<bar> = \<bar>of_int (round_half_even y) - y\<bar> * p"
    using p by (simp add: abs_mult)
  also have "\<dots> \<le> (1 / 2) * p"
    using round_half_even_bound [of y] p by (intro mult_right_mono) simp_all
  finally show ?thesis by (simp add: n q p_def)
qed

lemma number_div_exact:
  assumes "0 < a" and "b dvd a" and "0 < b" and "ilog2_quot a b - 52 \<le> 0"
  shows "number_div a b = of_nat (a div b)"
proof -
  define e where "e = ilog2_quot a b - 52"
  have e: "e \<le> 0" using assms by (simp add: e_def)
  have p: "pow2 e = 1 / 2 ^ nat (- e)" by (rule pow2_nonpos [OF e])
  obtain c where c: "a = b * c" using assms(2) by (auto simp: dvd_def)
  have "(of_nat a :: rat) / (of_nat b * pow2 e) = of_int (int (c * 2 ^ nat (- e)))"
    using assms(3) by (simp add: p c)
  then have "round_half_even ((of_nat a :: rat) / (of_nat b * pow2 e)) = int (c * 2 ^ nat (- e))"
    by (simp only: round_half_even_of_int)
  then have "number_div a b = of_int (int (c * 2 ^ nat (- e))) * pow2 e"
    using assms(1) by (simp add: number_div_def Let_def e_def)
  also have "\<dots> = of_nat c"
    by (simp add: p)
  finally show ?thesis using assms(3) by (simp add: c)
qed


lemma abs_bound_D:
  fixes a b c :: rat
  assumes "\<bar>a - b\<bar> \<le> c"
  shows "b - c \<le> a" and "a \<le> b + c"
  using assms by (simp_all add: abs_le_iff)

lemma duration_exponent:
  assumes "s < 2 ^ 53"
  shows "ilog2_quot s 60 - 52 \<le> - int 5"
  using ilog2_quot_le [of s 60] floorlog_safe [OF assms] by (simp add: floorlog_2_60)

lemma distance_exponent:
  assumes "d < 2 ^ 53"
  shows "ilog2_quot d 1000 - 52 \<le> - int 9"
  using ilog2_quot_le [of d 1000] floorlog_safe [OF assms] by (simp add: floorlog_2_1000)

lemma duration_minutes:
  assumes "s < 2 ^ 53"
  shows "nat \<lfloor>number_div s 60\<rfloor> = s div 60"
proof (cases "s = 0")
  case True
  then show ?thesis by (simp add: number_div_def)
next
  case False
  then have pos: "0 < s" by simp
  show ?thesis
  proof (cases "60 dvd s")
    case True
    have "number_div s 60 = of_nat (s div 60)"
      using duration_exponent [OF assms] by (intro number_div_exact [OF pos True]) simp_all
    then show ?thesis by simp
  next
    case False
    define k where "k = s div 60"
    define r where "r = s mod 60"
    have s: "s = 60 * k + r" by (simp add: k_def r_def)
    have "r \<noteq> 0" using False by (auto simp: r_def dvd_eq_mod_eq_0)
    moreover have "r < 60" by (simp add: r_def)
    ultimately have r: "1 \<le> r" "r \<le> 59" by arith+
    have r': "(1::rat) \<le> of_nat r" "of_nat r \<le> (59::rat)"
      using r of_nat_mono [of 1 r] of_nat_mono [of r 59] by simp_all
    have q: "(of_nat s :: rat) / 60 = of_nat k + of_nat r / 60"
      by (simp add: s)
    have "pow2 (ilog2_quot s 60 - 52) \<le> 1 / 2 ^ 5"
      by (rule pow2_le [OF duration_exponent [OF assms]])
    then have err: "\<bar>number_div s 60 - of_nat s / 60\<bar> \<le> 1 / 64"
      using number_div_error [OF pos, of 60] by simp
    have lo: "of_int (int k) \<le> number_div s 60"
      using abs_bound_D (1) [OF err [unfolded q]] r' (1) unfolding of_int_of_nat_eq by linarith
    have hi: "number_div s 60 < of_int (int k) + 1"
      using abs_bound_D (2) [OF err [unfolded q]] r' (2) unfolding of_int_of_nat_eq by linarith
    have "\<lfloor>number_div s 60\<rfloor> = int k"
      by (rule floor_unique [OF lo hi])
    then show ?thesis by (simp add: k_def)
  qed
qed

lemma distance_tenths:
  assumes "d < 2 ^ 53"
  shows "\<bar>of_nat (nearest_tenths (number_div d 1000)) / 10 - of_nat d / 1000\<bar> \<le> (1 / 20 :: rat)
    \<and> (d mod 100 \<noteq> 50 \<longrightarrow> nearest_tenths (number_div d 1000) = (d + 50) div 100)"
proof (cases "d = 0")
  case True
  then show ?thesis by (simp add: number_div_def nearest_tenths_def)
next
  case False
  then have pos: "0 < d" by simp
  define x where "x = number_div d 1000"
  define y where "y = 10 * x + 1 / 2"
  define t where "t = d div 100"
  define r where "r = d mod 100"
  have d: "d = 100 * t + r" by (simp add: t_def r_def)
  have q: "(of_nat d :: rat) / 1000 = of_nat t / 10 + of_nat r / 1000" by (simp add: d)
  have "pow2 (ilog2_quot d 1000 - 52) \<le> 1 / 2 ^ 9"
    by (rule pow2_le [OF distance_exponent [OF assms]])
  then have e1: "\<bar>x - of_nat d / 1000\<bar> \<le> 1 / 1024"
    using number_div_error [OF pos, of 1000] by (simp add: x_def)
  have err1: "of_nat t + of_nat r / 100 + 1 / 2 - 10 / 1024 \<le> y"
    using abs_bound_D (1) [OF e1 [unfolded q]] unfolding y_def by linarith
  have err2: "y \<le> of_nat t + of_nat r / 100 + 1 / 2 + 10 / 1024"
    using abs_bound_D (2) [OF e1 [unfolded q]] unfolding y_def by linarith
  have n: "nearest_tenths (number_div d 1000) = nat \<lfloor>y\<rfloor>"
    by (simp add: nearest_tenths_def y_def x_def)
  have rlt: "r < 100" by (simp add: r_def)
  consider "r < 50" | "50 < r" | "r = 50" by linarith
  then show ?thesis
  proof cases
    case 1
    then have r': "of_nat r \<le> (49::rat)"
      using of_nat_mono [of r 49] by simp
    have r0: "(0::rat) \<le> of_nat r" by simp
    have "\<lfloor>y\<rfloor> = int t"
    proof (rule floor_unique)
      show "of_int (int t) \<le> y" using err1 r0 unfolding of_int_of_nat_eq by linarith
      show "y < of_int (int t) + 1" using err2 r' unfolding of_int_of_nat_eq by linarith
    qed
    then have nt: "nearest_tenths (number_div d 1000) = t" by (simp add: n)
    have "\<bar>of_nat t / 10 - of_nat d / 1000\<bar> \<le> (1 / 20 :: rat)"
      unfolding q using r' r0 by (intro abs_leI) linarith+
    moreover have "(d + 50) div 100 = t" using 1 by (simp add: d)
    ultimately show ?thesis by (simp add: nt)
  next
    case 2
    then have r': "(51::rat) \<le> of_nat r" "of_nat r \<le> (99::rat)"
      using rlt of_nat_mono [of 51 r] of_nat_mono [of r 99] by simp_all
    have "\<lfloor>y\<rfloor> = int (Suc t)"
    proof (rule floor_unique)
      show "of_int (int (Suc t)) \<le> y"
        using err1 r' (1) unfolding of_int_of_nat_eq of_nat_Suc by linarith
      show "y < of_int (int (Suc t)) + 1"
        using err2 r' (2) unfolding of_int_of_nat_eq of_nat_Suc by linarith
    qed
    then have nt: "nearest_tenths (number_div d 1000) = Suc t" by (simp add: n)
    have "\<bar>of_nat (Suc t) / 10 - of_nat d / 1000\<bar> \<le> (1 / 20 :: rat)"
      unfolding q of_nat_Suc add_divide_distrib using r' by (intro abs_leI) linarith+
    moreover have "(d + 50) div 100 = Suc t" using 2 rlt by (simp add: d)
    ultimately show ?thesis by (simp add: nt)
  next
    case 3
    then have r': "of_nat r = (50::rat)" by simp
    have "int t \<le> \<lfloor>y\<rfloor>"
      using err1 unfolding le_floor_iff of_int_of_nat_eq r' by linarith
    moreover have "\<lfloor>y\<rfloor> < int t + 2"
      using err2 unfolding floor_less_iff r' by simp
    ultimately have "nat \<lfloor>y\<rfloor> = t \<or> nat \<lfloor>y\<rfloor> = Suc t" by linarith
    then have nt: "nearest_tenths (number_div d 1000) = t
        \<or> nearest_tenths (number_div d 1000) = Suc t"
      by (simp add: n)
    have "\<bar>of_nat t / 10 - of_nat d / 1000\<bar> \<le> (1 / 20 :: rat)"
      unfolding q r' by (intro abs_leI) linarith+
    moreover have "\<bar>of_nat (Suc t) / 10 - of_nat d / 1000\<bar> \<le> (1 / 20 :: rat)"
      unfolding q r' of_nat_Suc add_divide_distrib by (intro abs_leI) linarith+
    moreover have "d mod 100 = 50" using 3 by (simp add: r_def)
    ultimately show ?thesis using nt by auto
  qed
qed


lemma floor_rat_numeral:
  "\<lfloor>(numeral a :: rat) / numeral b\<rfloor> = numeral a div numeral b"
  using floor_divide_of_int_eq [of "numeral a" "numeral b", where ?'a = rat] by simp

lemma digits_examples:
  "digits 0 = js ''0''" "digits (Suc 0) = js ''1''" "digits 3 = js ''3''"
  "digits 12 = js ''12''" "digits 15 = js ''15''"
  by (simp_all add: digits.simps [of 12] digits.simps [of 1] digits.simps [of 2]
      digits.simps [of 3] digits.simps [of 15] digits.simps [of 5] digits.simps [of "Suc 0"]
      digits.simps [of 0] js_def)

text \<open>
  The distance 12345: the quotient by 1000 lies between \<open>2^3\<close> and \<open>2^4\<close>, its double is
  \<open>6949617174986097 / 2^49\<close>, a little above 12.345, and the nearest tenths are 123.
\<close>

lemma ilog2_12345: "ilog2_quot 12345 1000 = 3"
  by (simp add: ilog2_quot_def compute_floorlog pow2_def Let_def)

lemma number_div_12345: "number_div 12345 1000 = 6949617174986097 / 562949953421312"
  by (simp add: number_div_def ilog2_12345 pow2_def round_half_even_def Let_def floor_rat_numeral)

lemma number_div_nonneg: "0 \<le> number_div a b"
proof -
  have "0 \<le> round_half_even y" if "0 \<le> y" for y :: rat
  proof -
    have "0 \<le> \<lfloor>y\<rfloor>" using that by simp
    then show ?thesis by (simp add: round_half_even_def Let_def)
  qed
  moreover have "0 \<le> (of_nat a :: rat) / (of_nat b * pow2 e)" for e
    using pow2_pos [of e] by simp
  ultimately show ?thesis
    using pow2_pos [of "ilog2_quot a b - 52"]
    by (simp add: number_div_def Let_def)
qed

text \<open>
  Below \<open>2^53\<close> a string of digits parses to the number it denotes, and the quotient
  by 1000 stays far below \<open>10^21\<close>.
\<close>

lemma floorlog_2_1: "floorlog 2 (Suc 0) = 1"
  by (simp add: compute_floorlog)

lemma safe_rat: "d < 2 ^ 53 \<Longrightarrow> (of_nat d :: rat) < 9007199254740992"
  using of_nat_less_iff [of d "2 ^ 53", where ?'a = rat] by simp

lemma number_div_one:
  assumes "d < 2 ^ 53"
  shows "number_div d (Suc 0) = of_nat d"
proof (cases "d = 0")
  case True
  then show ?thesis by (simp add: number_div_def)
next
  case False
  have "ilog2_quot d (Suc 0) - 52 \<le> 0"
    using ilog2_quot_le [of d "Suc 0"] floorlog_safe [OF assms] by (simp add: floorlog_2_1)
  then have "number_div d (Suc 0) = of_nat (d div Suc 0)"
    using False by (intro number_div_exact) simp_all
  then show ?thesis by simp
qed

lemma parse_digits_safe:
  assumes "d < 2 ^ 53"
  shows "parse_digits d = Finite (of_nat d)"
proof -
  have "(of_nat d :: rat) < 2 ^ 1024"
    using safe_rat [OF assms] by simp
  then show ?thesis
    by (simp add: parse_digits_def number_div_one [OF assms, simplified] Let_def)
qed

lemma distanceKm_safe:
  assumes "distance info < 2 ^ 53"
  shows "distanceKm info = Finite (number_div (distance info) 1000)"
  by (simp add: distanceKm_def parse_digits_safe [OF assms] number_over_def)

lemma number_div_1000_small:
  assumes "d < 2 ^ 53"
  shows "number_div d 1000 < 10 ^ 21"
proof (cases "d = 0")
  case True
  then show ?thesis by (simp add: number_div_def)
next
  case False
  then have pos: "0 < d" by simp
  have "pow2 (ilog2_quot d 1000 - 52) \<le> 1 / 2 ^ 9"
    by (rule pow2_le [OF distance_exponent [OF assms]])
  then have e1: "\<bar>number_div d 1000 - of_nat d / 1000\<bar> \<le> 1 / 1024"
    using number_div_error [OF pos, of 1000] by simp
  show ?thesis
    using abs_bound_D (2) [OF e1] safe_rat [OF assms] by simp
qed

lemma toFixed1_safe:
  assumes "distance info < 2 ^ 53"
  shows "toFixed1 (distanceKm info) =
     digits (nearest_tenths (number_div (distance info) 1000) div 10) @ js ''.''
       @ digits (nearest_tenths (number_div (distance info) 1000) mod 10)"
  using number_div_1000_small [OF assms]
  by (simp add: toFixed1_def distanceKm_safe [OF assms] Let_def)

lemma durationMin_safe:
  assumes "duration info < 2 ^ 53"
  shows "durationMin info = Finite (of_nat (duration info div 60))"
proof -
  have z: "0 \<le> \<lfloor>number_div (duration info) 60\<rfloor>"
    using number_div_nonneg [of "duration info" 60] by simp
  have "\<lfloor>number_div (duration info) 60\<rfloor> = int (nat \<lfloor>number_div (duration info) 60\<rfloor>)"
    using z by (simp only: nat_0_le)
  also have "\<dots> = int (duration info div 60)"
    by (simp only: duration_minutes [OF assms])
  finally show ?thesis
    by (simp add: durationMin_def parse_digits_safe [OF assms] number_over_def math_floor_def)
qed

lemma duration_text_safe:
  assumes "duration info < 2 ^ 53"
  shows "number_string (durationMin info) = digits (duration info div 60)"
proof -
  have "duration info div 60 \<le> duration info" by simp
  then have "duration info div 60 < 2 ^ 53" using assms by simp
  then show ?thesis
    by (simp add: durationMin_safe [OF assms] number_string_def whole_number_string_def)
qed

lemma ex_plan_distance:
  "toFixed1 (distanceKm \<lparr>distance = 12345, duration = 905\<rparr>) = js ''12.3''"
proof -
  have "distance \<lparr>distance = 12345, duration = 905\<rparr> < 2 ^ 53" by simp
  from toFixed1_safe [OF this] show ?thesis
    by (simp add: nearest_tenths_def number_div_12345 floor_rat_numeral digits_examples js_def)
qed

lemma ilog2_905: "ilog2_quot 905 60 = 3"
  by (simp add: ilog2_quot_def compute_floorlog pow2_def Let_def)

lemma ex_plan_duration: "nat \<lfloor>number_div 905 60\<rfloor> = 15"
  by (simp add: number_div_def ilog2_905 pow2_def round_half_even_def Let_def floor_rat_numeral)

lemma ex_plan_minutes:
  "number_string (durationMin \<lparr>distance = 12345, duration = 905\<rparr>) = js ''15''"
proof -
  have "duration \<lparr>distance = 12345, duration = 905\<rparr> < 2 ^ 53" by simp
  from duration_text_safe [OF this] show ?thesis
    by (simp add: digits_examples)
qed

lemma ex_plan_text:
  "plan_text (route, \<lparr>distance = 12345, duration = 905\<rparr>) =
     route @ js '': '' @ js ''12.3'' @ txt_km @ js ''15'' @ txt_minutes"
  by (simp add: plan_text_def ex_plan_distance ex_plan_minutes)

text \<open>
  At a tie the double decides, not the decimal fraction: \<open>0.15\<close> is a double slightly
  below and prints as \<open>0.1\<close>, \<open>0.25\<close> is exact and prints as \<open>0.3\<close>.
\<close>

lemma ilog2_150: "ilog2_quot 150 1000 = - 3"
  by (simp add: ilog2_quot_def compute_floorlog pow2_def Let_def)

lemma toFixed1_tie_below: "toFixed1 (Finite (number_div 150 1000)) = js ''0.1''"
  by (simp add: toFixed1_def nearest_tenths_def number_div_def ilog2_150 pow2_def
      round_half_even_def Let_def floor_rat_numeral digits_examples js_def)

lemma ilog2_250: "ilog2_quot 250 1000 = - 2"
  by (simp add: ilog2_quot_def compute_floorlog pow2_def Let_def)

lemma toFixed1_tie_exact: "toFixed1 (Finite (number_div 250 1000)) = js ''0.3''"
  by (simp add: toFixed1_def nearest_tenths_def number_div_def ilog2_250 pow2_def
      round_half_even_def Let_def floor_rat_numeral digits_examples js_def)

lemma plan_text_safe:
  assumes "distance info < 2 ^ 53" and "duration info < 2 ^ 53"
  shows "\<exists>n. plan_text (route, info) =
        route @ js '': '' @ digits (n div 10) @ js ''.'' @ digits (n mod 10) @ txt_km
          @ digits (duration info div 60) @ txt_minutes
      \<and> \<bar>of_nat n / 10 - of_nat (distance info) / 1000\<bar> \<le> (1 / 20 :: rat)
      \<and> (distance info mod 100 \<noteq> 50 \<longrightarrow> n = (distance info + 50) div 100)"
proof (intro exI conjI)
  show "plan_text (route, info) =
      route @ js '': '' @ digits (nearest_tenths (number_div (distance info) 1000) div 10)
        @ js ''.'' @ digits (nearest_tenths (number_div (distance info) 1000) mod 10) @ txt_km
        @ digits (duration info div 60) @ txt_minutes"
    by (simp add: plan_text_def toFixed1_safe [OF assms(1)] duration_text_safe [OF assms(2)])
  show "\<bar>of_nat (nearest_tenths (number_div (distance info) 1000)) / 10
      - of_nat (distance info) / 1000\<bar> \<le> (1 / 20 :: rat)"
    using distance_tenths [OF assms(1)] by simp
  show "distance info mod 100 \<noteq> 50 \<longrightarrow>
      nearest_tenths (number_div (distance info) 1000) = (distance info + 50) div 100"
    using distance_tenths [OF assms(1)] by simp
qed

text \<open>
  C9, as the code has it. When the snapshot has plans and its query count is not zero,
  the memory projection renders the block of the plans with one item for each plan, in
  their order. For a plan whose distance and duration are strings of decimal digits
  that denote numbers below \<open>2^53\<close>, the item shows the route, the tenths of a kilometre
  nearest to the distance divided by 1000 (within \<open>1/20\<close> of it; away from a tie, the
  distance plus 50 divided by 100 and rounded down) with a point before the last digit,
  and the duration divided by 60 and rounded down. The distance 12345 and the duration
  905 show as 12.3 kilometres and 15 minutes.
\<close>

theorem updateMemoryPanel_plans:
  assumes "query_count m \<noteq> 0" and "current_plans m \<noteq> []"
    and "\<forall>e \<in> set (current_plans m). distance (snd e) < 2 ^ 53 \<and> duration (snd e) < 2 ^ 53"
  shows "MemoryItem txt_plans_title (map plan_text (current_plans m))
        \<in> set (memoryPanel (updateMemoryPanel m s))
    \<and> (\<forall>e \<in> set (current_plans m). \<exists>n.
          plan_text e =
            fst e @ js '': '' @ digits (n div 10) @ js ''.'' @ digits (n mod 10) @ txt_km
              @ digits (duration (snd e) div 60) @ txt_minutes
          \<and> \<bar>of_nat n / 10 - of_nat (distance (snd e)) / 1000\<bar> \<le> (1 / 20 :: rat)
          \<and> (distance (snd e) mod 100 \<noteq> 50 \<longrightarrow> n = (distance (snd e) + 50) div 100)
          \<and> durationMin (snd e) = Finite (of_nat (duration (snd e) div 60)))
    \<and> plan_text (route, \<lparr>distance = 12345, duration = 905\<rparr>) =
        route @ js '': '' @ js ''12.3'' @ txt_km @ js ''15'' @ txt_minutes"
proof (intro conjI ballI)
  show "MemoryItem txt_plans_title (map plan_text (current_plans m))
      \<in> set (memoryPanel (updateMemoryPanel m s))"
    using assms(1,2) by (simp add: updateMemoryPanel_def)
next
  fix e
  assume "e \<in> set (current_plans m)"
  with assms(3) have b: "distance (snd e) < 2 ^ 53" "duration (snd e) < 2 ^ 53"
    by auto
  from plan_text_safe [OF b, of "fst e"] durationMin_safe [OF b(2)]
  show "\<exists>n. plan_text e =
            fst e @ js '': '' @ digits (n div 10) @ js ''.'' @ digits (n mod 10) @ txt_km
              @ digits (duration (snd e) div 60) @ txt_minutes
          \<and> \<bar>of_nat n / 10 - of_nat (distance (snd e)) / 1000\<bar> \<le> (1 / 20 :: rat)
          \<and> (distance (snd e) mod 100 \<noteq> 50 \<longrightarrow> n = (distance (snd e) + 50) div 100)
          \<and> durationMin (snd e) = Finite (of_nat (duration (snd e) div 60))"
    by auto
next
  show "plan_text (route, \<lparr>distance = 12345, duration = 905\<rparr>) =
      route @ js '': '' @ js ''12.3'' @ txt_km @ js ''15'' @ txt_minutes"
    by (rule ex_plan_text)
qed

theorem updateMemoryPanel_plans_witness:
  "query_count ex_memory_one \<noteq> 0
   \<and> current_plans ex_memory_one =
       [(js ''Shenzhen-Zhuhai'', \<lparr>distance = 12345, duration = 905\<rparr>)]
   \<and> (12345::nat) < 2 ^ 53 \<and> (905::nat) < 2 ^ 53
   \<and> memoryPanel (updateMemoryPanel ex_memory_one ex_open) =
       [MemoryItem txt_locations_title [js ''Zhuhai'' @ js '': '' @ js ''Guangdong''],
        MemoryItem txt_pois_title [js ''Lovers Road'' @ js '': '' @ js ''Xiangzhou''],
        MemoryItem txt_plans_title
          [js ''Shenzhen-Zhuhai'' @ js '': '' @ js ''12.3'' @ txt_km @ js ''15'' @ txt_minutes],
        QueryCountItem [Txt txt_processed_prefix, Val (JNum 1), Txt txt_processed_suffix]]"
proof -
  have a: "query_count ex_memory_one \<noteq> 0" "current_plans ex_memory_one \<noteq> []"
    by (simp_all add: ex_memory_one_def ex_memory_def)
  have b: "\<forall>e \<in> set (current_plans ex_memory_one).
      distance (snd e) < 2 ^ 53 \<and> duration (snd e) < 2 ^ 53"
    by (simp add: ex_memory_one_def ex_memory_def)
  note th = updateMemoryPanel_plans [OF a b, of ex_open "js ''Shenzhen-Zhuhai''"]
  have 1: "plan_text (js ''Shenzhen-Zhuhai'', \<lparr>distance = 12345, duration = 905\<rparr>) =
      js ''Shenzhen-Zhuhai'' @ js '': '' @ js ''12.3'' @ txt_km @ js ''15'' @ txt_minutes"
    by (rule th [THEN conjunct2, THEN conjunct2])
  show ?thesis
    by (simp add: updateMemoryPanel_def ex_memory_one_def ex_memory_def place_text_def 1)
qed

text \<open>
  The claim as stated fails on a plan beyond that range. A distance of
  \<open>10^24\<close> metres parses to the double next to it, \<open>999999999999999983222784\<close>; the
  quotient by 1000 is the double \<open>10^21\<close>, and from \<open>10^21\<close> on \<open>toFixed\<close> prints the
  way \<open>Number::toString\<close> does: the item shows \<open>1e+21\<close>, not a number with one
  decimal place.
\<close>

lemma digits_e21: "length (digits 1000000000000000000000) = 22"
  by (simp add: digits.simps)

lemma digits_21: "digits 21 = js ''21''"
  by (simp add: digits.simps js_def)

lemma ilog2_e21: "ilog2_quot 1000000000000000000000 (Suc 0) = 69"
  by (simp add: ilog2_quot_def compute_floorlog pow2_def Let_def)

lemma number_div_e21: "number_div 1000000000000000000000 (Suc 0) = 1000000000000000000000"
  by (simp add: number_div_def ilog2_e21 pow2_def round_half_even_def Let_def floor_rat_numeral)

lemma ilog2_2e21: "ilog2_quot 2000000000000000000000 (Suc 0) = 70"
  by (simp add: ilog2_quot_def compute_floorlog pow2_def Let_def)

lemma number_div_2e21: "number_div 2000000000000000000000 (Suc 0) = 2000000000000000000000"
  by (simp add: number_div_def ilog2_2e21 pow2_def round_half_even_def Let_def floor_rat_numeral)

lemma ilog2_e22: "ilog2_quot 10000000000000000000000 (Suc 0) = 73"
  by (simp add: ilog2_quot_def compute_floorlog pow2_def Let_def)

lemma number_div_e22: "number_div 10000000000000000000000 (Suc 0) = 10000000000000000000000"
  by (simp add: number_div_def ilog2_e22 pow2_def round_half_even_def Let_def floor_rat_numeral)

lemma shortest_candidates_e21:
  "shortest_candidates 1000000000000000000000 (Suc 0) = [(1, 21)]"
  by (simp add: shortest_candidates_def digits_e21 Let_def rounds_to_def number_div_e21
      number_div_2e21 number_div_e22)

lemma whole_number_string_e21: "whole_number_string 1000000000000000000000 = js ''1e+21''"
proof -
  have "shortest_digits 1000000000000000000000 (Suc 0) (Suc 16) = (1, Suc 0, 22)"
    by (simp only: shortest_digits.simps shortest_candidates_e21) simp
  then show ?thesis
    by (simp add: whole_number_string_def digits_examples digits_21 js_def)
qed

lemma ilog2_e24: "ilog2_quot 1000000000000000000000000 (Suc 0) = 79"
  by (simp add: ilog2_quot_def compute_floorlog pow2_def Let_def)

lemma number_div_e24:
  "number_div 1000000000000000000000000 (Suc 0) = 999999999999999983222784"
  by (simp add: number_div_def ilog2_e24 pow2_def round_half_even_def Let_def floor_rat_numeral)

lemma parse_digits_e24:
  "parse_digits 1000000000000000000000000 = Finite 999999999999999983222784"
  by (simp add: parse_digits_def number_div_e24 Let_def)

lemma ilog2_e24_1000: "ilog2_quot 999999999999999983222784 1000 = 69"
  by (simp add: ilog2_quot_def compute_floorlog pow2_def Let_def)

lemma number_div_e24_1000:
  "number_div 999999999999999983222784 1000 = 1000000000000000000000"
  by (simp add: number_div_def ilog2_e24_1000 pow2_def round_half_even_def Let_def
      floor_rat_numeral)

lemma ex_far_distance:
  "distanceKm \<lparr>distance = 1000000000000000000000000, duration = 905\<rparr> =
     Finite 1000000000000000000000"
  by (simp add: distanceKm_def parse_digits_e24 number_over_def number_div_e24_1000)

lemma ex_far_text:
  "plan_text (route, \<lparr>distance = 1000000000000000000000000, duration = 905\<rparr>) =
     route @ js '': '' @ js ''1e+21'' @ txt_km @ js ''15'' @ txt_minutes"
proof -
  have "duration \<lparr>distance = 1000000000000000000000000, duration = 905\<rparr> < 2 ^ 53" by simp
  from duration_text_safe [OF this] show ?thesis
    by (simp add: plan_text_def ex_far_distance toFixed1_def whole_number_string_e21
        digits_examples)
qed

theorem updateMemoryPanel_plans_counterexample:
  "query_count ex_memory_far \<noteq> 0
   \<and> current_plans ex_memory_far =
       [(js ''Far'', \<lparr>distance = 1000000000000000000000000, duration = 905\<rparr>)]
   \<and> parse_digits 1000000000000000000000000 = Finite 999999999999999983222784
   \<and> distanceKm \<lparr>distance = 1000000000000000000000000, duration = 905\<rparr> =
       Finite 1000000000000000000000
   \<and> toFixed1 (Finite 1000000000000000000000) = js ''1e+21''
   \<and> memoryPanel (updateMemoryPanel ex_memory_far ex_open) =
       [MemoryItem txt_plans_title
          [js ''Far'' @ js '': '' @ js ''1e+21'' @ txt_km @ js ''15'' @ txt_minutes],
        QueryCountItem [Txt txt_processed_prefix, Val (JNum 1), Txt txt_processed_suffix]]"
  by (simp add: updateMemoryPanel_def ex_memory_far_def ex_far_text parse_digits_e24
      ex_far_distance toFixed1_def whole_number_string_e21)

section \<open>Reachable states and the current channel\<close>

lemma channel_inv_initial: "channel_inv initial_state"
  by (simp add: channel_inv_def initial_state_def)

text \<open>
  A handler that leaves the sockets and the variable \<open>websocket\<close> alone and leaves the
  active query id alone or sets it to \<open>null\<close> keeps the invariant.
\<close>

lemma channel_inv_frame:
  assumes "channel_inv s"
    and "sockets s' = sockets s"
    and "socket_count s' = socket_count s"
    and "websocket s' = websocket s"
    and "activeQueryId s' = activeQueryId s \<or> activeQueryId s' = JNull"
  shows "channel_inv s'"
  using assms by (auto simp: channel_inv_def)

lemma channel_inv_no_live:
  assumes "\<forall>k. readyState (sockets s k) \<noteq> CONNECTING \<and> readyState (sockets s k) \<noteq> OPEN"
  shows "channel_inv s"
  using assms by (simp add: channel_inv_def)

lemma closeWebSocketConnection_no_live:
  assumes "\<forall>k. readyState (sockets s k) = CONNECTING \<or> readyState (sockets s k) = OPEN \<longrightarrow>
      websocket s = Some k"
  shows "readyState (sockets (closeWebSocketConnection s) k) \<noteq> CONNECTING
    \<and> readyState (sockets (closeWebSocketConnection s) k) \<noteq> OPEN"
  using assms
  by (auto simp: closeWebSocketConnection_readyState split: ready_state.splits)

lemma connectWebSocket_channel_inv:
  assumes "\<forall>k. readyState (sockets s k) = CONNECTING \<or> readyState (sockets s k) = OPEN \<longrightarrow>
      websocket s = Some k"
  shows "channel_inv (connectWebSocket q s)"
proof -
  have new: "sockets (connectWebSocket q s) (socket_count s) =
      \<lparr>sock_query = q, readyState = CONNECTING, onclose_set = True, timeout_state = Pending\<rparr>"
    by (rule connectWebSocket_new_socket) simp
  have old: "readyState (sockets (connectWebSocket q s) k) \<noteq> CONNECTING
      \<and> readyState (sockets (connectWebSocket q s) k) \<noteq> OPEN" if "k \<noteq> socket_count s" for k
    using closeWebSocketConnection_no_live [OF assms, of k] that
    by (simp add: connectWebSocket_old_readyState)
  show ?thesis
    unfolding channel_inv_def
  proof (intro allI impI)
    fix k
    assume live: "readyState (sockets (connectWebSocket q s) k) = CONNECTING
        \<or> readyState (sockets (connectWebSocket q s) k) = OPEN"
    then have k: "k = socket_count s" using old by blast
    show "k < socket_count (connectWebSocket q s) \<and> websocket (connectWebSocket q s) = Some k
        \<and> (activeQueryId (connectWebSocket q s) = sock_query (sockets (connectWebSocket q s) k)
           \<or> activeQueryId (connectWebSocket q s) = JNull)"
      by (simp add: k new)
  qed
qed

lemma channel_inv_current:
  "channel_inv s \<Longrightarrow>
     \<forall>k. readyState (sockets s k) = CONNECTING \<or> readyState (sockets s k) = OPEN \<longrightarrow>
       websocket s = Some k"
  by (simp add: channel_inv_def)

lemma sendMessage_channel_inv:
  assumes "channel_inv s"
  shows "channel_inv (sendMessage s)"
proof (cases "trim (messageInput s) = [] \<or> truthy (activeQueryId s)")
  case True
  then have "sendMessage s = s" by (auto simp: sendMessage_def Let_def)
  then show ?thesis using assms by simp
next
  case False
  then have eq: "sockets (sendMessage s) = sockets (closeWebSocketConnection s)"
    by (simp add: sendMessage_def Let_def)
  show ?thesis
  proof (rule channel_inv_no_live, rule allI)
    fix k
    show "readyState (sockets (sendMessage s) k) \<noteq> CONNECTING
        \<and> readyState (sockets (sendMessage s) k) \<noteq> OPEN"
      unfolding eq by (rule closeWebSocketConnection_no_live [OF channel_inv_current [OF assms]])
  qed
qed

lemma sendMessage_catch_session [simp]:
  "websocket (sendMessage_catch s) = websocket s"
  "activeQueryId (sendMessage_catch s) = activeQueryId s"
  by (simp_all add: sendMessage_catch_def)

lemma sendMessage_response_channel_inv:
  assumes "channel_inv s"
  shows "channel_inv (sendMessage_response outcome s)"
proof -
  have c: "channel_inv (connectWebSocket q (s\<lparr>activeQueryId := q\<rparr>))" for q
    using channel_inv_current [OF assms] by (intro connectWebSocket_channel_inv) simp
  have f: "channel_inv (sendMessage_catch s)"
    using assms by (rule channel_inv_frame) simp_all
  have l: "channel_inv (showProcessingStatus False (handleLimitedMode m s))" for m
    using assms by (rule channel_inv_frame) simp_all
  have e: "channel_inv (showProcessingStatus False (showError m s))" for m
    using assms by (rule channel_inv_frame) simp_all
  show ?thesis
    by (simp add: sendMessage_response_def c f l e split: http.split option.split)
qed

lemma connectionTimeout_channel_inv:
  assumes "channel_inv s"
  shows "channel_inv (connectionTimeout s)"
proof (cases "websocket s")
  case None
  then show ?thesis using assms by (simp add: connectionTimeout_def)
next
  case (Some j)
  show ?thesis
  proof (cases "readyState (sockets s j) = OPEN")
    case True
    then show ?thesis using assms Some by (simp add: connectionTimeout_def)
  next
    case False
    have eq: "sockets (connectionTimeout s) = sockets (socket_close j s)"
      using False Some by (simp add: connectionTimeout_def)
    show ?thesis
    proof (rule channel_inv_no_live, rule allI)
      fix k
      show "readyState (sockets (connectionTimeout s) k) \<noteq> CONNECTING
          \<and> readyState (sockets (connectionTimeout s) k) \<noteq> OPEN"
      proof (cases "k = j")
        case True
        then show ?thesis
          using False by (cases "readyState (sockets s j)") (simp_all add: eq socket_close_readyState)
      next
        case neq: False
        have "readyState (sockets s k) \<noteq> CONNECTING \<and> readyState (sockets s k) \<noteq> OPEN"
          using channel_inv_current [OF assms] Some neq by auto
        then show ?thesis using neq by (simp add: eq socket_close_readyState)
      qed
    qed
  qed
qed

lemma ws_onmessage_session:
  "websocket (ws_onmessage q parsed s) = websocket s"
  "activeQueryId (ws_onmessage q parsed s) = activeQueryId s
     \<or> activeQueryId (ws_onmessage q parsed s) = JNull"
  by (simp_all add: ws_onmessage_def Let_def fetchQueryResult_begin_def split: option.split)

lemma ws_onmessage_channel_inv:
  "channel_inv s \<Longrightarrow> channel_inv (ws_onmessage q parsed s)"
  by (erule channel_inv_frame) (simp_all add: ws_onmessage_frame ws_onmessage_session)

lemma ws_onerror_channel_inv: "channel_inv s \<Longrightarrow> channel_inv (ws_onerror s)"
  by (erule channel_inv_frame) (simp_all add: ws_onerror_def)

lemma ws_onopen_channel_inv: "channel_inv s \<Longrightarrow> channel_inv (ws_onopen k s)"
  by (auto simp: channel_inv_def ws_onopen_def)

lemma set_timeout_state_channel_inv:
  "channel_inv s \<Longrightarrow> channel_inv (set_timeout_state k t s)"
  by (auto simp: channel_inv_def set_timeout_state_def)

lemma set_readyState_closed_channel_inv:
  "channel_inv s \<Longrightarrow> channel_inv (set_readyState k CLOSED s)"
  by (auto simp: channel_inv_def set_readyState_def)

lemma set_readyState_open_channel_inv:
  assumes "channel_inv s" and "readyState (sockets s k) = CONNECTING"
  shows "channel_inv (set_readyState k OPEN s)"
  unfolding channel_inv_def
proof (intro allI impI)
  fix j
  assume live: "readyState (sockets (set_readyState k OPEN s) j) = CONNECTING
      \<or> readyState (sockets (set_readyState k OPEN s) j) = OPEN"
  have "readyState (sockets s j) = CONNECTING \<or> readyState (sockets s j) = OPEN"
    using live assms(2) by (cases "j = k") (simp_all add: set_readyState_def)
  then have "j < socket_count s \<and> websocket s = Some j
      \<and> (activeQueryId s = sock_query (sockets s j) \<or> activeQueryId s = JNull)"
    using assms(1) unfolding channel_inv_def by blast
  then show "j < socket_count (set_readyState k OPEN s)
      \<and> websocket (set_readyState k OPEN s) = Some j
      \<and> (activeQueryId (set_readyState k OPEN s) = sock_query (sockets (set_readyState k OPEN s) j)
         \<or> activeQueryId (set_readyState k OPEN s) = JNull)"
    by (auto simp: set_readyState_def)
qed

lemma fetchQueryResult_status_session:
  "websocket (phase_state (fetchQueryResult_status render q outcome s)) = websocket s"
  "activeQueryId (phase_state (fetchQueryResult_status render q outcome s)) = activeQueryId s
     \<or> activeQueryId (phase_state (fetchQueryResult_status render q outcome s)) = JNull"
  by (simp_all add: fetchQueryResult_status_def phase_state_def Let_def
      split: http.split option.split)

lemma fetchQueryResult_result_session:
  "websocket (fetchQueryResult_result outcome s) = websocket s"
  "activeQueryId (fetchQueryResult_result outcome s) = JNull"
  by (simp_all add: fetchQueryResult_result_def fetchMemory_begin_def
      split: http.split option.split jsval.split)

lemma startup_session:
  "websocket (startup_begin s) = websocket s"
  "activeQueryId (startup_begin s) = activeQueryId s"
  "websocket (startup_health ho s) = websocket s"
  "activeQueryId (startup_health ho s) = activeQueryId s"
  "websocket (startup_memory mo s) = websocket s"
  "activeQueryId (startup_memory mo s) = activeQueryId s"
  by (simp_all add: startup_begin_def startup_health_def startup_memory_def
      split: http.split option.split)

lemma memory_handlers_session:
  "websocket (fetchMemory_response mo s) = websocket s"
  "activeQueryId (fetchMemory_response mo s) = activeQueryId s"
  "websocket (resetMemory_begin c s) = websocket s"
  "activeQueryId (resetMemory_begin c s) = activeQueryId s"
  "websocket (resetMemory_response ro s) = websocket s"
  "activeQueryId (resetMemory_response ro s) = activeQueryId s"
  "websocket (viewFullMemory_begin s) = websocket s"
  "activeQueryId (viewFullMemory_begin s) = activeQueryId s"
  "websocket (viewFullMemory_response mo s) = websocket s"
  "activeQueryId (viewFullMemory_response mo s) = activeQueryId s"
  by (simp_all add: fetchMemory_response_def resetMemory_begin_def resetMemory_response_def
      viewFullMemory_begin_def viewFullMemory_response_def
      split: http.split option.split)

lemma dispatch_channel_inv:
  assumes "channel_inv s"
  shows "channel_inv (dispatch render ev s)"
proof (cases ev)
  case DOMContentLoaded
  have "channel_inv (startup_begin s)"
    using assms by (rule channel_inv_frame) (simp_all add: startup_session)
  then show ?thesis using DOMContentLoaded by (simp add: dispatch_def)
next
  case (HealthResponse outcome)
  have "channel_inv (startup_health outcome s)"
    using assms by (rule channel_inv_frame) (simp_all add: startup_session)
  then show ?thesis using HealthResponse by (simp add: dispatch_def)
next
  case (StartupMemoryResponse outcome)
  have "channel_inv (startup_memory outcome s)"
    using assms by (rule channel_inv_frame) (simp_all add: startup_session)
  then show ?thesis using StartupMemoryResponse by (simp add: dispatch_def)
next
  case (Typed t)
  have "channel_inv (s\<lparr>messageInput := t\<rparr>)"
    using assms by (rule channel_inv_frame) simp_all
  then show ?thesis using Typed by (simp add: dispatch_def)
next
  case SendRequested
  then show ?thesis
    using assms by (simp add: dispatch_def sendMessage_channel_inv)
next
  case (QueryResponse outcome)
  then show ?thesis
    using assms by (simp add: dispatch_def sendMessage_response_channel_inv)
next
  case (SocketOpened k)
  then show ?thesis
    using assms
    by (simp add: dispatch_def ws_onopen_channel_inv set_readyState_open_channel_inv)
next
  case (SocketMessage k parsed)
  then show ?thesis
    using assms by (simp add: dispatch_def ws_onmessage_channel_inv)
next
  case (SocketFailed k)
  then show ?thesis
    using assms
    by (simp add: dispatch_def ws_onclose_def ws_onerror_channel_inv
        set_readyState_closed_channel_inv Let_def)
next
  case (SocketClosed k)
  then show ?thesis
    using assms
    by (simp add: dispatch_def ws_onclose_def set_readyState_closed_channel_inv Let_def)
next
  case (TimerFired k)
  then show ?thesis
    using assms
    by (simp add: dispatch_def connectionTimeout_channel_inv set_timeout_state_channel_inv)
next
  case (StatusResponse q outcome)
  have "channel_inv (phase_state (fetchQueryResult_status render q outcome s))"
    using assms
    by (rule channel_inv_frame)
      (simp_all add: fetchQueryResult_status_frame fetchQueryResult_status_session)
  then show ?thesis using StatusResponse by (simp add: dispatch_def)
next
  case (ResultResponse outcome)
  have "channel_inv (fetchQueryResult_result outcome s)"
    using assms
    by (rule channel_inv_frame)
      (simp_all add: fetchQueryResult_result_frame fetchQueryResult_result_session)
  then show ?thesis using ResultResponse by (simp add: dispatch_def)
next
  case (MemoryResponse outcome)
  have "channel_inv (fetchMemory_response outcome s)"
    using assms
    by (rule channel_inv_frame) (simp_all add: memory_handlers_frame memory_handlers_session)
  then show ?thesis using MemoryResponse by (simp add: dispatch_def)
next
  case (ResetRequested c)
  have "channel_inv (resetMemory_begin c s)"
    using assms
    by (rule channel_inv_frame) (simp_all add: memory_handlers_frame memory_handlers_session)
  then show ?thesis using ResetRequested assms by (simp add: dispatch_def)
next
  case (ResetResponse outcome)
  have "channel_inv (resetMemory_response outcome s)"
    using assms
    by (rule channel_inv_frame) (simp_all add: memory_handlers_frame memory_handlers_session)
  then show ?thesis using ResetResponse by (simp add: dispatch_def)
next
  case ViewRequested
  have "channel_inv (viewFullMemory_begin s)"
    using assms
    by (rule channel_inv_frame) (simp_all add: memory_handlers_frame memory_handlers_session)
  then show ?thesis using ViewRequested assms by (simp add: dispatch_def)
next
  case (ViewResponse outcome)
  have "channel_inv (viewFullMemory_response outcome s)"
    using assms
    by (rule channel_inv_frame) (simp_all add: memory_handlers_frame memory_handlers_session)
  then show ?thesis using ViewResponse by (simp add: dispatch_def)
qed

lemma reachable_channel_inv: "reachable render s \<Longrightarrow> channel_inv s"
  by (induction rule: reachable.induct) (simp_all add: channel_inv_initial dispatch_channel_inv)

text \<open>
  In a reachable state the handlers of an open socket were made for the active query:
  the id they captured is the active query id, unless that is \<open>null\<close>.
\<close>

lemma reachable_open_socket:
  assumes "reachable render s" and "readyState (sockets s k) = OPEN"
    and "activeQueryId s \<noteq> JNull"
  shows "sock_query (sockets s k) = activeQueryId s" and "websocket s = Some k"
    and "k < socket_count s"
  using reachable_channel_inv [OF assms(1)] assms(2,3) by (auto simp: channel_inv_def)


section \<open>Completion and failure messages\<close>

text \<open>
  C6, as the code has it. For a message whose \<open>query_id\<close> is strictly equal to the
  active query id:
  \<^item> if it carries no truthy \<open>error\<close> field, its status is \<open>completed\<close> and its
    \<open>result\<close> field is truthy, the status text is updated and \<open>fetchQueryResult\<close> is
    started for the query id the channel was opened for (the status request is sent);
    in a state of the page whose active query id is not \<open>null\<close>, where the message
    arrives on an open socket, that id is the active query id;
  \<^item> if its status is \<open>failed\<close>, exactly one error is shown (the error field if it is
    truthy, the failure text otherwise), no request is sent and the session is idle.
\<close>

theorem ws_onmessage_completed_failed:
  assumes "props data = Some d"
    and "strict_eq (d (js ''query_id'')) (activeQueryId s)"
  shows "(\<not> truthy (d (js ''error'')) \<and> strict_eq (d (js ''status'')) (JStr (js ''completed''))
            \<and> truthy (d (js ''result'')) \<longrightarrow>
          ws_onmessage queryId (Some data) s =
            fetchQueryResult_begin queryId (updateProcessingText (d (js ''status'')) s)
          \<and> outbox (ws_onmessage queryId (Some data) s) =
              outbox s @ [Fetch (GetQueryStatus queryId)]
          \<and> (reachable render s \<and> readyState (sockets s k) = OPEN
                \<and> activeQueryId s \<noteq> JNull \<longrightarrow>
              outbox (dispatch render (SocketMessage k (Some data)) s) =
                outbox s @ [Fetch (GetQueryStatus (activeQueryId s))]))
       \<and> (strict_eq (d (js ''status'')) (JStr (js ''failed'')) \<longrightarrow>
          is_idle (ws_onmessage queryId (Some data) s)
          \<and> outbox (ws_onmessage queryId (Some data) s) = outbox s
          \<and> chat (ws_onmessage queryId (Some data) s) =
              chat s @ [(System, [Txt txt_error_prefix,
                 if truthy (d (js ''error'')) then Val (d (js ''error''))
                 else Txt txt_processing_failed])])"
proof (intro conjI impI)
  assume c: "\<not> truthy (d (js ''error'')) \<and> strict_eq (d (js ''status'')) (JStr (js ''completed''))
            \<and> truthy (d (js ''result''))"
  with assms show eq: "ws_onmessage queryId (Some data) s =
      fetchQueryResult_begin queryId (updateProcessingText (d (js ''status'')) s)"
    by (simp add: ws_onmessage_def)
  show "outbox (ws_onmessage queryId (Some data) s) = outbox s @ [Fetch (GetQueryStatus queryId)]"
    by (simp add: eq fetchQueryResult_begin_def)
  assume r: "reachable render s \<and> readyState (sockets s k) = OPEN \<and> activeQueryId s \<noteq> JNull"
  then have q: "sock_query (sockets s k) = activeQueryId s" and k: "k < socket_count s"
    using reachable_open_socket [of render s k] by simp_all
  have "dispatch render (SocketMessage k (Some data)) s =
      ws_onmessage (activeQueryId s) (Some data) s"
    using r k by (simp add: dispatch_def q)
  also have "\<dots> =
      fetchQueryResult_begin (activeQueryId s) (updateProcessingText (d (js ''status'')) s)"
    using assms c by (simp add: ws_onmessage_def)
  finally show "outbox (dispatch render (SocketMessage k (Some data)) s) =
      outbox s @ [Fetch (GetQueryStatus (activeQueryId s))]"
    by (simp add: fetchQueryResult_begin_def)
next
  assume f: "strict_eq (d (js ''status'')) (JStr (js ''failed''))"
  show "is_idle (ws_onmessage queryId (Some data) s)"
    using assms f by (simp add: ws_onmessage_def is_idle_def)
  show "outbox (ws_onmessage queryId (Some data) s) = outbox s"
    using assms f by (simp add: ws_onmessage_def)
  show "chat (ws_onmessage queryId (Some data) s) =
      chat s @ [(System, [Txt txt_error_prefix,
         if truthy (d (js ''error'')) then Val (d (js ''error''))
         else Txt txt_processing_failed])]"
    using assms f by (simp add: ws_onmessage_def)
qed

lemma ex_completed_props:
  "props ex_completed_message =
     Some (\<lambda>k. case map_of (rev [(js ''query_id'', ex_q1), (js ''status'', JStr (js ''completed'')),
                                    (js ''result'', JBool True)]) k of
                 None \<Rightarrow> JUndefined | Some x \<Rightarrow> x)"
  by (simp add: ex_completed_message_def props_JObj)

lemma ex_failed_props:
  "props ex_failed_message =
     Some (\<lambda>k. case map_of (rev [(js ''query_id'', ex_q1), (js ''status'', JStr (js ''failed''))]) k of
                 None \<Rightarrow> JUndefined | Some x \<Rightarrow> x)"
  by (simp add: ex_failed_message_def props_JObj)

lemma ex_completed_fields:
  "field ex_completed_message (js ''error'') = JUndefined"
  "field ex_completed_message (js ''query_id'') = ex_q1"
  "field ex_completed_message (js ''status'') = JStr (js ''completed'')"
  "field ex_completed_message (js ''result'') = JBool True"
  by (simp_all add: ex_completed_message_def field_JObj)

lemma ex_failed_fields:
  "field ex_failed_message (js ''error'') = JUndefined"
  "field ex_failed_message (js ''query_id'') = ex_q1"
  "field ex_failed_message (js ''status'') = JStr (js ''failed'')"
  by (simp_all add: ex_failed_message_def field_JObj)

theorem ws_onmessage_completed_failed_witness:
  "strict_eq (field ex_completed_message (js ''query_id'')) (activeQueryId ex_open)
   \<and> \<not> truthy (field ex_completed_message (js ''error''))
   \<and> strict_eq (field ex_completed_message (js ''status'')) (JStr (js ''completed''))
   \<and> truthy (field ex_completed_message (js ''result''))
   \<and> reachable ex_render ex_open \<and> readyState (sockets ex_open 0) = OPEN
   \<and> activeQueryId ex_open = ex_q1
   \<and> outbox (dispatch ex_render (SocketMessage 0 (Some ex_completed_message)) ex_open) =
       outbox ex_open @ [Fetch (GetQueryStatus ex_q1)]
   \<and> strict_eq (field ex_failed_message (js ''query_id'')) (activeQueryId ex_open)
   \<and> strict_eq (field ex_failed_message (js ''status'')) (JStr (js ''failed''))
   \<and> is_idle (ws_onmessage ex_q1 (Some ex_failed_message) ex_open)
   \<and> chat (ws_onmessage ex_q1 (Some ex_failed_message) ex_open) =
       chat ex_open @ [(System, [Txt txt_error_prefix, Txt txt_processing_failed])]"
proof -
  have c: "strict_eq (field ex_completed_message (js ''query_id'')) (activeQueryId ex_open)"
    "\<not> truthy (field ex_completed_message (js ''error''))"
    "strict_eq (field ex_completed_message (js ''status'')) (JStr (js ''completed''))"
    "truthy (field ex_completed_message (js ''result''))"
    by (simp_all add: ex_completed_fields ex_open_fields)
  have o: "reachable ex_render ex_open" "readyState (sockets ex_open 0) = OPEN"
    "activeQueryId ex_open = ex_q1" "activeQueryId ex_open \<noteq> JNull"
    by (simp_all add: ex_reachable ex_open_fields)
  have f: "strict_eq (field ex_failed_message (js ''query_id'')) (activeQueryId ex_open)"
    "strict_eq (field ex_failed_message (js ''status'')) (JStr (js ''failed''))"
    "\<not> truthy (field ex_failed_message (js ''error''))"
    by (simp_all add: ex_failed_fields ex_open_fields)
  have 1: "outbox (dispatch ex_render (SocketMessage 0 (Some ex_completed_message)) ex_open) =
       outbox ex_open @ [Fetch (GetQueryStatus ex_q1)]"
    using c o ws_onmessage_completed_failed
      [OF ex_completed_props, where s = ex_open and queryId = ex_q1 and render = ex_render
         and k = 0]
    by (simp add: field_props [OF ex_completed_props] fetchQueryResult_begin_def)
  have 2: "is_idle (ws_onmessage ex_q1 (Some ex_failed_message) ex_open)
      \<and> chat (ws_onmessage ex_q1 (Some ex_failed_message) ex_open) =
       chat ex_open @ [(System, [Txt txt_error_prefix, Txt txt_processing_failed])]"
    using f ws_onmessage_completed_failed
      [OF ex_failed_props, where s = ex_open and queryId = ex_q1 and render = ex_render
         and k = 0]
    by (simp add: field_props [OF ex_failed_props])
  from c o f 1 2 show ?thesis by simp
qed

text \<open>
  The claim as stated fails twice. On a \<open>completed\<close> message without a \<open>result\<close>
  field the status text changes, no request is sent, and the query stays active. And
  the fetch is started for the id the channel was opened for, which the message need
  not carry: after an error message has reset the session, the active query id is
  \<open>null\<close> and the channel is still open; a \<open>completed\<close> message whose query id is
  \<open>null\<close> matches the active query id, and the fetch is started for \<open>q1\<close>.
\<close>

lemma ex_completed_no_result_fields:
  "field ex_completed_no_result (js ''error'') = JUndefined"
  "field ex_completed_no_result (js ''query_id'') = ex_q1"
  "field ex_completed_no_result (js ''status'') = JStr (js ''completed'')"
  "field ex_completed_no_result (js ''result'') = JUndefined"
  by (simp_all add: ex_completed_no_result_def field_JObj)

lemma ex_completed_no_result_handled:
  "ws_onmessage ex_q1 (Some ex_completed_no_result) ex_open =
     updateProcessingText (JStr (js ''completed'')) ex_open"
  by (simp add: ws_onmessage_def ex_completed_no_result_def props_JObj ex_open_fields)

lemma ex_after_error_eq:
  "ex_after_error =
     (showProcessingStatus False (showError [Val (JStr (js ''Query not found''))] ex_open))
     \<lparr>activeQueryId := JNull\<rparr>"
  by (simp add: ex_after_error_def dispatch_def ex_open_fields ex_error_handled)

lemma ex_after_error_fields:
  "activeQueryId ex_after_error = JNull"
  "socket_count ex_after_error = Suc 0"
  "sockets ex_after_error 0 =
     \<lparr>sock_query = ex_q1, readyState = OPEN, onclose_set = True, timeout_state = Cleared\<rparr>"
  "outbox ex_after_error = outbox ex_open"
  by (simp_all add: ex_after_error_eq ex_open_fields)

lemma ex_after_error_reachable: "reachable ex_render ex_after_error"
  unfolding ex_after_error_def by (intro reachable.step ex_reachable)

lemma ex_null_completed_fields:
  "field ex_null_completed (js ''error'') = JUndefined"
  "field ex_null_completed (js ''query_id'') = JNull"
  "field ex_null_completed (js ''status'') = JStr (js ''completed'')"
  "field ex_null_completed (js ''result'') = JBool True"
  by (simp_all add: ex_null_completed_def field_JObj)

lemma ex_null_completed_handled:
  "dispatch ex_render (SocketMessage 0 (Some ex_null_completed)) ex_after_error =
     fetchQueryResult_begin ex_q1
       (updateProcessingText (JStr (js ''completed'')) ex_after_error)"
  by (simp add: dispatch_def ex_after_error_fields ws_onmessage_def ex_null_completed_def
      props_JObj)

theorem ws_onmessage_completed_counterexample:
  "reachable ex_render ex_open
   \<and> strict_eq (field ex_completed_no_result (js ''query_id'')) (activeQueryId ex_open)
   \<and> strict_eq (field ex_completed_no_result (js ''status'')) (JStr (js ''completed''))
   \<and> outbox (ws_onmessage ex_q1 (Some ex_completed_no_result) ex_open) = outbox ex_open
   \<and> activeQueryId (ws_onmessage ex_q1 (Some ex_completed_no_result) ex_open) = ex_q1
   \<and> \<not> processing_hidden (ws_onmessage ex_q1 (Some ex_completed_no_result) ex_open)
   \<and> reachable ex_render ex_after_error
   \<and> readyState (sockets ex_after_error 0) = OPEN
   \<and> activeQueryId ex_after_error = JNull
   \<and> strict_eq (field ex_null_completed (js ''query_id'')) (activeQueryId ex_after_error)
   \<and> \<not> truthy (field ex_null_completed (js ''error''))
   \<and> strict_eq (field ex_null_completed (js ''status'')) (JStr (js ''completed''))
   \<and> truthy (field ex_null_completed (js ''result''))
   \<and> outbox (dispatch ex_render (SocketMessage 0 (Some ex_null_completed)) ex_after_error) =
       outbox ex_after_error @ [Fetch (GetQueryStatus ex_q1)]
   \<and> ex_q1 \<noteq> JNull"
  by (simp add: ex_completed_no_result_handled ex_completed_no_result_fields ex_open_fields
      ex_reachable ex_after_error_reachable ex_after_error_fields ex_null_completed_fields
      ex_null_completed_handled fetchQueryResult_begin_def)


end
